theory Spec2Isabelle
  imports Complex_Main "HOL-Library.Word" "HOL-Library.Sublist"
begin

section \<open>JavaScript strings and values\<close>

text \<open>
  A JavaScript string is a sequence of UTF-16 code units; \<open>length\<close>, \<open>substring\<close>,
  \<open>includes\<close> and the regular expressions of the operators all count code units.
  ASCII literals of the source are written \<open>ascii ''...''\<close>; the Chinese messages of
  the source are given by their code units, with an English gloss.
\<close>

type_synonym jschar = "16 word"
type_synonym jsstring = "jschar list"
type_synonym buffer = "8 word list"

definition ascii :: "string \<Rightarrow> jsstring" where
  "ascii s = map (\<lambda>c. of_nat (of_char c)) s"

definition LF :: jschar where "LF = 0x0A"
definition CR :: jschar where "CR = 0x0D"

text \<open>\<open>String(n)\<close> of a non-negative integer below \<open>10^21\<close>: its decimal digits.\<close>

fun dec :: "nat \<Rightarrow> jsstring" where
  "dec n = (if n < 10 then [of_nat (48 + n)] else dec (n div 10) @ [of_nat (48 + n mod 10)])"

declare dec.simps [simp del]

definition isWhiteSpace :: "jschar \<Rightarrow> bool" where
  \<comment> \<open>the class \<open>\s\<close> of ECMAScript regular expressions: WhiteSpace and LineTerminator\<close>
  "isWhiteSpace c =
     (c \<in> set [0x09, 0x0A, 0x0B, 0x0C, 0x0D, 0x20, 0xA0, 0x1680, 0x2028, 0x2029, 0x202F,
                0x205F, 0x3000, 0xFEFF]
      \<or> (0x2000 \<le> c \<and> c \<le> 0x200A))"

text \<open>\<open>s.trim()\<close>\<close>

definition trim :: "jsstring \<Rightarrow> jsstring" where
  "trim s = rev (dropWhile isWhiteSpace (rev (dropWhile isWhiteSpace s)))"

text \<open>\<open>s.startsWith(p)\<close>, \<open>s.endsWith(p)\<close>, \<open>s.includes(p)\<close>, and \<open>s.replace(p, r)\<close>
  for a string pattern \<open>p\<close> (the first occurrence only) and a replacement without
  \<open>$\<close>.\<close>

definition startsWith :: "'a list \<Rightarrow> 'a list \<Rightarrow> bool" where
  "startsWith s p = (take (length p) s = p)"

definition endsWith :: "'a list \<Rightarrow> 'a list \<Rightarrow> bool" where
  "endsWith s p = (length p \<le> length s \<and> drop (length s - length p) s = p)"

fun includes_str :: "'a list \<Rightarrow> 'a list \<Rightarrow> bool" where
  "includes_str [] p = (p = [])"
| "includes_str (x # xs) p = (startsWith (x # xs) p \<or> includes_str xs p)"

fun replace_first :: "'a list \<Rightarrow> 'a list \<Rightarrow> 'a list \<Rightarrow> 'a list" where
  "replace_first [] p r = (if p = [] then r else [])"
| "replace_first (x # xs) p r =
     (if startsWith (x # xs) p then r @ drop (length p) (x # xs)
      else x # replace_first xs p r)"

datatype jsval =
    JUndefined
  | JNull
  | JBool bool
  | JNum rat
  | JStr jsstring
  | JArr "jsval list"
  | JObj "(jsstring \<times> jsval) list"

datatype jstype = TUndefined | TObject | TBoolean | TNumber | TString

fun typeof :: "jsval \<Rightarrow> jstype" where
  "typeof JUndefined = TUndefined"
| "typeof JNull = TObject"
| "typeof (JBool _) = TBoolean"
| "typeof (JNum _) = TNumber"
| "typeof (JStr _) = TString"
| "typeof (JArr _) = TObject"
| "typeof (JObj _) = TObject"

text \<open>Truthiness: \<open>undefined\<close>, \<open>null\<close>, \<open>false\<close>, \<open>0\<close> and \<open>''\<close> are falsy.\<close>

fun truthy :: "jsval \<Rightarrow> bool" where
  "truthy JUndefined = False"
| "truthy JNull = False"
| "truthy (JBool b) = b"
| "truthy (JNum n) = (n \<noteq> 0)"
| "truthy (JStr s) = (s \<noteq> [])"
| "truthy (JArr _) = True"
| "truthy (JObj _) = True"

fun isArray :: "jsval \<Rightarrow> bool" where
  "isArray (JArr _) = True"
| "isArray _ = False"

text \<open>\<open>a || b\<close> on values.\<close>

definition js_or :: "jsval \<Rightarrow> jsval \<Rightarrow> jsval" where
  "js_or a b = (if truthy a then a else b)"

section \<open>Errors, the world and effects\<close>

text \<open>
  An \<open>Error\<close> carries its message; an error of the HTTP client also carries the
  response (status and status text).
\<close>

datatype jserror = JSError (message: jsstring) (response: "(nat \<times> jsstring) option")

definition Err :: "jsstring \<Rightarrow> jserror" where
  "Err m = JSError m None"

datatype fdata = FString jsstring | FBuffer buffer

datatype fs_op = OpRead | OpWrite | OpStat | OpUnlink

datatype event =
    EvHttpGet jsstring
  | EvReadFile jsstring
  | EvMustache
  | EvMarked
  | EvRenderFile jsstring
  | EvWriteFile jsstring fdata
  | EvStat jsstring
  | EvUpload jsstring jsstring
  | EvUnlink jsstring
  | EvGetFile jsstring
  | EvGetFileContent jsstring
  | EvParse jsstring

text \<open>
  The world a request runs in: the local file system (a file is its exact path string)
  and the trace of the effects performed so far, oldest first. The length of the trace
  is the time of the next effect: everything the environment decides (the clock, a fresh
  uuid, what a download, an upload or a renderer answers, whether a file operation
  fails) is a function of that time.
\<close>

record world =
  files :: "jsstring \<rightharpoonup> fdata"
  trace :: "event list"

definition now :: "world \<Rightarrow> nat" where
  "now s = length (trace s)"

definition emit :: "event \<Rightarrow> world \<Rightarrow> world" where
  "emit ev s = s\<lparr>trace := trace s @ [ev]\<rparr>"

type_synonym 'a io = "world \<Rightarrow> (jserror + 'a) \<times> world"

definition io_ret :: "'a \<Rightarrow> 'a io" where
  "io_ret x s = (Inr x, s)"

definition io_throw :: "jserror \<Rightarrow> 'a io" where
  "io_throw e s = (Inl e, s)"

definition io_bind :: "'a io \<Rightarrow> ('a \<Rightarrow> 'b io) \<Rightarrow> 'b io" where
  "io_bind m f s = (case m s of (Inl e, s') \<Rightarrow> (Inl e, s') | (Inr x, s') \<Rightarrow> f x s')"

definition io_then :: "unit io \<Rightarrow> 'b io \<Rightarrow> 'b io" where
  "io_then m k = io_bind m (\<lambda>_. k)"

text \<open>\<open>try { m } catch (error) { h error }\<close>\<close>

definition try_catch :: "'a io \<Rightarrow> (jserror \<Rightarrow> 'a io) \<Rightarrow> 'a io" where
  "try_catch m h s = (case m s of (Inl e, s') \<Rightarrow> h e s' | (Inr x, s') \<Rightarrow> (Inr x, s'))"

text \<open>\<open>try { m } finally { c }\<close>: \<open>c\<close> runs whatever \<open>m\<close> did; an error of \<open>c\<close>
  replaces the outcome of \<open>m\<close>.\<close>

definition try_finally :: "'a io \<Rightarrow> unit io \<Rightarrow> 'a io" where
  "try_finally m c s =
     (case m s of (r, s') \<Rightarrow>
        (case c s' of (Inl e, s'') \<Rightarrow> (Inl e, s'') | (Inr _, s'') \<Rightarrow> (r, s'')))"

text \<open>A pure library call that may throw.\<close>

definition io_of :: "jserror + 'a \<Rightarrow> 'a io" where
  "io_of r s = (r, s)"

text \<open>The storage client of the platform SDK, found at \<open>req.genispace.client\<close>.\<close>

record upload_file =
  up_path :: jsstring
  up_mimetype :: jsstring
  up_originalname :: jsstring

record upload_options =
  up_folderPath :: jsstring
  up_fileName :: jsstring

record client =
  storage_getFile :: "nat \<Rightarrow> jsstring \<Rightarrow> jserror + jsval"
  storage_getFileContent :: "nat \<Rightarrow> jsstring \<Rightarrow> jserror + buffer"
  storage_uploadFile :: "nat \<Rightarrow> upload_file \<Rightarrow> upload_options \<Rightarrow> jserror + jsval"

text \<open>The Express request as the operators read it: \<open>req\<close> may be missing, and
  \<open>req.genispace.client\<close> may be missing.\<close>

datatype request = NoRequest | Request "client option"

fun client_of :: "request \<Rightarrow> client option" where
  "client_of NoRequest = None"
| "client_of (Request c) = c"

text \<open>
  The libraries and the environment, as parameters: the ECMAScript and Node built-ins
  the operators call, the third-party renderers and parsers, the clock and the random
  sources (indexed by the time of the call), and the faults of the file system.
\<close>

record env =
  toLowerCase :: "jsstring \<Rightarrow> jsstring"
  js_toString :: "jsval \<Rightarrow> jsstring"
  path_extname :: "jsstring \<Rightarrow> jsstring"
  path_join :: "jsstring \<Rightarrow> jsstring \<Rightarrow> jsstring"
  typeErrorMessage :: jsstring
  utf8_length :: "jsstring \<Rightarrow> nat"
  utf8_decode :: "buffer \<Rightarrow> jsstring"
  utf16le_decode :: "buffer \<Rightarrow> jsstring"
  process_env :: "jsstring \<rightharpoonup> jsstring"
  date_now :: "nat \<Rightarrow> nat"
  date_getFullYear :: "nat \<Rightarrow> nat"
  date_getMonth :: "nat \<Rightarrow> nat"
  date_toISOString :: "nat \<Rightarrow> jsstring"
  uuidv4 :: "nat \<Rightarrow> jsstring"
  random_base36 :: "nat \<Rightarrow> jsstring"
  axios_get :: "nat \<Rightarrow> jsstring \<Rightarrow> jserror + jsstring"
  mustache_render :: "jsstring \<Rightarrow> jsval \<Rightarrow> jserror + jsstring"
  marked_parse :: "jsstring \<Rightarrow> jserror + jsstring"
  puppeteer_pdf :: "nat \<Rightarrow> jsstring \<Rightarrow> jsval \<Rightarrow> jserror + buffer"
  docx_build :: "nat \<Rightarrow> jsstring \<Rightarrow> jsval \<Rightarrow> jserror + buffer"
  pdf_parse :: "nat \<Rightarrow> fdata \<Rightarrow> jserror + jsstring"
  mammoth_extractRawText :: "nat \<Rightarrow> fdata option \<Rightarrow> jserror + jsstring"
  textract_require :: "jserror option"
  textract_fromFileWithPath :: "nat \<Rightarrow> fdata option \<Rightarrow> jserror + jsstring"
  xlsx_readFile :: "nat \<Rightarrow> fdata option \<Rightarrow> jserror + jsval list list list"
  fs_fault :: "nat \<Rightarrow> fs_op \<Rightarrow> jsstring \<Rightarrow> jserror option"

subsection \<open>The file system\<close>

definition enoent :: "jsstring \<Rightarrow> jserror" where
  "enoent p = Err (ascii ''ENOENT: no such file or directory, '' @ p)"

definition fs_existsSync :: "jsstring \<Rightarrow> bool io" where
  "fs_existsSync p s = (Inr (files s p \<noteq> None), s)"

definition fs_writeFileSync :: "env \<Rightarrow> jsstring \<Rightarrow> fdata \<Rightarrow> unit io" where
  "fs_writeFileSync e p d s =
     (let s' = emit (EvWriteFile p d) s in
      case fs_fault e (now s) OpWrite p of
        Some err \<Rightarrow> (Inl err, s')
      | None \<Rightarrow> (Inr (), s'\<lparr>files := (files s)(p \<mapsto> d)\<rparr>))"

definition fs_readFileSync :: "env \<Rightarrow> jsstring \<Rightarrow> fdata io" where
  "fs_readFileSync e p s =
     (let s' = emit (EvReadFile p) s in
      case fs_fault e (now s) OpRead p of
        Some err \<Rightarrow> (Inl err, s')
      | None \<Rightarrow> (case files s p of None \<Rightarrow> (Inl (enoent p), s') | Some d \<Rightarrow> (Inr d, s')))"

definition fdata_size :: "env \<Rightarrow> fdata \<Rightarrow> nat" where
  "fdata_size e d = (case d of FString t \<Rightarrow> utf8_length e t | FBuffer b \<Rightarrow> length b)"

definition fdata_text :: "env \<Rightarrow> fdata \<Rightarrow> jsstring" where
  "fdata_text e d = (case d of FString t \<Rightarrow> t | FBuffer b \<Rightarrow> utf8_decode e b)"

definition fdata_text16 :: "env \<Rightarrow> fdata \<Rightarrow> jsstring" where
  "fdata_text16 e d = (case d of FString t \<Rightarrow> t | FBuffer b \<Rightarrow> utf16le_decode e b)"

text \<open>\<open>fs.statSync(p).size\<close>\<close>

definition fs_statSync_size :: "env \<Rightarrow> jsstring \<Rightarrow> nat io" where
  "fs_statSync_size e p s =
     (let s' = emit (EvStat p) s in
      case fs_fault e (now s) OpStat p of
        Some err \<Rightarrow> (Inl err, s')
      | None \<Rightarrow> (case files s p of
                  None \<Rightarrow> (Inl (enoent p), s')
                | Some d \<Rightarrow> (Inr (fdata_size e d), s')))"

definition fs_unlinkSync :: "env \<Rightarrow> jsstring \<Rightarrow> unit io" where
  "fs_unlinkSync e p s =
     (let s' = emit (EvUnlink p) s in
      case fs_fault e (now s) OpUnlink p of
        Some err \<Rightarrow> (Inl err, s')
      | None \<Rightarrow> (case files s p of
                  None \<Rightarrow> (Inl (enoent p), s')
                | Some _ \<Rightarrow> (Inr (), s'\<lparr>files := (files s)(p := None)\<rparr>)))"


subsection \<open>Code shared by the operators\<close>

definition io_now :: "nat io" where
  "io_now s = (Inr (now s), s)"

text \<open>Reading a property: \<open>undefined.x\<close> and \<open>null.x\<close> throw a TypeError; a missing
  property is \<open>undefined\<close>. (The properties read here are \<open>data\<close>, \<open>name\<close>,
  \<open>fileName\<close>, \<open>publicUrl\<close> and \<open>url\<close>, none of which is a built-in property of a
  string, number, boolean or array.)\<close>

fun get_prop :: "env \<Rightarrow> jsval \<Rightarrow> jsstring \<Rightarrow> jserror + jsval" where
  "get_prop e JUndefined k = Inl (Err (typeErrorMessage e))"
| "get_prop e JNull k = Inl (Err (typeErrorMessage e))"
| "get_prop e (JObj kvs) k = Inr (case map_of kvs k of None \<Rightarrow> JUndefined | Some v \<Rightarrow> v)"
| "get_prop e _ k = Inr JUndefined"

text \<open>\<open>`${v}`\<close>: a string is itself, anything else is converted by the engine.\<close>

definition to_str :: "env \<Rightarrow> jsval \<Rightarrow> jsstring" where
  "to_str e v = (case v of JStr t \<Rightarrow> t | _ \<Rightarrow> js_toString e v)"

definition msg_missing_auth :: jsstring where
  \<comment> \<open>missing authentication, provide a GeniSpace API Key in the request headers\<close>
  "msg_missing_auth =
     [0x7F3A, 0x5C11, 0x8BA4, 0x8BC1, 0x4FE1, 0x606F, 0xFF0C, 0x8BF7, 0x5728, 0x8BF7, 0x6C42, 0x5934, 0x4E2D, 0x63D0, 0x4F9B] @
     ascii '' GeniSpace API Key''"

definition msg_template_required :: jsstring where
  \<comment> \<open>a Markdown template is required\<close>
  "msg_template_required =
     [0x5FC5, 0x987B, 0x63D0, 0x4F9B] @ ascii '' Markdown '' @
     [0x6A21, 0x677F, 0x5185, 0x5BB9]"

definition msg_template_data_invalid :: jsstring where
  \<comment> \<open>valid JSON template data is required\<close>
  "msg_template_data_invalid =
     [0x5FC5, 0x987B, 0x63D0, 0x4F9B, 0x6709, 0x6548, 0x7684] @ ascii '' JSON '' @
     [0x6A21, 0x677F, 0x6570, 0x636E]"

definition msg_pdf_failed :: jsstring where
  \<comment> \<open>PDF generation failed: \<close>
  "msg_pdf_failed =
     ascii ''PDF '' @ [0x751F, 0x6210, 0x5931, 0x8D25] @ ascii '': ''"

definition msg_template_download_failed :: jsstring where
  \<comment> \<open>cannot download the template file: \<close>
  "msg_template_download_failed =
     [0x65E0, 0x6CD5, 0x4E0B, 0x8F7D, 0x6A21, 0x677F, 0x6587, 0x4EF6] @ ascii '': ''"

definition msg_upload_missing_auth :: jsstring where
  \<comment> \<open>missing authentication, cannot upload to platform storage\<close>
  "msg_upload_missing_auth =
     [0x7F3A, 0x5C11, 0x8BA4, 0x8BC1, 0x4FE1, 0x606F, 0xFF0C, 0x65E0, 0x6CD5, 0x4E0A, 0x4F20, 0x6587, 0x4EF6, 0x5230, 0x5E73, 0x53F0, 0x5B58, 0x50A8]"

definition msg_upload_failed :: jsstring where
  \<comment> \<open>platform storage upload failed: \<close>
  "msg_upload_failed =
     [0x5E73, 0x53F0, 0x5B58, 0x50A8, 0x4E0A, 0x4F20, 0x5931, 0x8D25] @ ascii '': ''"

definition msg_markdown_required :: jsstring where
  \<comment> \<open>Markdown content is required\<close>
  "msg_markdown_required =
     [0x5FC5, 0x987B, 0x63D0, 0x4F9B] @ ascii '' Markdown '' @ [0x5185, 0x5BB9]"

definition msg_template_data_object :: jsstring where
  \<comment> \<open>templateData must be an object\<close>
  "msg_template_data_object =
     ascii ''templateData '' @ [0x5FC5, 0x987B, 0x662F, 0x5BF9, 0x8C61, 0x683C, 0x5F0F]"

definition msg_markdown_failed :: jsstring where
  \<comment> \<open>Markdown generation failed: \<close>
  "msg_markdown_failed =
     ascii ''Markdown '' @ [0x751F, 0x6210, 0x5931, 0x8D25] @ ascii '': ''"

definition msg_file_write_failed :: jsstring where
  \<comment> \<open>writing the file failed: \<close>
  "msg_file_write_failed =
     [0x6587, 0x4EF6, 0x5199, 0x5165, 0x5931, 0x8D25] @ ascii '': ''"

definition msg_auth_must_be_enabled :: jsstring where
  \<comment> \<open>GENISPACE_AUTH must be enabled to use this feature\<close>
  "msg_auth_must_be_enabled =
     [0x5FC5, 0x987B, 0x542F, 0x7528] @ ascii '' GENISPACE_AUTH '' @
     [0x624D, 0x80FD, 0x4F7F, 0x7528, 0x6B64, 0x529F, 0x80FD]"

definition msg_word_failed :: jsstring where
  \<comment> \<open>Word generation failed: \<close>
  "msg_word_failed =
     ascii ''Word '' @ [0x751F, 0x6210, 0x5931, 0x8D25] @ ascii '': ''"

definition html_page_head :: jsstring where
  "html_page_head =
     [0x0A] @ ascii ''      <!DOCTYPE html>'' @ [0x0A] @ ascii ''      <html lang='' @
     [0x22] @ ascii ''zh-CN'' @ [0x22] @ ascii ''>'' @ [0x0A] @ ascii ''      <head>'' @
     [0x0A] @ ascii ''        <meta charset='' @ [0x22] @ ascii ''UTF-8'' @ [0x22] @
     ascii ''>'' @ [0x0A] @ ascii ''        <meta name='' @ [0x22] @ ascii ''viewport'' @
     [0x22] @ ascii '' content='' @ [0x22] @
     ascii ''width=device-width, initial-scale=1.0'' @ [0x22] @ ascii ''>'' @ [0x0A] @
     ascii ''        <title>Generated ''"

definition html_page_style :: jsstring where
  "html_page_style =
     ascii ''</title>'' @ [0x0A] @ ascii ''        <style>''"

definition html_page_body :: jsstring where
  "html_page_body =
     ascii ''</style>'' @ [0x0A] @ ascii ''      </head>'' @ [0x0A] @
     ascii ''      <body>'' @ [0x0A] @ ascii ''        ''"

definition html_page_tail :: jsstring where
  "html_page_tail =
     [0x0A] @ ascii ''      </body>'' @ [0x0A] @ ascii ''      </html>'' @ [0x0A] @
     ascii ''    ''"

definition word_defaultCSS :: jsstring where
  "word_defaultCSS =
     [0x0A] @ ascii ''      body { '' @ [0x0A] @ ascii ''        font-family: '' @ [0x27] @
     ascii ''Microsoft YaHei'' @ [0x27] @ ascii '', '' @ [0x27] @ ascii ''SimSun'' @
     [0x27] @ ascii '', Arial, sans-serif;'' @ [0x0A] @
     ascii ''        line-height: 1.6;'' @ [0x0A] @ ascii ''        color: #333;'' @
     [0x0A] @ ascii ''        font-size: 12pt;'' @ [0x0A] @ ascii ''      }'' @ [0x0A] @
     ascii ''      h1, h2, h3, h4, h5, h6 { '' @ [0x0A] @
     ascii ''        color: #2c3e50;'' @ [0x0A] @ ascii ''        margin-top: 1.5em;'' @
     [0x0A] @ ascii ''        margin-bottom: 0.5em;'' @ [0x0A] @ ascii ''      }'' @
     [0x0A] @ ascii ''      h1 { font-size: 24pt; }'' @ [0x0A] @
     ascii ''      h2 { font-size: 18pt; }'' @ [0x0A] @
     ascii ''      h3 { font-size: 14pt; }'' @ [0x0A] @
     ascii ''      table { border-collapse: collapse; width: 100%; margin: 1em 0; }'' @
     [0x0A] @
     ascii ''      th, td { border: 1px solid #ddd; padding: 8px; text-align: left; }'' @
     [0x0A] @ ascii ''      th { background-color: #f2f2f2; font-weight: bold; }'' @
     [0x0A] @ ascii ''      code { background-color: #f4f4f4; padding: 2px 4px; }'' @
     [0x0A] @
     ascii ''      pre { background-color: #f4f4f4; padding: 1em; overflow-x: auto; }'' @
     [0x0A] @
     ascii ''      blockquote { border-left: 4px solid #3498db; margin: 1em 0; padding-left: 1em; color: #666; }'' @
     [0x0A] @ ascii ''      img { max-width: 100%; height: auto; }'' @ [0x0A] @
     ascii ''    ''"

text \<open>\<open>checkAuth\<close> of PDFGenerator and of TextExtractor (the same code in both).\<close>

definition checkAuth :: "request \<Rightarrow> unit io" where
  "checkAuth req =
     (case client_of req of
        None \<Rightarrow> io_throw (Err msg_missing_auth)
      | Some _ \<Rightarrow> io_ret ())"

text \<open>\<open>getTemplateContent\<close> of PDFGenerator and of MarkdownGenerator (the same code in
  both): a URL is downloaded; a string that looks like a path is read from the local
  file system, and taken as the template itself when reading fails; anything else is the
  template. A template that is not a string has no \<open>startsWith\<close>: the engine throws a
  TypeError.\<close>

definition getTemplateContent :: "env \<Rightarrow> jsval \<Rightarrow> jsstring io" where
  "getTemplateContent e template =
     (case template of
        JStr t \<Rightarrow>
          if startsWith t (ascii ''http://'') \<or> startsWith t (ascii ''https://'') then
            try_catch
              (\<lambda>s. (axios_get e (now s) t, emit (EvHttpGet t) s))
              (\<lambda>err. io_throw (Err (msg_template_download_failed @ message err)))
          else if \<not> includes_str t [LF] \<and> \<not> includes_str t (ascii ''#'')
                  \<and> (includes_str t (ascii ''/'') \<or> includes_str t [0x5C]) then
            try_catch
              (io_bind (fs_readFileSync e t) (\<lambda>d. io_ret (fdata_text e d)))
              (\<lambda>err. io_ret t)
          else io_ret t
      | _ \<Rightarrow> io_throw (Err (typeErrorMessage e)))"

definition mustache :: "env \<Rightarrow> jsstring \<Rightarrow> jsval \<Rightarrow> jsstring io" where
  "mustache e template data s = (mustache_render e template data, emit EvMustache s)"

definition marked :: "env \<Rightarrow> jsstring \<Rightarrow> jsstring io" where
  "marked e markdown s = (marked_parse e markdown, emit EvMarked s)"

text \<open>The body of \<open>uploadToPlatformStorage\<close> (the three generators differ in the folder,
  the MIME type and the extension only): the SDK call, then
  \<open>uploadedFile.publicUrl || uploadedFile.url\<close>.\<close>

definition upload ::
    "env \<Rightarrow> client \<Rightarrow> jsstring \<Rightarrow> jsstring \<Rightarrow> jsstring \<Rightarrow> jsstring \<Rightarrow> jsstring \<Rightarrow> jsval io" where
  "upload e c folder mimetype ext filePath fileName s =
     (let t = now s;
          folderPath = folder @ dec (date_getFullYear e (date_now e t)) @ ascii ''/''
                       @ dec (date_getMonth e (date_now e t) + 1);
          file = \<lparr>up_path = filePath, up_mimetype = mimetype,
                  up_originalname = fileName @ ext\<rparr>;
          s' = emit (EvUpload filePath (fileName @ ext)) s
      in case storage_uploadFile c t file
                \<lparr>up_folderPath = folderPath, up_fileName = fileName @ ext\<rparr> of
           Inl err \<Rightarrow> (Inl err, s')
         | Inr uploadedFile \<Rightarrow>
             (case get_prop e uploadedFile (ascii ''publicUrl'') of
                Inl err \<Rightarrow> (Inl err, s')
              | Inr publicUrl \<Rightarrow>
                  (case get_prop e uploadedFile (ascii ''url'') of
                     Inl err \<Rightarrow> (Inl err, s')
                   | Inr url \<Rightarrow> (Inr (js_or publicUrl url), s'))))"

definition uploadToPlatformStorage ::
    "env \<Rightarrow> jsstring \<Rightarrow> jsstring \<Rightarrow> jsstring \<Rightarrow> jsstring \<Rightarrow> jsstring \<Rightarrow> request \<Rightarrow> jsval io" where
  "uploadToPlatformStorage e folder mimetype ext filePath fileName req =
     (case client_of req of
        None \<Rightarrow> io_throw (Err msg_upload_missing_auth)
      | Some c \<Rightarrow>
          try_catch
            (upload e c folder mimetype ext filePath fileName)
            (\<lambda>err. io_throw (Err (msg_upload_failed @ message err))))"

text \<open>The loop of \<open>cleanupFiles\<close>: each path is deleted when it exists and \<open>inDir\<close>
  holds of it; an error of the deletion is logged and swallowed.\<close>

fun cleanup_loop :: "env \<Rightarrow> (jsstring \<Rightarrow> bool) \<Rightarrow> jsstring list \<Rightarrow> unit io" where
  "cleanup_loop e inDir [] = io_ret ()"
| "cleanup_loop e inDir (filePath # filePaths) =
     io_then
       (try_catch
          (io_bind (fs_existsSync filePath) (\<lambda>ex.
             if ex \<and> inDir filePath then fs_unlinkSync e filePath else io_ret ()))
          (\<lambda>err. io_ret ()))
       (cleanup_loop e inDir filePaths)"

declare cleanup_loop.simps [simp del]

record gen_config =
  tempDir :: jsstring
  outputDir :: jsstring

text \<open>\<open>cleanupFiles\<close> of the three generators: the path must contain the temp or the
  output directory.\<close>

definition cleanupFiles :: "env \<Rightarrow> 'a gen_config_scheme \<Rightarrow> jsstring list \<Rightarrow> unit io" where
  "cleanupFiles e cfg filePaths =
     cleanup_loop e
       (\<lambda>filePath. includes_str filePath (tempDir cfg) \<or> includes_str filePath (outputDir cfg))
       filePaths"

text \<open>The unique file name of a generation: \<open>fileName_uuid8\<close>, or
  \<open>kind_now_uuid8\<close> when no file name was given.\<close>

definition finalFileName :: "env \<Rightarrow> string \<Rightarrow> jsval \<Rightarrow> nat \<Rightarrow> jsstring" where
  "finalFileName e kind fileName t =
     (let uniqueId = take 8 (uuidv4 e t) in
      if truthy fileName then to_str e fileName @ ascii ''_'' @ uniqueId
      else ascii kind @ ascii ''_'' @ dec (date_now e t) @ ascii ''_'' @ uniqueId)"

section \<open>PDFGenerator\<close>

record pdf_config = gen_config +
  defaultCssStyles :: jsstring

record pdf_options =
  pdf_markdownTemplate :: jsval
  pdf_templateData :: jsval
  pdf_fileName :: jsval
  pdf_pdfOptions :: jsval
  pdf_cssStyles :: jsval
  pdf_req :: request

record pdf_result =
  pdf_success :: bool
  pdfURL :: jsval
  pageCount :: int
  pdf_fileSize :: nat
  pdf_resultFileName :: jsstring
  pdf_storageProvider :: jsstring
  pdf_generatedAt :: jsstring

definition pdf_convertMarkdownToHTML :: "env \<Rightarrow> pdf_config \<Rightarrow> jsstring \<Rightarrow> jsval \<Rightarrow> jsstring io" where
  "pdf_convertMarkdownToHTML e cfg markdown customCSS =
     io_bind (marked e markdown) (\<lambda>htmlBody.
       let cssStyles = defaultCssStyles cfg @ [LF] @ to_str e (js_or customCSS (JStr []))
       in io_ret (html_page_head @ ascii ''PDF'' @ html_page_style @ cssStyles
                  @ html_page_body @ htmlBody @ html_page_tail))"

text \<open>\<open>generatePDFFromHTML\<close> is called with empty template data, so it does not render
  again. The browser session (launch, page, content, \<open>page.pdf\<close> writing the file at
  \<open>outputPath\<close>, close) is one call of the renderer: it fails, or the file is written.\<close>

definition generatePDFFromHTML ::
    "env \<Rightarrow> pdf_config \<Rightarrow> jsstring \<Rightarrow> jsstring \<Rightarrow> jsval \<Rightarrow> jsstring io" where
  "generatePDFFromHTML e cfg htmlTemplate fileName options =
     (let outputPath = path_join e (outputDir cfg) (fileName @ ascii ''.pdf'') in
      try_catch
        (\<lambda>s. case puppeteer_pdf e (now s) htmlTemplate options of
                Inl err \<Rightarrow> (Inl err, emit (EvRenderFile outputPath) s)
              | Inr b \<Rightarrow> (Inr outputPath,
                  (emit (EvRenderFile outputPath) s)\<lparr>files := (files s)(outputPath \<mapsto> FBuffer b)\<rparr>))
        (\<lambda>err. io_throw (Err (msg_pdf_failed @ message err))))"

definition getPDFPageCount :: "env \<Rightarrow> jsstring \<Rightarrow> int io" where
  "getPDFPageCount e pdfPath =
     try_catch
       (io_bind (fs_statSync_size e pdfPath) (\<lambda>fileSize.
          io_ret (max 1 (round (real fileSize / (50 * 1024))))))
       (\<lambda>err. io_ret 1)"

definition generatePDF :: "env \<Rightarrow> pdf_config \<Rightarrow> pdf_options \<Rightarrow> pdf_result io" where
  "generatePDF e cfg options =
     io_then (checkAuth (pdf_req options))
       (if \<not> truthy (pdf_markdownTemplate options) then
          io_throw (Err msg_template_required)
        else if pdf_templateData options = JUndefined \<or> pdf_templateData options = JNull
                \<or> typeof (pdf_templateData options) \<noteq> TObject
                \<or> isArray (pdf_templateData options) then
          io_throw (Err msg_template_data_invalid)
        else
          try_catch
            (io_bind io_now (\<lambda>t.
             io_bind (getTemplateContent e (pdf_markdownTemplate options)) (\<lambda>templateContent.
             io_bind (mustache e templateContent (pdf_templateData options)) (\<lambda>filledMarkdown.
             io_bind (pdf_convertMarkdownToHTML e cfg filledMarkdown (pdf_cssStyles options)) (\<lambda>htmlContent.
             io_bind (generatePDFFromHTML e cfg htmlContent
                        (finalFileName e ''pdf'' (pdf_fileName options) t) (pdf_pdfOptions options)) (\<lambda>pdfPath.
             io_bind (fs_statSync_size e pdfPath) (\<lambda>fileSize.
             io_bind (getPDFPageCount e pdfPath) (\<lambda>pageCount.
             io_bind (uploadToPlatformStorage e (ascii ''/tmp/operators/pdf-documents/'')
                        (ascii ''application/pdf'') (ascii ''.pdf'') pdfPath
                        (finalFileName e ''pdf'' (pdf_fileName options) t) (pdf_req options)) (\<lambda>pdfURL.
             io_then (cleanupFiles e cfg [pdfPath])
             (io_bind io_now (\<lambda>t'.
                io_ret \<lparr>pdf_success = True,
                        pdfURL = pdfURL,
                        pageCount = pageCount,
                        pdf_fileSize = fileSize,
                        pdf_resultFileName = finalFileName e ''pdf'' (pdf_fileName options) t @ ascii ''.pdf'',
                        pdf_storageProvider = ascii ''platform'',
                        pdf_generatedAt = date_toISOString e (date_now e t')\<rparr>)))))))))))
            (\<lambda>err. io_throw (Err (msg_pdf_failed @ message err))))"

section \<open>MarkdownGenerator\<close>

record md_config = gen_config +
  ensureTrailingNewline :: bool
  trimTrailingWhitespace :: bool
  normalizeLineEndingsOpt :: bool

text \<open>The default configuration of the constructor: all three processing options on.\<close>

definition md_default :: "md_config \<Rightarrow> bool" where
  "md_default cfg =
     (ensureTrailingNewline cfg \<and> trimTrailingWhitespace cfg \<and> normalizeLineEndingsOpt cfg)"

record md_options =
  md_markdownContent :: jsval
  md_templateData :: jsval
  md_fileName :: jsval
  md_lineEnding :: "jsstring option"
  md_req :: request

record md_result =
  md_success :: bool
  mdURL :: jsval
  lineCount :: nat
  md_fileSize :: nat
  md_resultFileName :: jsstring
  md_storageProvider :: jsstring
  md_generatedAt :: jsstring

text \<open>The upload of the development mode's mock client; it has no other method.\<close>

definition mock_client :: "env \<Rightarrow> client" where
  "mock_client e = \<lparr>
     storage_getFile = (\<lambda>t fileId. Inl (Err (typeErrorMessage e))),
     storage_getFileContent = (\<lambda>t fileId. Inl (Err (typeErrorMessage e))),
     storage_uploadFile = (\<lambda>t file opts.
       Inr (JObj [(ascii ''id'', JStr (ascii ''test-'' @ dec (date_now e t))),
                  (ascii ''publicUrl'',
                     JStr (ascii ''https://storage.example.com/test/'' @ up_originalname file)),
                  (ascii ''url'',
                     JStr (ascii ''https://storage.example.com/test/'' @ up_originalname file))]))\<rparr>"

text \<open>\<open>checkAuth\<close> of MarkdownGenerator: in development with \<open>SKIP_AUTH\<close> it installs the
  mock client in the request (and returns); the request in force afterwards is the
  result.\<close>

definition md_checkAuth :: "env \<Rightarrow> request \<Rightarrow> request io" where
  "md_checkAuth e req =
     (if process_env e (ascii ''NODE_ENV'') = Some (ascii ''development'')
         \<and> process_env e (ascii ''SKIP_AUTH'') = Some (ascii ''true'') then
        (case req of
           NoRequest \<Rightarrow> io_throw (Err (typeErrorMessage e))
         | Request _ \<Rightarrow> io_ret (Request (Some (mock_client e))))
      else
        (case client_of req of
           None \<Rightarrow> io_throw (Err msg_missing_auth)
         | Some _ \<Rightarrow> io_ret req))"

text \<open>\<open>content.replace(/\r\n/g, '\n')\<close>, \<open>.replace(/\r/g, '\n')\<close> and
  \<open>.replace(/\n/g, lineEnding)\<close>.\<close>

fun crlf_to_lf :: "jsstring \<Rightarrow> jsstring" where
  "crlf_to_lf (a # b # xs) =
     (if a = CR \<and> b = LF then LF # crlf_to_lf xs else a # crlf_to_lf (b # xs))"
| "crlf_to_lf xs = xs"

definition cr_to_lf :: "jsstring \<Rightarrow> jsstring" where
  "cr_to_lf = map (\<lambda>c. if c = CR then LF else c)"

text \<open>The replacement string of \<open>String.prototype.replace\<close> for a pattern without capture
  groups, at a match with the text \<open>before\<close> and \<open>after\<close> it: \<open>$$\<close> is a dollar sign, \<open>$&\<close>
  the match, \<open>$`\<close> the text before the match and \<open>$'\<close> the text after it; any other
  dollar sign stands for itself.\<close>

fun get_substitution :: "jsstring \<Rightarrow> jsstring \<Rightarrow> jsstring \<Rightarrow> jsstring \<Rightarrow> jsstring" where
  "get_substitution matched before after (a # b # r) =
     (if a = 0x24 then
        (if b = 0x24 then 0x24 # get_substitution matched before after r
         else if b = 0x26 then matched @ get_substitution matched before after r
         else if b = 0x60 then before @ get_substitution matched before after r
         else if b = 0x27 then after @ get_substitution matched before after r
         else a # get_substitution matched before after (b # r))
      else a # get_substitution matched before after (b # r))"
| "get_substitution matched before after r = r"

fun lf_to_from :: "jsstring \<Rightarrow> jsstring \<Rightarrow> jsstring \<Rightarrow> jsstring" where
  "lf_to_from lineEnding before [] = []"
| "lf_to_from lineEnding before (c # cs) =
     (if c = LF
      then get_substitution [LF] before cs lineEnding @ lf_to_from lineEnding (before @ [c]) cs
      else c # lf_to_from lineEnding (before @ [c]) cs)"

definition lf_to :: "jsstring \<Rightarrow> jsstring \<Rightarrow> jsstring" where
  "lf_to lineEnding content = lf_to_from lineEnding [] content"

definition processLineEndings :: "jsstring \<Rightarrow> jsstring \<Rightarrow> jsstring" where
  "processLineEndings content lineEnding = lf_to lineEnding (cr_to_lf (crlf_to_lf content))"

definition normalizeLineEndings :: "jsstring \<Rightarrow> jsstring" where
  "normalizeLineEndings content = cr_to_lf (crlf_to_lf content)"

text \<open>\<open>s.split('\n')\<close> and \<open>lines.join('\n')\<close>.\<close>

fun split_lf :: "jsstring \<Rightarrow> jsstring list" where
  "split_lf [] = [[]]"
| "split_lf (c # cs) =
     (if c = LF then [] # split_lf cs
      else (case split_lf cs of [] \<Rightarrow> [[c]] | l # ls \<Rightarrow> (c # l) # ls))"

fun join_lf :: "jsstring list \<Rightarrow> jsstring" where
  "join_lf [] = []"
| "join_lf [l] = l"
| "join_lf (l # ls) = l @ [LF] @ join_lf ls"

text \<open>\<open>line.replace(/\s+$/g, '')\<close>\<close>

definition trim_end :: "jsstring \<Rightarrow> jsstring" where
  "trim_end line = rev (dropWhile isWhiteSpace (rev line))"

definition processMarkdown :: "md_config \<Rightarrow> jsstring \<Rightarrow> jsstring \<Rightarrow> jsstring" where
  "processMarkdown cfg markdown lineEnding =
     (let processed = processLineEndings markdown lineEnding;
          processed = (if trimTrailingWhitespace cfg
                       then join_lf (map trim_end (split_lf processed)) else processed);
          processed = (if ensureTrailingNewline cfg \<and> \<not> endsWith processed lineEnding
                       then processed @ lineEnding else processed);
          processed = (if normalizeLineEndingsOpt cfg
                       then normalizeLineEndings processed else processed)
      in processed)"

definition generateMarkdownFile :: "env \<Rightarrow> md_config \<Rightarrow> jsstring \<Rightarrow> jsstring \<Rightarrow> jsstring io" where
  "generateMarkdownFile e cfg content fileName =
     (let outputPath = path_join e (outputDir cfg) (fileName @ ascii ''.md'') in
      try_catch
        (io_then (fs_writeFileSync e outputPath (FString content)) (io_ret outputPath))
        (\<lambda>err. io_throw (Err (msg_file_write_failed @ message err))))"

definition getLineCount :: "jsstring \<Rightarrow> nat" where
  "getLineCount content = (if content = [] then 0 else length (split_lf content))"

definition generateMarkdown :: "env \<Rightarrow> md_config \<Rightarrow> md_options \<Rightarrow> md_result io" where
  "generateMarkdown e cfg options =
     (let lineEnding = (case md_lineEnding options of None \<Rightarrow> [LF] | Some l \<Rightarrow> l) in
      io_bind (md_checkAuth e (md_req options)) (\<lambda>req.
        if \<not> truthy (md_markdownContent options)
           \<or> typeof (md_markdownContent options) \<noteq> TString then
          io_throw (Err msg_markdown_required)
        else if md_templateData options \<noteq> JUndefined \<and> md_templateData options \<noteq> JNull
                \<and> (typeof (md_templateData options) \<noteq> TObject
                     \<or> isArray (md_templateData options)) then
          io_throw (Err msg_template_data_object)
        else
          try_catch
            (io_bind io_now (\<lambda>t.
             io_bind (getTemplateContent e (md_markdownContent options)) (\<lambda>templateContent.
             io_bind (if truthy (md_templateData options)
                      then mustache e templateContent (md_templateData options)
                      else io_ret templateContent) (\<lambda>filledMarkdown.
             let processedMarkdown = processMarkdown cfg filledMarkdown lineEnding in
             io_bind (generateMarkdownFile e cfg processedMarkdown
                        (finalFileName e ''markdown'' (md_fileName options) t)) (\<lambda>mdPath.
             io_bind (fs_statSync_size e mdPath) (\<lambda>fileSize.
             io_bind (uploadToPlatformStorage e (ascii ''/tmp/operators/markdown-documents/'')
                        (ascii ''text/markdown'') (ascii ''.md'') mdPath
                        (finalFileName e ''markdown'' (md_fileName options) t) req) (\<lambda>mdURL.
             io_then (cleanupFiles e cfg [mdPath])
             (io_bind io_now (\<lambda>t'.
                io_ret \<lparr>md_success = True,
                        mdURL = mdURL,
                        lineCount = getLineCount processedMarkdown,
                        md_fileSize = fileSize,
                        md_resultFileName =
                          finalFileName e ''markdown'' (md_fileName options) t @ ascii ''.md'',
                        md_storageProvider = ascii ''platform'',
                        md_generatedAt = date_toISOString e (date_now e t')\<rparr>)))))))))
            (\<lambda>err. io_throw (Err (msg_markdown_failed @ message err)))))"

section \<open>WordGenerator\<close>

record word_options =
  word_markdownTemplate :: jsval
  word_templateData :: jsval
  word_fileName :: jsval
  word_wordOptions :: jsval
  word_cssStyles :: jsval
  word_req :: request

record word_result =
  word_success :: bool
  wordURL :: jsval
  word_fileSize :: nat
  word_resultFileName :: jsstring
  word_storageProvider :: jsstring
  word_generatedAt :: jsstring

definition word_checkAuth :: "env \<Rightarrow> request \<Rightarrow> unit io" where
  "word_checkAuth e req =
     (let authEnabled = (process_env e (ascii ''GENISPACE_AUTH_ENABLED'') = Some (ascii ''true'')
                         \<or> process_env e (ascii ''GENISPACE_AUTH'') = Some (ascii ''true''))
      in if \<not> authEnabled then io_throw (Err msg_auth_must_be_enabled)
         else (case client_of req of
                 None \<Rightarrow> io_throw (Err msg_missing_auth)
               | Some _ \<Rightarrow> io_ret ()))"

text \<open>\<open>resolveTemplateSource\<close>: as \<open>getTemplateContent\<close>, but a path is read only when the
  file exists, and a \<open>#\<close> does not keep a string from being a path.\<close>

definition resolveTemplateSource :: "env \<Rightarrow> jsval \<Rightarrow> jsstring io" where
  "resolveTemplateSource e source =
     (case source of
        JStr t \<Rightarrow>
          if startsWith t (ascii ''http://'') \<or> startsWith t (ascii ''https://'') then
            try_catch
              (\<lambda>s. (axios_get e (now s) t, emit (EvHttpGet t) s))
              (\<lambda>err. io_throw (Err (msg_template_download_failed @ message err)))
          else if \<not> includes_str t [LF]
                  \<and> (includes_str t (ascii ''/'') \<or> includes_str t [0x5C]) then
            try_catch
              (io_bind (fs_existsSync t) (\<lambda>ex.
                 if ex then io_bind (fs_readFileSync e t) (\<lambda>d. io_ret (fdata_text e d))
                 else io_ret t))
              (\<lambda>err. io_ret t)
          else io_ret t
      | _ \<Rightarrow> io_throw (Err (typeErrorMessage e)))"

definition word_convertMarkdownToHTML :: "env \<Rightarrow> jsstring \<Rightarrow> jsval \<Rightarrow> jsstring io" where
  "word_convertMarkdownToHTML e markdown customCSS =
     io_bind (marked e markdown) (\<lambda>htmlBody.
       let cssStyles = (if truthy customCSS then word_defaultCSS @ [LF] @ to_str e customCSS
                        else word_defaultCSS)
       in io_ret (html_page_head @ ascii ''Word'' @ html_page_style @ cssStyles
                  @ html_page_body @ htmlBody @ html_page_tail))"

text \<open>\<open>generateWordFromHTML\<close>: the document is built from the HTML and the options (cover
  page, table of contents, paragraphs and tables, packed by the document library: one
  call \<open>docx_build\<close> that may fail), then written to the output path.\<close>

definition generateWordFromHTML ::
    "env \<Rightarrow> gen_config \<Rightarrow> jsstring \<Rightarrow> jsstring \<Rightarrow> jsval \<Rightarrow> jsstring io" where
  "generateWordFromHTML e cfg htmlTemplate fileName options =
     (let outputPath = path_join e (outputDir cfg) (fileName @ ascii ''.docx'') in
      try_catch
        (io_bind (\<lambda>s. (docx_build e (now s) htmlTemplate options, s)) (\<lambda>fileBuffer.
         io_then (fs_writeFileSync e outputPath (FBuffer fileBuffer)) (io_ret outputPath)))
        (\<lambda>err. io_throw (Err (msg_word_failed @ message err))))"

definition generateWord :: "env \<Rightarrow> gen_config \<Rightarrow> word_options \<Rightarrow> word_result io" where
  "generateWord e cfg options =
     (let templateData = (if word_templateData options = JUndefined then JObj []
                          else word_templateData options) in
      io_then (word_checkAuth e (word_req options))
       (if \<not> truthy (word_markdownTemplate options) then
          io_throw (Err msg_template_required)
        else if templateData = JNull \<or> templateData = JUndefined \<or> isArray templateData then
          io_throw (Err msg_template_data_object)
        else
          try_catch
            (io_bind io_now (\<lambda>t.
             io_bind (resolveTemplateSource e (word_markdownTemplate options)) (\<lambda>templateContent.
             io_bind (mustache e templateContent templateData) (\<lambda>filledMarkdown.
             io_bind (word_convertMarkdownToHTML e filledMarkdown (word_cssStyles options)) (\<lambda>htmlContent.
             io_bind (generateWordFromHTML e cfg htmlContent
                        (finalFileName e ''word'' (word_fileName options) t)
                        (word_wordOptions options)) (\<lambda>wordPath.
             io_bind (fs_statSync_size e wordPath) (\<lambda>fileSize.
             io_bind (uploadToPlatformStorage e (ascii ''word-documents/'')
                        (ascii ''application/vnd.openxmlformats-officedocument.wordprocessingml.document'')
                        (ascii ''.docx'') wordPath
                        (finalFileName e ''word'' (word_fileName options) t)
                        (word_req options)) (\<lambda>wordURL.
             io_then (cleanupFiles e cfg [wordPath])
             (io_bind io_now (\<lambda>t'.
                io_ret \<lparr>word_success = True,
                        wordURL = wordURL,
                        word_fileSize = fileSize,
                        word_resultFileName =
                          finalFileName e ''word'' (word_fileName options) t @ ascii ''.docx'',
                        word_storageProvider = ascii ''platform'',
                        word_generatedAt = date_toISOString e (date_now e t')\<rparr>))))))))))
            (\<lambda>err. io_throw (Err (msg_word_failed @ message err)))))"

section \<open>TextExtractor\<close>

definition msg_fileId_required :: jsstring where
  \<comment> \<open>the fileId parameter is required and must be a string\<close>
  "msg_fileId_required =
     ascii ''fileId '' @
     [0x53C2, 0x6570, 0x662F, 0x5FC5, 0x9700, 0x7684, 0xFF0C, 0x4E14, 0x5FC5, 0x987B, 0x662F, 0x5B57, 0x7B26, 0x4E32]"

definition msg_unsupported_format :: jsstring where
  \<comment> \<open>unsupported file format: \<close>
  "msg_unsupported_format =
     [0x4E0D, 0x652F, 0x6301, 0x7684, 0x6587, 0x4EF6, 0x683C, 0x5F0F] @ ascii '': ''"

definition msg_supported_formats :: jsstring where
  \<comment> \<open>. supported formats: pdf, doc, docx, xls, xlsx, txt\<close>
  "msg_supported_formats =
     [0x3002, 0x652F, 0x6301, 0x7684, 0x683C, 0x5F0F] @
     ascii '': pdf, doc, docx, xls, xlsx, txt''"

definition msg_text_extraction_failed :: jsstring where
  \<comment> \<open>text extraction failed: \<close>
  "msg_text_extraction_failed =
     [0x6587, 0x672C, 0x63D0, 0x53D6, 0x5931, 0x8D25] @ ascii '': ''"

definition msg_file_too_large :: jsstring where
  \<comment> \<open>file size exceeds the limit: \<close>
  "msg_file_too_large =
     [0x6587, 0x4EF6, 0x5927, 0x5C0F, 0x8D85, 0x8FC7, 0x9650, 0x5236] @ ascii '': ''"

definition msg_bytes :: jsstring where
  \<comment> \<open> bytes\<close>
  "msg_bytes =
     ascii '' '' @ [0x5B57, 0x8282]"

definition msg_get_file_failed_http :: jsstring where
  \<comment> \<open>fetching the file failed: HTTP \<close>
  "msg_get_file_failed_http =
     [0x83B7, 0x53D6, 0x6587, 0x4EF6, 0x5931, 0x8D25] @ ascii '': HTTP ''"

definition msg_get_file_failed :: jsstring where
  \<comment> \<open>fetching the file failed: \<close>
  "msg_get_file_failed =
     [0x83B7, 0x53D6, 0x6587, 0x4EF6, 0x5931, 0x8D25] @ ascii '': ''"

definition msg_pdf_extract_failed :: jsstring where
  \<comment> \<open>PDF text extraction failed: \<close>
  "msg_pdf_extract_failed =
     ascii ''PDF '' @ [0x6587, 0x672C, 0x63D0, 0x53D6, 0x5931, 0x8D25] @ ascii '': ''"

definition msg_docx_extract_failed :: jsstring where
  \<comment> \<open>DOCX text extraction failed: \<close>
  "msg_docx_extract_failed =
     ascii ''DOCX '' @ [0x6587, 0x672C, 0x63D0, 0x53D6, 0x5931, 0x8D25] @ ascii '': ''"

definition msg_doc_extract_failed :: jsstring where
  \<comment> \<open>DOC text extraction failed: \<close>
  "msg_doc_extract_failed =
     ascii ''DOC '' @ [0x6587, 0x672C, 0x63D0, 0x53D6, 0x5931, 0x8D25] @ ascii '': ''"

definition msg_doc_install_hint :: jsstring where
  \<comment> \<open>. make sure the system dependencies are installed\<close>
  "msg_doc_install_hint =
     [0x3002, 0x8BF7, 0x786E, 0x4FDD, 0x5DF2, 0x5B89, 0x88C5, 0x7CFB, 0x7EDF, 0x4F9D, 0x8D56, 0xFF08, 0x5982] @
     ascii '' antiword '' @ [0x6216] @ ascii '' catdoc'' @ [0xFF09]"

definition msg_doc_unavailable :: jsstring where
  \<comment> \<open>the textract library is not installed properly or system dependencies are missing;
     install textract and the system tools\<close>
  "msg_doc_unavailable =
     ascii ''textract '' @
     [0x5E93, 0x672A, 0x6B63, 0x786E, 0x5B89, 0x88C5, 0x6216, 0x7F3A, 0x5C11, 0x7CFB, 0x7EDF, 0x4F9D, 0x8D56, 0x3002, 0x8BF7, 0x5B89, 0x88C5] @
     ascii '' textract '' @ [0x548C, 0x7CFB, 0x7EDF, 0x5DE5, 0x5177, 0xFF08, 0x5982] @
     ascii '' antiword '' @ [0x6216] @ ascii '' catdoc'' @ [0xFF09]"

definition msg_xlsx_extract_failed :: jsstring where
  \<comment> \<open>XLSX text extraction failed: \<close>
  "msg_xlsx_extract_failed =
     ascii ''XLSX '' @ [0x6587, 0x672C, 0x63D0, 0x53D6, 0x5931, 0x8D25] @ ascii '': ''"

definition msg_txt_extract_failed :: jsstring where
  \<comment> \<open>TXT text extraction failed: \<close>
  "msg_txt_extract_failed =
     ascii ''TXT '' @ [0x6587, 0x672C, 0x63D0, 0x53D6, 0x5931, 0x8D25] @ ascii '': ''"

record extractor_config =
  ex_tempDir :: jsstring
  maxFileSize :: nat

text \<open>\<open>getFileExtension\<close>: the extension of the name in lower case without its first
  dot. \<open>path.extname\<close> throws on a name that is not a string; the error is caught and the
  extension is empty.\<close>

definition getFileExtension :: "env \<Rightarrow> jsval \<Rightarrow> jsstring" where
  "getFileExtension e fileName =
     (case fileName of
        JStr name \<Rightarrow> replace_first (toLowerCase e (path_extname e name)) (ascii ''.'') []
      | _ \<Rightarrow> [])"

definition supportedFormats :: "jsstring list" where
  "supportedFormats =
     [ascii ''pdf'', ascii ''doc'', ascii ''docx'', ascii ''xls'', ascii ''xlsx'', ascii ''txt'']"

definition isSupportedFormat :: "env \<Rightarrow> jsstring \<Rightarrow> bool" where
  "isSupportedFormat e extension = (toLowerCase e extension \<in> set supportedFormats)"

definition getFileFromStorage ::
    "env \<Rightarrow> extractor_config \<Rightarrow> jsstring \<Rightarrow> client \<Rightarrow> jsstring \<Rightarrow> jsstring io" where
  "getFileFromStorage e cfg fileId c extension =
     try_catch
       (io_bind (\<lambda>s. (storage_getFileContent c (now s) fileId, emit (EvGetFileContent fileId) s))
          (\<lambda>fileBuffer.
        if length fileBuffer > maxFileSize cfg then
          io_throw (Err (msg_file_too_large @ dec (maxFileSize cfg) @ msg_bytes))
        else
          io_bind io_now (\<lambda>t.
          let tempFileName = ascii ''extract_'' @ dec (date_now e t) @ ascii ''_''
                             @ random_base36 e t @ ascii ''.'' @ extension;
              tempFilePath = path_join e (ex_tempDir cfg) tempFileName
          in io_then (fs_writeFileSync e tempFilePath (FBuffer fileBuffer))
                     (io_ret tempFilePath))))
       (\<lambda>error.
          case response error of
            Some (status, statusText) \<Rightarrow>
              io_throw (Err (msg_get_file_failed_http @ dec status @ ascii '' - '' @ statusText))
          | None \<Rightarrow> io_throw (Err (msg_get_file_failed @ message error)))"

definition extractFromPDF :: "env \<Rightarrow> jsstring \<Rightarrow> jsstring io" where
  "extractFromPDF e filePath =
     try_catch
       (io_bind (fs_readFileSync e filePath) (\<lambda>dataBuffer.
          (\<lambda>s. (pdf_parse e (now s) dataBuffer, emit (EvParse filePath) s))))
       (\<lambda>error. io_throw (Err (msg_pdf_extract_failed @ message error)))"

definition extractFromDOCX :: "env \<Rightarrow> jsstring \<Rightarrow> jsstring io" where
  "extractFromDOCX e filePath =
     try_catch
       (\<lambda>s. (mammoth_extractRawText e (now s) (files s filePath), emit (EvParse filePath) s))
       (\<lambda>error. io_throw (Err (msg_docx_extract_failed @ message error)))"

text \<open>\<open>extractFromDOC\<close>: when loading the library throws (\<open>textract_require\<close>), the outer
  \<open>catch\<close> throws a fixed message that drops the error's own. Otherwise the promise is
  returned: an error the library hands to its callback is rejected with its message and
  the installation hint, outside the \<open>try\<close> block.\<close>

definition extractFromDOC :: "env \<Rightarrow> jsstring \<Rightarrow> jsstring io" where
  "extractFromDOC e filePath =
     (case textract_require e of
        Some error \<Rightarrow> io_throw (Err (msg_doc_extract_failed @ msg_doc_unavailable))
      | None \<Rightarrow>
          try_catch
            (\<lambda>s. (textract_fromFileWithPath e (now s) (files s filePath),
                  emit (EvParse filePath) s))
            (\<lambda>error. io_throw
               (Err (msg_doc_extract_failed @ message error @ msg_doc_install_hint))))"

text \<open>\<open>extractFromXLSX\<close>: of every row of every sheet, the cells that are not \<open>null\<close>,
  \<open>undefined\<close> or \<open>''\<close>, joined by tabs; the rows that are not blank, joined by line
  feeds.\<close>

fun join_with :: "jsstring \<Rightarrow> jsstring list \<Rightarrow> jsstring" where
  "join_with sep [] = []"
| "join_with sep [l] = l"
| "join_with sep (l # ls) = l @ sep @ join_with sep ls"

definition rowText :: "env \<Rightarrow> jsval list \<Rightarrow> jsstring" where
  "rowText e row =
     join_with [0x09]
       (map (to_str e)
          (filter (\<lambda>cell. cell \<noteq> JNull \<and> cell \<noteq> JUndefined \<and> cell \<noteq> JStr []) row))"

definition sheet_texts :: "env \<Rightarrow> jsval list list \<Rightarrow> jsstring list" where
  "sheet_texts e jsonData =
     filter (\<lambda>t. trim t \<noteq> []) (map (rowText e) (filter (\<lambda>row. row \<noteq> []) jsonData))"

definition extractFromXLSX :: "env \<Rightarrow> jsstring \<Rightarrow> jsstring io" where
  "extractFromXLSX e filePath =
     try_catch
       (io_bind (\<lambda>s. (xlsx_readFile e (now s) (files s filePath), emit (EvParse filePath) s))
          (\<lambda>workbook. io_ret (join_with [LF] (concat (map (sheet_texts e) workbook)))))
       (\<lambda>error. io_throw (Err (msg_xlsx_extract_failed @ message error)))"

definition extractFromXLS :: "env \<Rightarrow> jsstring \<Rightarrow> jsstring io" where
  "extractFromXLS e filePath = extractFromXLSX e filePath"

text \<open>\<open>extractFromTXT\<close>: the encodings are tried in turn. Reading as \<open>utf8\<close> and as
  \<open>utf16le\<close> fails only when the file cannot be read; \<open>gbk\<close> and \<open>gb2312\<close> are no
  encodings of the runtime, which rejects them before it touches the file; the last
  attempt is \<open>utf8\<close> again.\<close>

definition extractFromTXT :: "env \<Rightarrow> jsstring \<Rightarrow> jsstring io" where
  "extractFromTXT e filePath =
     try_catch
       (try_catch
          (io_bind (fs_readFileSync e filePath) (\<lambda>d. io_ret (fdata_text e d)))
          (\<lambda>error.
             try_catch
               (io_bind (fs_readFileSync e filePath) (\<lambda>d. io_ret (fdata_text16 e d)))
               (\<lambda>error.
                  io_bind (fs_readFileSync e filePath) (\<lambda>d. io_ret (fdata_text e d)))))
       (\<lambda>error. io_throw (Err (msg_txt_extract_failed @ message error)))"

definition extractTextByFormat :: "env \<Rightarrow> jsstring \<Rightarrow> jsstring \<Rightarrow> jsstring io" where
  "extractTextByFormat e filePath extension =
     (let ext = toLowerCase e extension in
      if ext = ascii ''pdf'' then extractFromPDF e filePath
      else if ext = ascii ''docx'' then extractFromDOCX e filePath
      else if ext = ascii ''doc'' then extractFromDOC e filePath
      else if ext = ascii ''xlsx'' then extractFromXLSX e filePath
      else if ext = ascii ''xls'' then extractFromXLS e filePath
      else if ext = ascii ''txt'' then extractFromTXT e filePath
      else io_throw (Err (msg_unsupported_format @ extension)))"

text \<open>\<open>cleanupFiles\<close> of TextExtractor: the path must contain the temp directory.\<close>

definition ex_cleanupFiles :: "env \<Rightarrow> extractor_config \<Rightarrow> jsstring list \<Rightarrow> unit io" where
  "ex_cleanupFiles e cfg filePaths =
     cleanup_loop e (\<lambda>filePath. includes_str filePath (ex_tempDir cfg)) filePaths"

text \<open>The part of the \<open>try\<close> block of \<open>extractText\<close> up to the assignment of
  \<open>tempFilePath\<close>: the file information, the extension and its check, the download.\<close>

definition fetchToTemp ::
    "env \<Rightarrow> extractor_config \<Rightarrow> jsstring \<Rightarrow> client \<Rightarrow> (jsstring \<times> jsstring) io" where
  "fetchToTemp e cfg fileId c =
     io_bind (\<lambda>s. (storage_getFile c (now s) fileId, emit (EvGetFile fileId) s))
       (\<lambda>fileInfoResponse.
     io_bind (io_of (get_prop e fileInfoResponse (ascii ''data''))) (\<lambda>data.
     let fileInfo = js_or data fileInfoResponse in
     io_bind (io_of (get_prop e fileInfo (ascii ''name''))) (\<lambda>name.
     io_bind (io_of (get_prop e fileInfo (ascii ''fileName''))) (\<lambda>fileName'.
     let fileName = js_or (js_or name fileName') (JStr []);
         extension = getFileExtension e fileName
     in if \<not> isSupportedFormat e extension then
          io_throw (Err (msg_unsupported_format @ extension @ msg_supported_formats))
        else
          io_bind (getFileFromStorage e cfg fileId c extension) (\<lambda>tempFilePath.
            io_ret (tempFilePath, extension))))))"

text \<open>\<open>extractText\<close>. The variable \<open>tempFilePath\<close> is \<open>null\<close> until the download has
  returned; an error before that leaves the \<open>finally\<close> block nothing to clean. Every
  error of the \<open>try\<close> block is rethrown with the prefix of \<open>msg_text_extraction_failed\<close>.\<close>

definition extractText :: "env \<Rightarrow> extractor_config \<Rightarrow> jsval \<Rightarrow> request \<Rightarrow> jsstring io" where
  "extractText e cfg fileId req =
     (case fileId of
        JStr fid \<Rightarrow>
          if fid = [] then io_throw (Err msg_fileId_required)
          else
            io_then (checkAuth req)
              (case client_of req of
                 None \<Rightarrow> io_throw (Err (typeErrorMessage e))
               | Some c \<Rightarrow>
                   io_bind
                     (try_catch (fetchToTemp e cfg fid c)
                        (\<lambda>error. io_throw (Err (msg_text_extraction_failed @ message error))))
                     (\<lambda>(tempFilePath, extension).
                        try_finally
                          (try_catch (extractTextByFormat e tempFilePath extension)
                             (\<lambda>error. io_throw (Err (msg_text_extraction_failed @ message error))))
                          (if tempFilePath \<noteq> [] then ex_cleanupFiles e cfg [tempFilePath]
                           else io_ret ())))
      | _ \<Rightarrow> io_throw (Err msg_fileId_required))"

section \<open>The route \<open>POST /extract\<close>\<close>

definition msg_route_missing_fileId :: jsstring where
  \<comment> \<open>the required fileId parameter is missing\<close>
  "msg_route_missing_fileId =
     [0x7F3A, 0x5C11, 0x5FC5, 0x9700, 0x7684] @ ascii '' fileId '' @ [0x53C2, 0x6570]"

definition msg_route_fileId_too_long :: jsstring where
  \<comment> \<open>fileId is too long (at most 128 characters)\<close>
  "msg_route_fileId_too_long =
     ascii ''fileId '' @
     [0x957F, 0x5EA6, 0x8D85, 0x8FC7, 0x9650, 0x5236, 0xFF08, 0x6700, 0x5927] @
     ascii '' 128 '' @ [0x5B57, 0x7B26, 0xFF09]"

definition msg_extract_ok :: jsstring where
  \<comment> \<open>text extracted\<close>
  "msg_extract_ok =
     [0x6587, 0x672C, 0x63D0, 0x53D6, 0x6210, 0x529F]"

definition msg_extract_ok_truncated :: jsstring where
  \<comment> \<open>text extracted (content truncated)\<close>
  "msg_extract_ok_truncated =
     [0x6587, 0x672C, 0x63D0, 0x53D6, 0x6210, 0x529F, 0xFF08, 0x5185, 0x5BB9, 0x5DF2, 0x622A, 0x65AD, 0xFF09]"

definition msg_truncated_1 :: jsstring where
  \<comment> \<open>the text is too large (\<close>
  "msg_truncated_1 =
     [0x6587, 0x672C, 0x5185, 0x5BB9, 0x8FC7, 0x5927, 0xFF08]"

definition msg_truncated_2 :: jsstring where
  \<comment> \<open>KB), truncated to the first 100KB. full text length: \<close>
  "msg_truncated_2 =
     ascii ''KB'' @ [0xFF09, 0xFF0C, 0x5DF2, 0x622A, 0x65AD, 0x4E3A, 0x524D] @
     ascii ''100KB'' @ [0x3002, 0x5B8C, 0x6574, 0x6587, 0x672C, 0x957F, 0x5EA6, 0xFF1A]"

definition msg_truncated_3 :: jsstring where
  \<comment> \<open> characters\<close>
  "msg_truncated_3 =
     ascii '' '' @ [0x5B57, 0x7B26]"

record extract_data =
  ed_text :: jsstring
  ed_fileId :: jsval
  textLength :: nat
  returnedLength :: nat
  isTruncated :: bool
  extractedAt :: jsstring
  processingTimeMs :: int
  ed_message :: "jsstring option"

text \<open>
  Modelled from the spec: \<open>sendErrorResponse(res, message, code, details, status)\<close> and
  \<open>sendSuccessResponse(res, data, message)\<close> of \<open>src/utils/response\<close> are not among the
  sources. Following the spec's "conventional HTTP error codes/messages", the response
  is the HTTP status with the message, the error code and the details given, or
  status 200 with the data and the message.
\<close>

datatype http_response =
    ErrorResponse (rs_status: nat) (rs_message: jsstring) (rs_code: jsstring)
      (rs_details: "jsstring option")
  | SuccessResponse (rs_data: extract_data) (rs_okMessage: jsstring)

definition sendErrorResponse :: "jsstring \<Rightarrow> jsstring \<Rightarrow> jsstring option \<Rightarrow> nat \<Rightarrow> http_response" where
  "sendErrorResponse msg code details status = ErrorResponse status msg code details"

definition sendSuccessResponse :: "extract_data \<Rightarrow> jsstring \<Rightarrow> http_response" where
  "sendSuccessResponse d msg = SuccessResponse d msg"

record extract_request =
  body_fileId :: jsval
  rq_req :: request

text \<open>\<open>validateExtractText\<close>: a response, or \<open>None\<close> for \<open>next()\<close>.\<close>

definition validateExtractText :: "extract_request \<Rightarrow> http_response option" where
  "validateExtractText rq =
     (case body_fileId rq of
        JStr fileId \<Rightarrow>
          if fileId = [] then
            Some (sendErrorResponse msg_route_missing_fileId (ascii ''MISSING_FILE_ID'') None 400)
          else if length fileId > 128 then
            Some (sendErrorResponse msg_route_fileId_too_long (ascii ''FILE_ID_TOO_LONG'') None 400)
          else None
      | _ \<Rightarrow> Some (sendErrorResponse msg_route_missing_fileId (ascii ''MISSING_FILE_ID'') None 400))"

definition MAX_RESPONSE_TEXT_SIZE :: nat where
  "MAX_RESPONSE_TEXT_SIZE = 100 * 1024"

text \<open>\<open>(n / 1024).toFixed(2)\<close>: the quotient is exact in binary floating point, and
  \<open>toFixed\<close> rounds it to the nearest hundredth, a tie upwards.\<close>

definition kb_toFixed2 :: "nat \<Rightarrow> jsstring" where
  "kb_toFixed2 n =
     (let q = (n * 100 + 512) div 1024 in
      dec (q div 100) @ ascii ''.'' @ dec (q mod 100 div 10) @ dec (q mod 10))"

definition post_extract ::
    "env \<Rightarrow> extractor_config \<Rightarrow> extract_request \<Rightarrow> world \<Rightarrow> http_response \<times> world" where
  "post_extract e cfg rq s =
     (case validateExtractText rq of
        Some r \<Rightarrow> (r, s)
      | None \<Rightarrow>
          (let startTime = date_now e (now s) in
           case io_then (checkAuth (rq_req rq))
                  (extractText e cfg (body_fileId rq) (rq_req rq)) s of
             (Inr fullText, s') \<Rightarrow>
               (let processingTime = int (date_now e (now s')) - int startTime;
                    truncated = (length fullText > MAX_RESPONSE_TEXT_SIZE);
                    text = (if truncated then take MAX_RESPONSE_TEXT_SIZE fullText else fullText);
                    responseData = \<lparr>
                      ed_text = text,
                      ed_fileId = body_fileId rq,
                      textLength = length fullText,
                      returnedLength = length text,
                      isTruncated = truncated,
                      extractedAt = date_toISOString e (date_now e (now s')),
                      processingTimeMs = processingTime,
                      ed_message =
                        (if truncated
                         then Some (msg_truncated_1 @ kb_toFixed2 (length fullText)
                                    @ msg_truncated_2 @ dec (length fullText) @ msg_truncated_3)
                         else None)\<rparr>
                in (sendSuccessResponse responseData
                      (if truncated then msg_extract_ok_truncated else msg_extract_ok), s'))
           | (Inl error, s') \<Rightarrow>
               (sendErrorResponse (msg_text_extraction_failed @ message error)
                  (ascii ''TEXT_EXTRACTION_FAILED'') (Some (message error)) 500, s')))"

section \<open>WordGenerator.extractAndReplaceTables\<close>

subsection \<open>The regular expressions\<close>

text \<open>
  The regular expressions of \<open>extractAndReplaceTables\<close> are sequences of single
  characters (or character classes) and of greedy or lazy repetitions of a character
  class. \<open>rmatch r s\<close> is the length of the match of \<open>r\<close> at the start of \<open>s\<close> that a
  backtracking matcher finds first: a greedy repetition takes as many characters as it
  can and gives them back one by one, a lazy one takes as few as it can.
\<close>

datatype item = Lit "jschar \<Rightarrow> bool" | Greedy "jschar \<Rightarrow> bool" | Lazy "jschar \<Rightarrow> bool"

fun rmatch :: "item list \<Rightarrow> jsstring \<Rightarrow> nat option" where
  "rmatch [] s = Some 0"
| "rmatch (Lit p # r) [] = None"
| "rmatch (Lit p # r) (c # cs) = (if p c then map_option Suc (rmatch r cs) else None)"
| "rmatch (Lazy p # r) [] = rmatch r []"
| "rmatch (Lazy p # r) (c # cs) =
     (case rmatch r (c # cs) of
        Some n \<Rightarrow> Some n
      | None \<Rightarrow> if p c then map_option Suc (rmatch (Lazy p # r) cs) else None)"
| "rmatch (Greedy p # r) [] = rmatch r []"
| "rmatch (Greedy p # r) (c # cs) =
     (if p c then
        (case rmatch (Greedy p # r) cs of
           Some n \<Rightarrow> Some (Suc n)
         | None \<Rightarrow> rmatch r (c # cs))
      else rmatch r (c # cs))"

text \<open>\<open>re.exec(s)\<close> with \<open>lastIndex = from\<close>: the leftmost position from \<open>from\<close> on at
  which the expression matches, as the start and the end of the match.\<close>

fun search :: "item list \<Rightarrow> jsstring \<Rightarrow> (nat \<times> nat) option" where
  "search r [] = map_option (\<lambda>n. (0, n)) (rmatch r [])"
| "search r (c # cs) =
     (case rmatch r (c # cs) of
        Some n \<Rightarrow> Some (0, n)
      | None \<Rightarrow> map_option (\<lambda>(a, b). (Suc a, Suc b)) (search r cs))"

definition regex_exec :: "item list \<Rightarrow> jsstring \<Rightarrow> nat \<Rightarrow> (nat \<times> nat) option" where
  "regex_exec r s from =
     (if from \<le> length s
      then map_option (\<lambda>(a, b). (from + a, from + b)) (search r (drop from s))
      else None)"

text \<open>A character of a pattern under the flag \<open>i\<close>: the patterns are ASCII, and a
  character beyond ASCII never matches an ASCII one.\<close>

definition lower_ascii :: "jschar \<Rightarrow> jschar" where
  "lower_ascii c = (if 0x41 \<le> c \<and> c \<le> 0x5A then c + 0x20 else c)"

definition lit_ci :: "string \<Rightarrow> item list" where
  "lit_ci p = map (\<lambda>ch. Lit (\<lambda>c. lower_ascii c = of_nat (of_char ch))) p"

definition lit_cs :: "string \<Rightarrow> item list" where
  "lit_cs p = map (\<lambda>ch. Lit (\<lambda>c. c = of_nat (of_char ch))) p"

definition not_gt :: "jschar \<Rightarrow> bool" where "not_gt c = (c \<noteq> 0x3E)"
definition is_gt :: "jschar \<Rightarrow> bool" where "is_gt c = (c = 0x3E)"
definition is_quote :: "jschar \<Rightarrow> bool" where "is_quote c = (c = 0x22 \<or> c = 0x27)"
definition is_digit :: "jschar \<Rightarrow> bool" where "is_digit c = (0x30 \<le> c \<and> c \<le> 0x39)"
definition any_char :: "jschar \<Rightarrow> bool" where "any_char c = True"

text \<open>\<^verbatim>\<open>/<table[^>]*>([\s\S]*?)<\/table>/gis\<close>\<close>

definition tableRegex :: "item list" where
  "tableRegex =
     lit_ci ''<table'' @ [Greedy not_gt, Lit is_gt, Lazy any_char] @ lit_ci ''</table>''"

text \<open>\<^verbatim>\<open>/<div[^>]*class=["']table-container["'][^>]*>[\s\S]*?<table[^>]*>([\s\S]*?)<\/table>[\s\S]*?<\/div>/gi\<close>\<close>

definition wrappedTableRegex :: "item list" where
  "wrappedTableRegex =
     lit_ci ''<div'' @ [Greedy not_gt] @ lit_ci ''class='' @ [Lit is_quote]
     @ lit_ci ''table-container'' @ [Lit is_quote, Greedy not_gt, Lit is_gt, Lazy any_char]
     @ lit_ci ''<table'' @ [Greedy not_gt, Lit is_gt, Lazy any_char] @ lit_ci ''</table>''
     @ [Lazy any_char] @ lit_ci ''</div>''"

text \<open>\<^verbatim>\<open>/__TABLE_PLACEHOLDER_(\d+)__/g\<close>\<close>

definition placeholderRegex :: "item list" where
  "placeholderRegex =
     lit_cs ''__TABLE_PLACEHOLDER_'' @ [Lit is_digit, Greedy is_digit] @ lit_cs ''__''"

subsection \<open>Matches are within the string, and not empty\<close>

definition has_lit :: "item list \<Rightarrow> bool" where
  "has_lit r = list_ex (\<lambda>i. case i of Lit p \<Rightarrow> True | _ \<Rightarrow> False) r"

lemma rmatch_le: "rmatch r s = Some n \<Longrightarrow> n \<le> length s"
  by (induction r s arbitrary: n rule: rmatch.induct)
     (auto split: if_splits option.splits)

lemma rmatch_pos: "rmatch r s = Some n \<Longrightarrow> has_lit r \<Longrightarrow> 0 < n"
  by (induction r s arbitrary: n rule: rmatch.induct)
     (auto simp: has_lit_def split: if_splits option.splits)

lemma search_bounds:
  "search r s = Some (a, b) \<Longrightarrow> a \<le> b \<and> b \<le> length s \<and> rmatch r (drop a s) = Some (b - a)"
proof (induction s arbitrary: a b)
  case Nil
  then show ?case by (cases "rmatch r []") (auto dest: rmatch_le)
next
  case (Cons c cs)
  show ?case
  proof (cases "rmatch r (c # cs)")
    case None
    with Cons.prems obtain a' b' where s: "search r cs = Some (a', b')" "a = Suc a'" "b = Suc b'"
      by auto
    from Cons.IH[OF s(1)] s(2,3) show ?thesis by simp
  next
    case (Some n)
    with Cons.prems have "a = 0" "b = n" by auto
    with Some rmatch_le[OF Some] show ?thesis by simp
  qed
qed

lemma regex_exec_bounds:
  assumes "regex_exec r s from = Some (a, b)"
  shows "from \<le> a \<and> a \<le> b \<and> b \<le> length s \<and> rmatch r (drop a s) = Some (b - a)"
proof -
  from assms obtain a' b' where s: "search r (drop from s) = Some (a', b')"
      and ab: "a = from + a'" "b = from + b'" and le: "from \<le> length s"
    by (auto simp: regex_exec_def split: if_splits)
  from search_bounds[OF s] ab le show ?thesis by (auto simp: add.commute)
qed

lemma regex_exec_progress:
  assumes "regex_exec r s from = Some (a, b)" and "has_lit r"
  shows "from < b \<and> b \<le> length s"
proof -
  from regex_exec_bounds[OF assms(1)]
  have b: "from \<le> a" "a \<le> b" "b \<le> length s" "rmatch r (drop a s) = Some (b - a)" by auto
  from rmatch_pos[OF b(4) assms(2)] b show ?thesis by simp
qed

subsection \<open>The loops\<close>

text \<open>\<open>while ((m = re.exec(s)) !== null)\<close> from \<open>lastIndex = from\<close>: all the matches, each
  search starting where the last match ended. (An expression that matches the empty
  string would keep such a loop from terminating; the three expressions here each have a
  literal character.)\<close>

function exec_all :: "item list \<Rightarrow> jsstring \<Rightarrow> nat \<Rightarrow> (nat \<times> nat) list" where
  "exec_all r s from =
     (if \<not> has_lit r then []
      else case regex_exec r s from of
             None \<Rightarrow> []
           | Some (a, b) \<Rightarrow> (a, b) # exec_all r s b)"
  by pat_completeness auto
termination
proof (relation "measure (\<lambda>(r, s, from). Suc (length s) - from)")
  show "wf (measure (\<lambda>(r, s, from). Suc (length s) - from))" by simp
next
  fix r :: "item list" and s :: jsstring and i x2 x y
  assume "\<not> \<not> has_lit r" "regex_exec r s i = Some x2" "(x, y) = x2"
  then have "regex_exec r s i = Some (x, y)" "has_lit r" by auto
  from regex_exec_progress[OF this] have "i < y" "y \<le> length s" by auto
  then have "Suc (length s) - y < Suc (length s) - i" by arith
  then show "((r, s, y), (r, s, i)) \<in> measure (\<lambda>(r, s, from). Suc (length s) - from)"
    by simp
qed

declare exec_all.simps [simp del]

record table_placeholder =
  placeholder :: jsstring
  tableHtml :: jsstring

record replacement =
  rep_original :: jsstring
  rep_placeholder :: jsstring
  rep_start :: nat
  rep_end :: nat

record loop_state =
  tablePlaceholders :: "table_placeholder list"
  replacements :: "replacement list"
  processedRanges :: "(nat \<times> nat) list"
  tableIndex :: nat

text \<open>\<open>s.substring(a, b)\<close> for \<open>a \<le> b\<close>.\<close>

definition substring :: "'a list \<Rightarrow> nat \<Rightarrow> nat \<Rightarrow> 'a list" where
  "substring s a b = take (b - a) (drop a s)"

definition placeholder_name :: "nat \<Rightarrow> jsstring" where
  "placeholder_name i = ascii ''__TABLE_PLACEHOLDER_'' @ dec i @ ascii ''__''"

definition marker :: "nat \<Rightarrow> jsstring" where
  "marker i = [LF] @ ascii ''__TABLE_MARKER_'' @ dec i @ ascii ''__'' @ [LF]"

text \<open>The first loop: the tables wrapped in a \<open>table-container\<close> division. Of each
  wrapped match the first table is captured, and the whole match is to be replaced.\<close>

fun wrapped_pass :: "jsstring \<Rightarrow> (nat \<times> nat) list \<Rightarrow> loop_state \<Rightarrow> loop_state" where
  "wrapped_pass htmlContent [] st = st"
| "wrapped_pass htmlContent ((index, end) # ms) st =
     (let wrappedMatch = substring htmlContent index end in
      case regex_exec tableRegex wrappedMatch 0 of
        None \<Rightarrow> wrapped_pass htmlContent ms st
      | Some (a, b) \<Rightarrow>
          wrapped_pass htmlContent ms
            \<lparr>tablePlaceholders = tablePlaceholders st @
               [\<lparr>placeholder = placeholder_name (tableIndex st),
                 tableHtml = substring wrappedMatch a b\<rparr>],
             replacements = replacements st @
               [\<lparr>rep_original = wrappedMatch,
                 rep_placeholder = placeholder_name (tableIndex st),
                 rep_start = index, rep_end = end\<rparr>],
             processedRanges = processedRanges st @ [(index, end)],
             tableIndex = tableIndex st + 1\<rparr>)"

text \<open>The second loop: every table; one that starts inside a wrapped match is
  skipped.\<close>

definition isIncluded :: "(nat \<times> nat) list \<Rightarrow> nat \<Rightarrow> bool" where
  "isIncluded ranges index = list_ex (\<lambda>(start, end). index \<ge> start \<and> index < end) ranges"

fun plain_pass :: "jsstring \<Rightarrow> (nat \<times> nat) list \<Rightarrow> loop_state \<Rightarrow> loop_state" where
  "plain_pass htmlContent [] st = st"
| "plain_pass htmlContent ((index, end) # ms) st =
     (if \<not> isIncluded (processedRanges st) index then
        plain_pass htmlContent ms
          \<lparr>tablePlaceholders = tablePlaceholders st @
             [\<lparr>placeholder = placeholder_name (tableIndex st),
               tableHtml = substring htmlContent index end\<rparr>],
           replacements = replacements st @
             [\<lparr>rep_original = substring htmlContent index end,
               rep_placeholder = placeholder_name (tableIndex st),
               rep_start = index, rep_end = end\<rparr>],
           processedRanges = processedRanges st,
           tableIndex = tableIndex st + 1\<rparr>
      else plain_pass htmlContent ms st)"

text \<open>\<open>parseInt\<close> of a string of digits (exact below \<open>2^53\<close>).\<close>

definition parse_dec :: "jsstring \<Rightarrow> nat" where
  "parse_dec ds = foldl (\<lambda>n c. 10 * n + (unat c - 48)) 0 ds"

text \<open>The replacements are applied from the back (sorted by descending start), then
  every placeholder found in the result is replaced by its marker line, again from the
  back.\<close>

definition apply_replacements :: "jsstring \<Rightarrow> replacement list \<Rightarrow> jsstring" where
  "apply_replacements html reps =
     foldl (\<lambda>processedHtml rep.
              take (rep_start rep) processedHtml @ rep_placeholder rep
              @ drop (rep_end rep) processedHtml)
       html (sort_key (\<lambda>rep. - int (rep_start rep)) reps)"

definition placeholderPositions :: "jsstring \<Rightarrow> (nat \<times> nat \<times> nat) list" where
  "placeholderPositions processedHtml =
     map (\<lambda>(index, end).
            (index, end - index, parse_dec (substring processedHtml (index + 20) (end - 2))))
       (exec_all placeholderRegex processedHtml 0)"

definition apply_markers :: "jsstring \<Rightarrow> (nat \<times> nat \<times> nat) list \<Rightarrow> jsstring" where
  "apply_markers html positions =
     foldl (\<lambda>processedHtml (index, len, placeholderIndex).
              take index processedHtml @ marker placeholderIndex
              @ drop (index + len) processedHtml)
       html (sort_key (\<lambda>(index, len, placeholderIndex). - int index) positions)"

definition captured :: "jsstring \<Rightarrow> loop_state" where
  "captured htmlContent =
     plain_pass htmlContent (exec_all tableRegex htmlContent 0)
       (wrapped_pass htmlContent (exec_all wrappedTableRegex htmlContent 0)
          \<lparr>tablePlaceholders = [], replacements = [], processedRanges = [], tableIndex = 0\<rparr>)"

definition extractAndReplaceTables :: "jsstring \<Rightarrow> jsstring \<times> table_placeholder list" where
  "extractAndReplaceTables htmlContent =
     (let st = captured htmlContent;
          processedHtml = apply_replacements htmlContent (replacements st);
          processedHtml = apply_markers processedHtml (placeholderPositions processedHtml)
      in (processedHtml, tablePlaceholders st))"

section \<open>The effects a request is expected to perform\<close>

text \<open>The events of resolving a template with \<open>getTemplateContent\<close>: the download of a
  URL, the read of a string that looks like a path, nothing for a literal template.\<close>

definition template_events :: "jsval \<Rightarrow> event list" where
  "template_events template =
     (case template of
        JStr t \<Rightarrow>
          if startsWith t (ascii ''http://'') \<or> startsWith t (ascii ''https://'') then [EvHttpGet t]
          else if \<not> includes_str t [LF] \<and> \<not> includes_str t (ascii ''#'')
                  \<and> (includes_str t (ascii ''/'') \<or> includes_str t [0x5C]) then [EvReadFile t]
          else []
      | _ \<Rightarrow> [])"

text \<open>The events of \<open>cleanupFiles\<close> on an existing file: its deletion is attempted when
  the path contains the temp or the output directory.\<close>

definition cleanup_events :: "'a gen_config_scheme \<Rightarrow> jsstring \<Rightarrow> event list" where
  "cleanup_events cfg p =
     (if includes_str p (tempDir cfg) \<or> includes_str p (outputDir cfg) then [EvUnlink p] else [])"

text \<open>The events of \<open>resolveTemplateSource\<close>: a path is read only when the file exists.\<close>

definition word_template_events :: "world \<Rightarrow> jsval \<Rightarrow> event list" where
  "word_template_events s source =
     (case source of
        JStr t \<Rightarrow>
          if startsWith t (ascii ''http://'') \<or> startsWith t (ascii ''https://'') then [EvHttpGet t]
          else if \<not> includes_str t [LF] \<and> (includes_str t (ascii ''/'') \<or> includes_str t [0x5C])
                  \<and> files s t \<noteq> None then [EvReadFile t]
          else []
      | _ \<Rightarrow> [])"

text \<open>One round of the loop of \<open>cleanupFiles\<close>: the world after the round for
  \<open>filePath\<close>.\<close>

definition cleanup_step :: "env \<Rightarrow> (jsstring \<Rightarrow> bool) \<Rightarrow> jsstring \<Rightarrow> world \<Rightarrow> world" where
  "cleanup_step e inDir filePath s =
     (if files s filePath \<noteq> None \<and> inDir filePath then
        (case fs_fault e (now s) OpUnlink filePath of
           Some err \<Rightarrow> emit (EvUnlink filePath) s
         | None \<Rightarrow> (emit (EvUnlink filePath) s)\<lparr>files := (files s)(filePath := None)\<rparr>)
      else s)"

text \<open>The name of the file as \<open>extractText\<close> reads it from the answer of
  \<open>storage.getFile\<close>: \<open>name\<close> or \<open>fileName\<close> of \<open>response.data || response\<close>, or the empty
  string.\<close>

definition file_name_of :: "env \<Rightarrow> jsval \<Rightarrow> jsval option" where
  "file_name_of e fileInfoResponse =
     (case get_prop e fileInfoResponse (ascii ''data'') of
        Inl err \<Rightarrow> None
      | Inr data \<Rightarrow>
          (case (get_prop e (js_or data fileInfoResponse) (ascii ''name''),
                 get_prop e (js_or data fileInfoResponse) (ascii ''fileName'')) of
             (Inr name, Inr fileName) \<Rightarrow> Some (js_or (js_or name fileName) (JStr []))
           | _ \<Rightarrow> None))"


text \<open>The strings written to files by the events of a trace, in order.\<close>

definition written_strings :: "event list \<Rightarrow> jsstring list" where
  "written_strings tr =
     concat (map (\<lambda>ev. case ev of EvWriteFile p (FString c) \<Rightarrow> [c] | _ \<Rightarrow> []) tr)"

text \<open>What is left at the path \<open>p\<close> of the generated file \<open>d\<close> when \<open>cleanupFiles\<close> has run,
  in the final world \<open>s'\<close>: nothing, when the path contains the temp or the output
  directory and the deletion (the last effect, one moment before \<open>s'\<close>) does not fail;
  the file itself otherwise.\<close>

definition file_after_cleanup ::
    "env \<Rightarrow> 'a gen_config_scheme \<Rightarrow> world \<Rightarrow> jsstring \<Rightarrow> fdata \<Rightarrow> fdata option" where
  "file_after_cleanup e cfg s' p d =
     (if (includes_str p (tempDir cfg) \<or> includes_str p (outputDir cfg))
         \<and> fs_fault e (now s' - 1) OpUnlink p = None
      then None else Some d)"

text \<open>The response that the \<open>catch\<close> block of the route sends for an error with the
  message \<open>m\<close>.\<close>

definition extraction_failed_response :: "jsstring \<Rightarrow> http_response" where
  "extraction_failed_response m =
     ErrorResponse 500 (msg_text_extraction_failed @ m) (ascii ''TEXT_EXTRACTION_FAILED'')
       (Some m)"

text \<open>The message that \<open>getFileFromStorage\<close> throws for an error of the download: the
  status of the HTTP response when the error carries one (its own message is then
  dropped), the error's message otherwise.\<close>

definition download_failure_message :: "jserror \<Rightarrow> jsstring" where
  "download_failure_message err =
     (case response err of
        Some (status, statusText) \<Rightarrow>
          msg_get_file_failed_http @ dec status @ ascii '' - '' @ statusText
      | None \<Rightarrow> msg_get_file_failed @ message err)"

text \<open>The environment, the storage client and the request as a call sees them \<open>k\<close>
  moments later: every answer that depends on the moment is the one given \<open>k\<close> moments
  later.\<close>

definition env_shifted :: "nat \<Rightarrow> env \<Rightarrow> env" where
  "env_shifted k e = e\<lparr>
     date_now := (\<lambda>t. date_now e (t + k)),
     uuidv4 := (\<lambda>t. uuidv4 e (t + k)),
     random_base36 := (\<lambda>t. random_base36 e (t + k)),
     axios_get := (\<lambda>t. axios_get e (t + k)),
     puppeteer_pdf := (\<lambda>t. puppeteer_pdf e (t + k)),
     docx_build := (\<lambda>t. docx_build e (t + k)),
     pdf_parse := (\<lambda>t. pdf_parse e (t + k)),
     mammoth_extractRawText := (\<lambda>t. mammoth_extractRawText e (t + k)),
     textract_fromFileWithPath := (\<lambda>t. textract_fromFileWithPath e (t + k)),
     xlsx_readFile := (\<lambda>t. xlsx_readFile e (t + k)),
     fs_fault := (\<lambda>t. fs_fault e (t + k))\<rparr>"

definition client_shifted :: "nat \<Rightarrow> client \<Rightarrow> client" where
  "client_shifted k c = \<lparr>
     storage_getFile = (\<lambda>t. storage_getFile c (t + k)),
     storage_getFileContent = (\<lambda>t. storage_getFileContent c (t + k)),
     storage_uploadFile = (\<lambda>t. storage_uploadFile c (t + k))\<rparr>"

fun request_shifted :: "nat \<Rightarrow> request \<Rightarrow> request" where
  "request_shifted k NoRequest = NoRequest"
| "request_shifted k (Request c) = Request (map_option (client_shifted k) c)"

text \<open>The world \<open>s2\<close> has the files of \<open>s1\<close> and is \<open>k\<close> moments later; two computations
  have the same outcome from any two such worlds, and keep them so.\<close>

definition later :: "nat \<Rightarrow> world \<Rightarrow> world \<Rightarrow> bool" where
  "later k s1 s2 = (files s2 = files s1 \<and> now s2 = now s1 + k)"

definition same_outcome :: "nat \<Rightarrow> ('a \<Rightarrow> 'b \<Rightarrow> bool) \<Rightarrow> 'a io \<Rightarrow> 'b io \<Rightarrow> bool" where
  "same_outcome k R m1 m2 =
     (\<forall>s1 s2. later k s1 s2 \<longrightarrow>
        rel_sum (=) R (fst (m1 s1)) (fst (m2 s2)) \<and> later k (snd (m1 s1)) (snd (m2 s2)))"
section \<open>A concrete environment\<close>

text \<open>
  One environment, client and configuration on which the theorems below are
  instantiated: ASCII lower-casing, a POSIX-like \<open>extname\<close> and \<open>join\<close>, a clock
  that advances with every effect, renderers and parsers that succeed, and a file
  system without faults.
\<close>

definition demo_toLowerCase :: "jsstring \<Rightarrow> jsstring" where
  "demo_toLowerCase = map lower_ascii"

definition demo_extname :: "jsstring \<Rightarrow> jsstring" where
  "demo_extname p =
     (let b = rev (takeWhile (\<lambda>c. c \<noteq> 0x2F) (rev p));
          x = takeWhile (\<lambda>c. c \<noteq> 0x2E) (rev b)
      in if length x + 1 < length b then 0x2E # rev x else [])"

definition demo_client :: client where
  "demo_client = \<lparr>
     storage_getFile = (\<lambda>t fileId.
        Inr (JObj [(ascii ''data'', JObj [(ascii ''name'', JStr (ascii ''Report.PDF''))])])),
     storage_getFileContent = (\<lambda>t fileId. Inr [0x25, 0x50, 0x44, 0x46]),
     storage_uploadFile = (\<lambda>t file opts.
        Inr (JObj [(ascii ''id'', JStr (ascii ''f-'' @ dec t)),
                   (ascii ''url'', JStr (ascii ''https://storage.example/'' @ up_fileName opts))]))\<rparr>"

definition demo_env :: env where
  "demo_env = \<lparr>
     toLowerCase = demo_toLowerCase,
     js_toString = (\<lambda>v. ascii ''[object Object]''),
     path_extname = demo_extname,
     path_join = (\<lambda>a b. a @ ascii ''/'' @ b),
     typeErrorMessage = ascii ''TypeError'',
     utf8_length = length,
     utf8_decode = map (\<lambda>b. of_nat (unat b)),
     utf16le_decode = map (\<lambda>b. of_nat (unat b)),
     process_env = [ascii ''GENISPACE_AUTH'' \<mapsto> ascii ''true''],
     date_now = (\<lambda>t. 1700000000000 + t),
     date_getFullYear = (\<lambda>ms. 2023),
     date_getMonth = (\<lambda>ms. 10),
     date_toISOString = (\<lambda>ms. ascii ''2023-11-14T22:13:20.'' @ dec (ms mod 1000) @ ascii ''Z''),
     uuidv4 = (\<lambda>t. dec (10000000 + t) @ ascii ''-0000-4000-8000-000000000000''),
     random_base36 = (\<lambda>t. ascii ''k3x9q''),
     axios_get = (\<lambda>t url. Inl (Err (ascii ''connect ECONNREFUSED''))),
     mustache_render = (\<lambda>template data. Inr template),
     marked_parse = (\<lambda>markdown. Inr (ascii ''<p>'' @ markdown @ ascii ''</p>'')),
     puppeteer_pdf = (\<lambda>t html opts. Inr (replicate 128000 0x20)),
     docx_build = (\<lambda>t html opts. Inr (replicate 9000 0x20)),
     pdf_parse = (\<lambda>t d. Inr (replicate 150000 0x61)),
     mammoth_extractRawText = (\<lambda>t d. Inr (ascii ''text of the docx'')),
     textract_require = None,
     textract_fromFileWithPath = (\<lambda>t d. Inl (Err (ascii ''antiword not found''))),
     xlsx_readFile = (\<lambda>t d. Inr [[[JStr (ascii ''a''), JStr (ascii ''b'')]]]),
     fs_fault = (\<lambda>t op p. None)\<rparr>"

definition demo_world :: world where
  "demo_world = \<lparr>files = Map.empty, trace = []\<rparr>"

definition demo_pdf_config :: pdf_config where
  "demo_pdf_config = \<lparr>tempDir = ascii ''/tmp/pdf-generator'',
     outputDir = ascii ''/tmp/pdf-generator'',
     defaultCssStyles = ascii ''p { margin: 1em 0; }''\<rparr>"

definition demo_pdf_options :: pdf_options where
  "demo_pdf_options = \<lparr>pdf_markdownTemplate = JStr (ascii ''# Hello''),
     pdf_templateData = JObj [], pdf_fileName = JStr (ascii ''report''),
     pdf_pdfOptions = JObj [], pdf_cssStyles = JStr [], pdf_req = Request (Some demo_client)\<rparr>"

definition demo_md_config :: md_config where
  "demo_md_config = \<lparr>tempDir = ascii ''/tmp/markdown-generator'',
     outputDir = ascii ''/tmp/markdown-generator'',
     ensureTrailingNewline = True, trimTrailingWhitespace = True,
     normalizeLineEndingsOpt = True\<rparr>"

definition demo_md_options :: md_options where
  "demo_md_options = \<lparr>md_markdownContent = JStr (ascii ''# Hello  '' @ [CR, LF] @ ascii ''world''),
     md_templateData = JNull, md_fileName = JStr (ascii ''notes''),
     md_lineEnding = Some [CR, LF], md_req = Request (Some demo_client)\<rparr>"

definition demo_word_config :: gen_config where
  "demo_word_config = \<lparr>tempDir = ascii ''/tmp/word-generator'',
     outputDir = ascii ''/tmp/word-generator''\<rparr>"

definition demo_word_options :: word_options where
  "demo_word_options = \<lparr>word_markdownTemplate = JStr (ascii ''# Hello''),
     word_templateData = JUndefined, word_fileName = JStr (ascii ''letter''),
     word_wordOptions = JObj [], word_cssStyles = JStr [],
     word_req = Request (Some demo_client)\<rparr>"

definition demo_extractor_config :: extractor_config where
  "demo_extractor_config = \<lparr>ex_tempDir = ascii ''/tmp/text-extractor'',
     maxFileSize = 52428800\<rparr>"

definition demo_extract_request :: extract_request where
  "demo_extract_request = \<lparr>body_fileId = JStr (ascii ''file-1''),
     rq_req = Request (Some demo_client)\<rparr>"

text \<open>A client whose file is an executable, and an environment in which every deletion
  fails.\<close>

definition demo_exe_client :: client where
  "demo_exe_client = demo_client\<lparr>storage_getFile :=
     (\<lambda>t fileId. Inr (JObj [(ascii ''name'', JStr (ascii ''setup.exe''))]))\<rparr>"

definition faulty_env :: env where
  "faulty_env = demo_env\<lparr>fs_fault :=
     (\<lambda>t op p. if op = OpUnlink then Some (Err (ascii ''EPERM: operation not permitted''))
                else None)\<rparr>"

definition demo_temp_path :: jsstring where
  "demo_temp_path = ascii ''/tmp/text-extractor/extract_1700000000002_k3x9q.pdf''"


text \<open>The worlds of the extraction of the demonstration file after the download and
  after the parsing.\<close>

definition demo_fetched_world :: world where
  "demo_fetched_world =
     \<lparr>files = [demo_temp_path \<mapsto> FBuffer [0x25, 0x50, 0x44, 0x46]],
      trace = [EvGetFile (ascii ''file-1''), EvGetFileContent (ascii ''file-1''),
               EvWriteFile demo_temp_path (FBuffer [0x25, 0x50, 0x44, 0x46])]\<rparr>"

definition demo_parsed_world :: world where
  "demo_parsed_world =
     \<lparr>files = [demo_temp_path \<mapsto> FBuffer [0x25, 0x50, 0x44, 0x46]],
      trace = [EvGetFile (ascii ''file-1''), EvGetFileContent (ascii ''file-1''),
               EvWriteFile demo_temp_path (FBuffer [0x25, 0x50, 0x44, 0x46]),
               EvReadFile demo_temp_path, EvParse demo_temp_path]\<rparr>"

text \<open>A client whose download is refused with an HTTP status, one whose download fails
  without a response, and an environment whose PDF parser fails.\<close>

definition demo_404_client :: client where
  "demo_404_client = demo_client\<lparr>storage_getFileContent :=
     (\<lambda>t fileId. Inl (JSError (ascii ''Request failed with status code 404'')
                        (Some (404, ascii ''Not Found''))))\<rparr>"

definition demo_offline_client :: client where
  "demo_offline_client = demo_client\<lparr>storage_getFileContent :=
     (\<lambda>t fileId. Inl (Err (ascii ''socket hang up'')))\<rparr>"

definition bad_pdf_env :: env where
  "bad_pdf_env = demo_env\<lparr>pdf_parse := (\<lambda>t d. Inl (Err (ascii ''Invalid PDF structure'')))\<rparr>"

text \<open>The world after the generation of the demonstration PDF.\<close>

definition demo_pdf_world_after :: world where
  "demo_pdf_world_after =
     \<lparr>files = Map.empty,
      trace = [EvMustache, EvMarked,
               EvRenderFile (ascii ''/tmp/pdf-generator/report_10000000.pdf''),
               EvStat (ascii ''/tmp/pdf-generator/report_10000000.pdf''),
               EvStat (ascii ''/tmp/pdf-generator/report_10000000.pdf''),
               EvUpload (ascii ''/tmp/pdf-generator/report_10000000.pdf'')
                 (ascii ''report_10000000.pdf''),
               EvUnlink (ascii ''/tmp/pdf-generator/report_10000000.pdf'')]\<rparr>"
section \<open>Reasoning about effects\<close>

lemmas io_defs = io_ret_def io_throw_def io_bind_def io_then_def try_catch_def
  try_finally_def io_of_def io_now_def now_def emit_def

lemmas fs_defs = fs_existsSync_def fs_writeFileSync_def fs_readFileSync_def
  fs_statSync_size_def fs_unlinkSync_def fdata_size_def fdata_text_def fdata_text16_def

lemma dec_eval:
  "dec 0 = [48]"
  "dec (Suc 0) = [49]"
  "dec (numeral k) =
     (if (numeral k :: nat) < 10 then [of_nat (48 + numeral k)]
      else dec (numeral k div 10) @ [of_nat (48 + numeral k mod 10)])"
  by (simp_all add: dec.simps[of 0] dec.simps[of "Suc 0"] dec.simps[of "numeral k"])

lemma demo_env_sel:
  "toLowerCase demo_env = demo_toLowerCase"
  "js_toString demo_env = (\<lambda>v. ascii ''[object Object]'')"
  "path_extname demo_env = demo_extname"
  "path_join demo_env = (\<lambda>a b. a @ ascii ''/'' @ b)"
  "typeErrorMessage demo_env = ascii ''TypeError''"
  "utf8_length demo_env = length"
  "utf8_decode demo_env = map (\<lambda>b. of_nat (unat b))"
  "utf16le_decode demo_env = map (\<lambda>b. of_nat (unat b))"
  "process_env demo_env = [ascii ''GENISPACE_AUTH'' \<mapsto> ascii ''true'']"
  "date_now demo_env = (\<lambda>t. 1700000000000 + t)"
  "date_getFullYear demo_env = (\<lambda>ms. 2023)"
  "date_getMonth demo_env = (\<lambda>ms. 10)"
  "date_toISOString demo_env =
     (\<lambda>ms. ascii ''2023-11-14T22:13:20.'' @ dec (ms mod 1000) @ ascii ''Z'')"
  "uuidv4 demo_env = (\<lambda>t. dec (10000000 + t) @ ascii ''-0000-4000-8000-000000000000'')"
  "random_base36 demo_env = (\<lambda>t. ascii ''k3x9q'')"
  "axios_get demo_env = (\<lambda>t url. Inl (Err (ascii ''connect ECONNREFUSED'')))"
  "mustache_render demo_env = (\<lambda>template data. Inr template)"
  "marked_parse demo_env = (\<lambda>markdown. Inr (ascii ''<p>'' @ markdown @ ascii ''</p>''))"
  "puppeteer_pdf demo_env = (\<lambda>t html opts. Inr (replicate 128000 0x20))"
  "docx_build demo_env = (\<lambda>t html opts. Inr (replicate 9000 0x20))"
  "pdf_parse demo_env = (\<lambda>t d. Inr (replicate 150000 0x61))"
  "mammoth_extractRawText demo_env = (\<lambda>t d. Inr (ascii ''text of the docx''))"
  "textract_require demo_env = None"
  "textract_fromFileWithPath demo_env = (\<lambda>t d. Inl (Err (ascii ''antiword not found'')))"
  "xlsx_readFile demo_env = (\<lambda>t d. Inr [[[JStr (ascii ''a''), JStr (ascii ''b'')]]])"
  "fs_fault demo_env = (\<lambda>t op p. None)"
  by (simp_all add: demo_env_def)

lemma demo_client_sel:
  "storage_getFile demo_client = (\<lambda>t fileId.
        Inr (JObj [(ascii ''data'', JObj [(ascii ''name'', JStr (ascii ''Report.PDF''))])]))"
  "storage_getFileContent demo_client = (\<lambda>t fileId. Inr [0x25, 0x50, 0x44, 0x46])"
  "storage_uploadFile demo_client = (\<lambda>t file opts.
        Inr (JObj [(ascii ''id'', JStr (ascii ''f-'' @ dec t)),
                   (ascii ''url'', JStr (ascii ''https://storage.example/'' @ up_fileName opts))]))"
  by (simp_all add: demo_client_def)

lemmas demo_sel = demo_env_sel demo_client_sel demo_world_def

lemma message_Err [simp]: "message (Err m) = m"
  by (simp add: Err_def)

lemma io_bind_InrE:
  assumes "io_bind m f s = (Inr y, s')"
  obtains x s1 where "m s = (Inr x, s1)" and "f x s1 = (Inr y, s')"
  using assms by (auto simp: io_bind_def split: prod.splits sum.splits)

lemma io_then_InrE:
  assumes "io_then m k s = (Inr y, s')"
  obtains s1 where "m s = (Inr (), s1)" and "k s1 = (Inr y, s')"
  using assms by (auto simp: io_then_def elim!: io_bind_InrE)

lemma try_catch_rethrow_Inr:
  "try_catch m (\<lambda>err. io_throw (g err)) s = (Inr y, s') \<Longrightarrow> m s = (Inr y, s')"
  by (auto simp: try_catch_def io_throw_def split: prod.splits sum.splits)

lemma round_page_estimate:
  "round (real n / (50 * 1024)) = int ((n + 25600) div 51200)"
proof -
  have eq: "real n / (50 * 1024) + 1 / 2 = real (n + 25600) / real 51200"
    by (simp add: field_simps)
  have "round (real n / (50 * 1024)) = \<lfloor>real n / (50 * 1024) + 1 / 2\<rfloor>"
    by (simp only: round_def)
  also have "\<dots> = \<lfloor>real (n + 25600) / real 51200\<rfloor>"
    by (simp only: eq)
  also have "\<dots> = int ((n + 25600) div 51200)"
    by (rule floor_divide_of_nat_eq)
  finally show ?thesis .
qed

lemma round_page_estimate_51200:
  "round (real n / 51200) = int ((n + 25600) div 51200)"
  using round_page_estimate[of n] by simp

subsection \<open>What each step appends to the trace\<close>

lemma checkAuth_Inr:
  "checkAuth req s = (Inr u, s') \<Longrightarrow> s' = s \<and> client_of req \<noteq> None"
  by (auto simp: checkAuth_def io_throw_def io_ret_def split: option.splits)

lemma getTemplateContent_trace:
  "getTemplateContent e v s = (r, s') \<Longrightarrow>
     trace s' = trace s @ template_events v \<and> files s' = files s"
  by (auto simp: getTemplateContent_def template_events_def try_catch_def io_throw_def io_ret_def
        io_bind_def fs_readFileSync_def emit_def Let_def
      split: jsval.splits if_splits prod.splits sum.splits option.splits)

lemma mustache_trace:
  "mustache e t d s = (r, s') \<Longrightarrow> trace s' = trace s @ [EvMustache] \<and> files s' = files s"
  by (auto simp: mustache_def emit_def)

lemma pdf_convert_trace:
  "pdf_convertMarkdownToHTML e cfg m c s = (r, s') \<Longrightarrow>
     trace s' = trace s @ [EvMarked] \<and> files s' = files s"
  by (auto simp: pdf_convertMarkdownToHTML_def marked_def emit_def io_bind_def io_ret_def Let_def
      split: sum.splits)

lemma generatePDFFromHTML_Inr:
  "generatePDFFromHTML e cfg h f opts s = (Inr p, s') \<Longrightarrow>
     p = path_join e (outputDir cfg) (f @ ascii ''.pdf'') \<and>
     trace s' = trace s @ [EvRenderFile p] \<and>
     (\<exists>b. puppeteer_pdf e (now s) h opts = Inr b \<and> files s' = (files s)(p \<mapsto> FBuffer b))"
  by (auto simp: generatePDFFromHTML_def try_catch_def io_throw_def emit_def Let_def
      split: sum.splits)

lemma stat_Inr:
  "fs_statSync_size e p s = (Inr n, s') \<Longrightarrow>
     trace s' = trace s @ [EvStat p] \<and> files s' = files s \<and>
     fs_fault e (now s) OpStat p = None \<and>
     (\<exists>d. files s p = Some d \<and> n = fdata_size e d)"
  by (auto simp: fs_statSync_size_def emit_def Let_def split: option.splits)

lemma getPDFPageCount_result:
  "getPDFPageCount e p s =
     (Inr (case fst (fs_statSync_size e p s) of
             Inr n \<Rightarrow> max 1 (round (real n / (50 * 1024)))
           | Inl err \<Rightarrow> 1),
      emit (EvStat p) s)"
  by (auto simp: getPDFPageCount_def try_catch_def io_bind_def io_ret_def fs_statSync_size_def
        Let_def split: sum.splits prod.splits option.splits)

lemma upload_trace:
  "uploadToPlatformStorage e folder mt ext p f req s = (r, s') \<Longrightarrow> client_of req \<noteq> None \<Longrightarrow>
     trace s' = trace s @ [EvUpload p (f @ ext)] \<and> files s' = files s"
  by (auto simp: uploadToPlatformStorage_def upload_def try_catch_def io_throw_def emit_def Let_def
       split: sum.splits prod.splits option.splits)

lemma upload_Inr:
  assumes "uploadToPlatformStorage e folder mt ext p f req s = (Inr u, s')"
  shows "\<exists>c fl opts uploadedFile publicUrl url.
           client_of req = Some c \<and> up_path fl = p \<and>
           storage_uploadFile c (now s) fl opts = Inr uploadedFile \<and>
           get_prop e uploadedFile (ascii ''publicUrl'') = Inr publicUrl \<and>
           get_prop e uploadedFile (ascii ''url'') = Inr url \<and>
           u = js_or publicUrl url"
proof -
  from assms obtain c where c: "client_of req = Some c"
      and up: "upload e c folder mt ext p f s = (Inr u, s')"
    by (auto simp: uploadToPlatformStorage_def io_throw_def split: option.splits
          dest: try_catch_rethrow_Inr)
  define fl where "fl = \<lparr>up_path = p, up_mimetype = mt, up_originalname = f @ ext\<rparr>"
  define opts where "opts = \<lparr>up_folderPath =
      folder @ dec (date_getFullYear e (date_now e (now s))) @ ascii ''/''
        @ dec (date_getMonth e (date_now e (now s)) + 1), up_fileName = f @ ext\<rparr>"
  from up obtain uploadedFile publicUrl url where
      "storage_uploadFile c (now s) fl opts = Inr uploadedFile"
      "get_prop e uploadedFile (ascii ''publicUrl'') = Inr publicUrl"
      "get_prop e uploadedFile (ascii ''url'') = Inr url" "u = js_or publicUrl url"
    by (auto simp: upload_def Let_def fl_def opts_def split: sum.splits)
  with c show ?thesis by (intro exI[of _ c] exI[of _ fl]) (auto simp: fl_def)
qed

lemma cleanup_one:
  "cleanup_loop e inDir [p] s = (Inr (), cleanup_step e inDir p s)"
  by (auto simp: cleanup_loop.simps cleanup_step_def io_then_def io_bind_def io_ret_def
        try_catch_def fs_existsSync_def fs_unlinkSync_def Let_def
       split: sum.splits prod.splits option.splits if_splits)

lemma cleanup_loop_Cons:
  "cleanup_loop e inDir (p # ps) s = cleanup_loop e inDir ps (cleanup_step e inDir p s)"
  by (auto simp: cleanup_loop.simps(2)[of e inDir p ps] cleanup_step_def io_then_def
        io_bind_def io_ret_def try_catch_def fs_existsSync_def fs_unlinkSync_def Let_def
       split: sum.splits prod.splits option.splits if_splits)

lemma cleanupFiles_one_trace:
  "cleanupFiles e cfg [p] s = (r, s') \<Longrightarrow> files s p \<noteq> None \<Longrightarrow>
     r = Inr () \<and> trace s' = trace s @ cleanup_events cfg p"
  by (auto simp: cleanupFiles_def cleanup_one cleanup_step_def cleanup_events_def emit_def
      split: option.splits if_splits)

lemma cleanupFiles_one_files:
  "cleanupFiles e cfg [p] s = (r, s') \<Longrightarrow> files s p = Some d \<Longrightarrow>
     files s' = (files s)(p := file_after_cleanup e cfg s' p d)"
  by (auto simp: cleanupFiles_def cleanup_one cleanup_step_def file_after_cleanup_def emit_def
        now_def fun_upd_idem
      split: option.splits if_splits)

subsection \<open>A successful generation, step by step\<close>

lemma generatePDF_InrE:
  assumes "generatePDF e cfg opts s = (Inr r, s')"
  obtains templateContent s1 filledMarkdown s2 htmlContent s3 pdfPath s4 fileSize s5
          pc s6 url s7 name
  where "client_of (pdf_req opts) \<noteq> None"
    and "truthy (pdf_markdownTemplate opts)"
    and "typeof (pdf_templateData opts) = TObject" and "\<not> isArray (pdf_templateData opts)"
    and "pdf_templateData opts \<noteq> JNull"
    and "name = finalFileName e ''pdf'' (pdf_fileName opts) (now s)"
    and "getTemplateContent e (pdf_markdownTemplate opts) s = (Inr templateContent, s1)"
    and "mustache e templateContent (pdf_templateData opts) s1 = (Inr filledMarkdown, s2)"
    and "pdf_convertMarkdownToHTML e cfg filledMarkdown (pdf_cssStyles opts) s2
           = (Inr htmlContent, s3)"
    and "generatePDFFromHTML e cfg htmlContent name (pdf_pdfOptions opts) s3 = (Inr pdfPath, s4)"
    and "fs_statSync_size e pdfPath s4 = (Inr fileSize, s5)"
    and "getPDFPageCount e pdfPath s5 = (Inr pc, s6)"
    and "uploadToPlatformStorage e (ascii ''/tmp/operators/pdf-documents/'')
           (ascii ''application/pdf'') (ascii ''.pdf'') pdfPath name (pdf_req opts) s6
           = (Inr url, s7)"
    and "cleanupFiles e cfg [pdfPath] s7 = (Inr (), s')"
    and "r = \<lparr>pdf_success = True, pdfURL = url, pageCount = pc, pdf_fileSize = fileSize,
               pdf_resultFileName = name @ ascii ''.pdf'',
               pdf_storageProvider = ascii ''platform'',
               pdf_generatedAt = date_toISOString e (date_now e (now s'))\<rparr>"
  using assms unfolding generatePDF_def
  apply (elim io_then_InrE)
  apply (drule checkAuth_Inr)
  apply (simp split: if_splits add: io_throw_def)
  apply (drule try_catch_rethrow_Inr)
  apply (elim io_bind_InrE io_then_InrE)
  apply (auto simp: io_ret_def io_now_def)
  done

lemma md_checkAuth_Inr:
  "md_checkAuth e req s = (Inr req', s') \<Longrightarrow> s' = s \<and> client_of req' \<noteq> None"
  by (auto simp: md_checkAuth_def io_throw_def io_ret_def split: option.splits if_splits request.splits)

lemma word_checkAuth_Inr:
  "word_checkAuth e req s = (Inr u, s') \<Longrightarrow> s' = s \<and> client_of req \<noteq> None"
  by (auto simp: word_checkAuth_def io_throw_def io_ret_def Let_def split: option.splits if_splits)

lemma resolveTemplateSource_trace:
  "resolveTemplateSource e v s = (r, s') \<Longrightarrow>
     trace s' = trace s @ word_template_events s v \<and> files s' = files s"
  by (auto simp: resolveTemplateSource_def word_template_events_def try_catch_def io_throw_def
        io_ret_def io_bind_def fs_readFileSync_def fs_existsSync_def emit_def Let_def
      split: jsval.splits if_splits prod.splits sum.splits option.splits)

lemma word_convert_trace:
  "word_convertMarkdownToHTML e m c s = (r, s') \<Longrightarrow>
     trace s' = trace s @ [EvMarked] \<and> files s' = files s"
  by (auto simp: word_convertMarkdownToHTML_def marked_def emit_def io_bind_def io_ret_def Let_def
      split: sum.splits)

lemma generateMarkdownFile_Inr:
  "generateMarkdownFile e cfg content f s = (Inr p, s') \<Longrightarrow>
     p = path_join e (outputDir cfg) (f @ ascii ''.md'') \<and>
     trace s' = trace s @ [EvWriteFile p (FString content)] \<and>
     files s' = (files s)(p \<mapsto> FString content)"
  by (auto simp: generateMarkdownFile_def try_catch_def io_throw_def io_then_def io_bind_def
        io_ret_def fs_writeFileSync_def emit_def Let_def
      split: sum.splits option.splits prod.splits)

lemma generateWordFromHTML_Inr:
  "generateWordFromHTML e cfg h f opts s = (Inr p, s') \<Longrightarrow>
     p = path_join e (outputDir cfg) (f @ ascii ''.docx'') \<and>
     (\<exists>b. docx_build e (now s) h opts = Inr b \<and>
          trace s' = trace s @ [EvWriteFile p (FBuffer b)] \<and>
          files s' = (files s)(p \<mapsto> FBuffer b))"
  by (auto simp: generateWordFromHTML_def try_catch_def io_throw_def io_then_def io_bind_def
        io_ret_def fs_writeFileSync_def emit_def Let_def
      split: sum.splits option.splits prod.splits)

lemma generateMarkdown_InrE:
  assumes "generateMarkdown e cfg opts s = (Inr r, s')"
  obtains req' templateContent s1 filledMarkdown s2 mdPath s3 fileSize s4 url s5 name processed
  where "md_checkAuth e (md_req opts) s = (Inr req', s)"
    and "truthy (md_markdownContent opts)" and "typeof (md_markdownContent opts) = TString"
    and "md_templateData opts = JUndefined \<or> md_templateData opts = JNull
         \<or> typeof (md_templateData opts) = TObject \<and> \<not> isArray (md_templateData opts)"
    and "name = finalFileName e ''markdown'' (md_fileName opts) (now s)"
    and "getTemplateContent e (md_markdownContent opts) s = (Inr templateContent, s1)"
    and "(if truthy (md_templateData opts)
          then mustache e templateContent (md_templateData opts)
          else io_ret templateContent) s1 = (Inr filledMarkdown, s2)"
    and "processed = processMarkdown cfg filledMarkdown
           (case md_lineEnding opts of None \<Rightarrow> [LF] | Some l \<Rightarrow> l)"
    and "generateMarkdownFile e cfg processed name s2 = (Inr mdPath, s3)"
    and "fs_statSync_size e mdPath s3 = (Inr fileSize, s4)"
    and "uploadToPlatformStorage e (ascii ''/tmp/operators/markdown-documents/'')
           (ascii ''text/markdown'') (ascii ''.md'') mdPath name req' s4 = (Inr url, s5)"
    and "cleanupFiles e cfg [mdPath] s5 = (Inr (), s')"
    and "r = \<lparr>md_success = True, mdURL = url, lineCount = getLineCount processed,
               md_fileSize = fileSize, md_resultFileName = name @ ascii ''.md'',
               md_storageProvider = ascii ''platform'',
               md_generatedAt = date_toISOString e (date_now e (now s'))\<rparr>"
  using assms unfolding generateMarkdown_def Let_def
  apply (elim io_bind_InrE)
  apply (frule md_checkAuth_Inr)
  apply (simp split: if_splits add: io_throw_def)
  apply (drule try_catch_rethrow_Inr)
  apply (elim io_bind_InrE io_then_InrE)
  apply (auto simp: io_ret_def io_now_def)
  done

lemma generateWord_InrE:
  assumes "generateWord e cfg opts s = (Inr r, s')"
  obtains templateContent s1 filledMarkdown s2 htmlContent s3 wordPath s4 fileSize s5
          url s6 name templateData
  where "client_of (word_req opts) \<noteq> None"
    and "truthy (word_markdownTemplate opts)"
    and "word_templateData opts \<noteq> JNull" and "\<not> isArray (word_templateData opts)"
    and "templateData = (if word_templateData opts = JUndefined then JObj []
                         else word_templateData opts)"
    and "name = finalFileName e ''word'' (word_fileName opts) (now s)"
    and "resolveTemplateSource e (word_markdownTemplate opts) s = (Inr templateContent, s1)"
    and "mustache e templateContent templateData s1 = (Inr filledMarkdown, s2)"
    and "word_convertMarkdownToHTML e filledMarkdown (word_cssStyles opts) s2
           = (Inr htmlContent, s3)"
    and "generateWordFromHTML e cfg htmlContent name (word_wordOptions opts) s3
           = (Inr wordPath, s4)"
    and "fs_statSync_size e wordPath s4 = (Inr fileSize, s5)"
    and "uploadToPlatformStorage e (ascii ''word-documents/'')
           (ascii ''application/vnd.openxmlformats-officedocument.wordprocessingml.document'')
           (ascii ''.docx'') wordPath name (word_req opts) s5 = (Inr url, s6)"
    and "cleanupFiles e cfg [wordPath] s6 = (Inr (), s')"
    and "r = \<lparr>word_success = True, wordURL = url, word_fileSize = fileSize,
               word_resultFileName = name @ ascii ''.docx'',
               word_storageProvider = ascii ''platform'',
               word_generatedAt = date_toISOString e (date_now e (now s'))\<rparr>"
  using assms unfolding generateWord_def Let_def
  apply (elim io_then_InrE)
  apply (drule word_checkAuth_Inr)
  apply (simp split: if_splits add: io_throw_def;
         drule try_catch_rethrow_Inr; elim io_bind_InrE io_then_InrE;
         auto simp: io_ret_def io_now_def)
  done

lemma generatePDF_order:
  assumes "generatePDF e cfg opts s = (Inr r, s')"
  shows "\<exists>p b c fl uo t uploadedFile publicUrl url.
     truthy (pdf_markdownTemplate opts) \<and> typeof (pdf_templateData opts) = TObject
     \<and> \<not> isArray (pdf_templateData opts) \<and> pdf_templateData opts \<noteq> JNull
     \<and> trace s' = trace s @ template_events (pdf_markdownTemplate opts)
          @ [EvMustache, EvMarked, EvRenderFile p, EvStat p, EvStat p,
             EvUpload p (pdf_resultFileName r)]
          @ cleanup_events cfg p
     \<and> p = path_join e (outputDir cfg) (pdf_resultFileName r)
     \<and> client_of (pdf_req opts) = Some c \<and> up_path fl = p
     \<and> storage_uploadFile c t fl uo = Inr uploadedFile
     \<and> get_prop e uploadedFile (ascii ''publicUrl'') = Inr publicUrl
     \<and> get_prop e uploadedFile (ascii ''url'') = Inr url
     \<and> pdfURL r = (if truthy publicUrl then publicUrl else url)
     \<and> files s' = (files s)(p := file_after_cleanup e cfg s' p (FBuffer b))"
  using assms
proof (rule generatePDF_InrE)
  fix templateContent s1 filledMarkdown s2 htmlContent s3 pdfPath s4 fileSize s5 pc s6 url s7 name
  assume v: "truthy (pdf_markdownTemplate opts)" "typeof (pdf_templateData opts) = TObject"
      "\<not> isArray (pdf_templateData opts)" "pdf_templateData opts \<noteq> JNull"
    and auth: "client_of (pdf_req opts) \<noteq> None"
    and 1: "getTemplateContent e (pdf_markdownTemplate opts) s = (Inr templateContent, s1)"
    and 2: "mustache e templateContent (pdf_templateData opts) s1 = (Inr filledMarkdown, s2)"
    and 3: "pdf_convertMarkdownToHTML e cfg filledMarkdown (pdf_cssStyles opts) s2
           = (Inr htmlContent, s3)"
    and 4: "generatePDFFromHTML e cfg htmlContent name (pdf_pdfOptions opts) s3 = (Inr pdfPath, s4)"
    and 5: "fs_statSync_size e pdfPath s4 = (Inr fileSize, s5)"
    and 6: "getPDFPageCount e pdfPath s5 = (Inr pc, s6)"
    and 7: "uploadToPlatformStorage e (ascii ''/tmp/operators/pdf-documents/'')
           (ascii ''application/pdf'') (ascii ''.pdf'') pdfPath name (pdf_req opts) s6
           = (Inr url, s7)"
    and 8: "cleanupFiles e cfg [pdfPath] s7 = (Inr (), s')"
    and r: "r = \<lparr>pdf_success = True, pdfURL = url, pageCount = pc, pdf_fileSize = fileSize,
               pdf_resultFileName = name @ ascii ''.pdf'',
               pdf_storageProvider = ascii ''platform'',
               pdf_generatedAt = date_toISOString e (date_now e (now s'))\<rparr>"
  note t1 = getTemplateContent_trace[OF 1] and t2 = mustache_trace[OF 2]
    and t3 = pdf_convert_trace[OF 3] and t4 = generatePDFFromHTML_Inr[OF 4]
    and t5 = stat_Inr[OF 5] and t7 = upload_trace[OF 7 auth]
  from 6 have t6: "s6 = emit (EvStat pdfPath) s5" by (simp add: getPDFPageCount_result)
  from t4 t5 t6 t7 have ex: "files s7 pdfPath \<noteq> None" by (auto simp: emit_def)
  note t8 = cleanupFiles_one_trace[OF 8 ex]
  from upload_Inr[OF 7] obtain c fl uo uploadedFile publicUrl url' where u:
    "client_of (pdf_req opts) = Some c" "up_path fl = pdfPath"
    "storage_uploadFile c (now s6) fl uo = Inr uploadedFile"
    "get_prop e uploadedFile (ascii ''publicUrl'') = Inr publicUrl"
    "get_prop e uploadedFile (ascii ''url'') = Inr url'" "url = js_or publicUrl url'"
    by blast
  have tr: "trace s' = trace s @ template_events (pdf_markdownTemplate opts)
          @ [EvMustache, EvMarked, EvRenderFile pdfPath, EvStat pdfPath, EvStat pdfPath,
             EvUpload pdfPath (pdf_resultFileName r)]
          @ cleanup_events cfg pdfPath"
    using t1 t2 t3 t4 t5 t6 t7 t8 r by (simp add: emit_def)
  from t4 obtain b where b: "files s4 = (files s3)(pdfPath \<mapsto> FBuffer b)" by blast
  with t1 t2 t3 t5 t6 t7 have f7: "files s7 = (files s)(pdfPath \<mapsto> FBuffer b)"
    by (simp add: emit_def)
  then have "files s7 pdfPath = Some (FBuffer b)" by simp
  from cleanupFiles_one_files[OF 8 this] f7
  have fs: "files s' = (files s)(pdfPath := file_after_cleanup e cfg s' pdfPath (FBuffer b))"
    by simp
  show ?thesis
    using v tr u r t4 fs by (intro exI[of _ pdfPath] exI[of _ b] exI[of _ c] exI[of _ fl]
        exI[of _ uo] exI[of _ "now s6"] exI[of _ uploadedFile] exI[of _ publicUrl]
        exI[of _ url'])
      (simp add: js_or_def)
qed


lemma generatePDF_pageCount:
  assumes "generatePDF e cfg opts s = (Inr r, s')"
  shows "\<exists>p html b t.
       p = path_join e (outputDir cfg) (pdf_resultFileName r)
     \<and> t = now s + length (template_events (pdf_markdownTemplate opts)) + 4
     \<and> puppeteer_pdf e (t - 2) html (pdf_pdfOptions opts) = Inr b
     \<and> trace s' ! (t - 2) = EvRenderFile p
     \<and> trace s' ! (t - 1) = EvStat p \<and> trace s' ! t = EvStat p
     \<and> pdf_fileSize r = length b
     \<and> pageCount r = (if fs_fault e t OpStat p = None
                      then max 1 (round (real (length b) / (50 * 1024))) else 1)"
  using assms
proof (rule generatePDF_InrE)
  fix templateContent s1 filledMarkdown s2 htmlContent s3 pdfPath s4 fileSize s5 pc s6 url s7 name
  assume auth: "client_of (pdf_req opts) \<noteq> None"
    and 1: "getTemplateContent e (pdf_markdownTemplate opts) s = (Inr templateContent, s1)"
    and 2: "mustache e templateContent (pdf_templateData opts) s1 = (Inr filledMarkdown, s2)"
    and 3: "pdf_convertMarkdownToHTML e cfg filledMarkdown (pdf_cssStyles opts) s2
           = (Inr htmlContent, s3)"
    and 4: "generatePDFFromHTML e cfg htmlContent name (pdf_pdfOptions opts) s3 = (Inr pdfPath, s4)"
    and 5: "fs_statSync_size e pdfPath s4 = (Inr fileSize, s5)"
    and 6: "getPDFPageCount e pdfPath s5 = (Inr pc, s6)"
    and 7: "uploadToPlatformStorage e (ascii ''/tmp/operators/pdf-documents/'')
           (ascii ''application/pdf'') (ascii ''.pdf'') pdfPath name (pdf_req opts) s6
           = (Inr url, s7)"
    and 8: "cleanupFiles e cfg [pdfPath] s7 = (Inr (), s')"
    and r: "r = \<lparr>pdf_success = True, pdfURL = url, pageCount = pc, pdf_fileSize = fileSize,
               pdf_resultFileName = name @ ascii ''.pdf'',
               pdf_storageProvider = ascii ''platform'',
               pdf_generatedAt = date_toISOString e (date_now e (now s'))\<rparr>"
  define t where "t = now s + length (template_events (pdf_markdownTemplate opts)) + 4"
  note t1 = getTemplateContent_trace[OF 1] and t2 = mustache_trace[OF 2]
    and t3 = pdf_convert_trace[OF 3] and t4 = generatePDFFromHTML_Inr[OF 4]
    and t5 = stat_Inr[OF 5] and t7 = upload_trace[OF 7 auth]
  from 6 have t6: "s6 = emit (EvStat pdfPath) s5" by (simp add: getPDFPageCount_result)
  from t4 obtain b where b: "puppeteer_pdf e (now s3) htmlContent (pdf_pdfOptions opts) = Inr b"
    "files s4 = (files s3)(pdfPath \<mapsto> FBuffer b)" by blast
  from t4 t5 t6 t7 have ex: "files s7 pdfPath \<noteq> None" by (auto simp: emit_def)
  note t8 = cleanupFiles_one_trace[OF 8 ex]
  define pre where "pre = trace s @ template_events (pdf_markdownTemplate opts)"
  define evs where "evs = [EvMustache, EvMarked, EvRenderFile pdfPath, EvStat pdfPath,
             EvStat pdfPath, EvUpload pdfPath (pdf_resultFileName r)] @ cleanup_events cfg pdfPath"
  have tr: "trace s' = pre @ evs"
    using t1 t2 t3 t4 t5 t6 t7 t8 r by (simp add: emit_def pre_def evs_def)
  have len: "t - 2 = length pre + 2" "t - 1 = length pre + 3" "t = length pre + 4"
    by (simp_all add: t_def now_def pre_def)
  have n3: "now s3 = t - 2" "now s5 = t"
    using t1 t2 t3 t4 t5 by (simp_all add: now_def t_def)
  have ev2: "trace s' ! (t - 2) = EvRenderFile pdfPath"
    unfolding len(1) tr nth_append_length_plus by (simp add: evs_def)
  have ev3: "trace s' ! (t - 1) = EvStat pdfPath"
    unfolding len(2) tr nth_append_length_plus by (simp add: evs_def)
  have ev4: "trace s' ! t = EvStat pdfPath"
    unfolding len(3) tr nth_append_length_plus by (simp add: evs_def)
  note ev = ev2 ev3 ev4
  from t5 b have f5: "files s5 pdfPath = Some (FBuffer b)" by simp
  with t5 have sz: "fileSize = length b" by (auto simp: fdata_size_def)
  from 6 have "pc = (case fst (fs_statSync_size e pdfPath s5) of
             Inr n \<Rightarrow> max 1 (round (real n / (50 * 1024))) | Inl err \<Rightarrow> 1)"
    by (simp add: getPDFPageCount_result)
  with f5 n3 have pc: "pc = (if fs_fault e t OpStat pdfPath = None
                      then max 1 (round (real (length b) / (50 * 1024))) else 1)"
    by (auto simp: fs_statSync_size_def Let_def fdata_size_def split: option.splits)
  from t4 r have pth: "pdfPath = path_join e (outputDir cfg) (pdf_resultFileName r)" by simp
  show ?thesis
    using pth b(1) n3 ev sz pc r t_def
    by (intro exI[of _ pdfPath] exI[of _ htmlContent] exI[of _ b] exI[of _ t]) simp
qed

lemma generateMarkdown_order:
  assumes "generateMarkdown e cfg opts s = (Inr r, s')"
  shows "\<exists>p content req' c fl uo t uploadedFile publicUrl url.
     truthy (md_markdownContent opts) \<and> typeof (md_markdownContent opts) = TString
     \<and> (md_templateData opts = JUndefined \<or> md_templateData opts = JNull
         \<or> typeof (md_templateData opts) = TObject \<and> \<not> isArray (md_templateData opts))
     \<and> trace s' = trace s @ template_events (md_markdownContent opts)
          @ (if truthy (md_templateData opts) then [EvMustache] else [])
          @ [EvWriteFile p (FString content), EvStat p, EvUpload p (md_resultFileName r)]
          @ cleanup_events cfg p
     \<and> p = path_join e (outputDir cfg) (md_resultFileName r)
     \<and> md_checkAuth e (md_req opts) s = (Inr req', s)
     \<and> client_of req' = Some c \<and> up_path fl = p
     \<and> storage_uploadFile c t fl uo = Inr uploadedFile
     \<and> get_prop e uploadedFile (ascii ''publicUrl'') = Inr publicUrl
     \<and> get_prop e uploadedFile (ascii ''url'') = Inr url
     \<and> mdURL r = (if truthy publicUrl then publicUrl else url)
     \<and> files s' = (files s)(p := file_after_cleanup e cfg s' p (FString content))"
  using assms
proof (rule generateMarkdown_InrE)
  fix req' templateContent s1 filledMarkdown s2 mdPath s3 fileSize s4 url s5 name processed
  assume v: "truthy (md_markdownContent opts)" "typeof (md_markdownContent opts) = TString"
      "md_templateData opts = JUndefined \<or> md_templateData opts = JNull
         \<or> typeof (md_templateData opts) = TObject \<and> \<not> isArray (md_templateData opts)"
    and auth: "md_checkAuth e (md_req opts) s = (Inr req', s)"
    and 1: "getTemplateContent e (md_markdownContent opts) s = (Inr templateContent, s1)"
    and 2: "(if truthy (md_templateData opts)
          then mustache e templateContent (md_templateData opts)
          else io_ret templateContent) s1 = (Inr filledMarkdown, s2)"
    and 4: "generateMarkdownFile e cfg processed name s2 = (Inr mdPath, s3)"
    and 5: "fs_statSync_size e mdPath s3 = (Inr fileSize, s4)"
    and 7: "uploadToPlatformStorage e (ascii ''/tmp/operators/markdown-documents/'')
           (ascii ''text/markdown'') (ascii ''.md'') mdPath name req' s4 = (Inr url, s5)"
    and 8: "cleanupFiles e cfg [mdPath] s5 = (Inr (), s')"
    and r: "r = \<lparr>md_success = True, mdURL = url, lineCount = getLineCount processed,
               md_fileSize = fileSize, md_resultFileName = name @ ascii ''.md'',
               md_storageProvider = ascii ''platform'',
               md_generatedAt = date_toISOString e (date_now e (now s'))\<rparr>"
  from md_checkAuth_Inr[OF auth] have a: "client_of req' \<noteq> None" by simp
  note t1 = getTemplateContent_trace[OF 1]
  have t2: "trace s2 = trace s1 @ (if truthy (md_templateData opts) then [EvMustache] else [])
            \<and> files s2 = files s1"
    using 2 by (auto simp: io_ret_def split: if_splits dest: mustache_trace)
  note t4 = generateMarkdownFile_Inr[OF 4] and t5 = stat_Inr[OF 5] and t7 = upload_trace[OF 7 a]
  from t4 t5 t7 have ex: "files s5 mdPath \<noteq> None" by auto
  note t8 = cleanupFiles_one_trace[OF 8 ex]
  from upload_Inr[OF 7] obtain c fl uo uploadedFile publicUrl url' where u:
    "client_of req' = Some c" "up_path fl = mdPath"
    "storage_uploadFile c (now s4) fl uo = Inr uploadedFile"
    "get_prop e uploadedFile (ascii ''publicUrl'') = Inr publicUrl"
    "get_prop e uploadedFile (ascii ''url'') = Inr url'" "url = js_or publicUrl url'"
    by blast
  have tr: "trace s' = trace s @ template_events (md_markdownContent opts)
          @ (if truthy (md_templateData opts) then [EvMustache] else [])
          @ [EvWriteFile mdPath (FString processed), EvStat mdPath,
             EvUpload mdPath (md_resultFileName r)]
          @ cleanup_events cfg mdPath"
    using t1 t2 t4 t5 t7 t8 r by simp
  from t1 t2 t4 t5 t7 have f5: "files s5 = (files s)(mdPath \<mapsto> FString processed)" by simp
  then have "files s5 mdPath = Some (FString processed)" by simp
  from cleanupFiles_one_files[OF 8 this] f5
  have fs: "files s' = (files s)(mdPath := file_after_cleanup e cfg s' mdPath (FString processed))"
    by simp
  show ?thesis
    using v tr u r auth t4 fs by (intro exI[of _ mdPath] exI[of _ processed] exI[of _ req'] exI[of _ c]
        exI[of _ fl] exI[of _ uo] exI[of _ "now s4"] exI[of _ uploadedFile] exI[of _ publicUrl]
        exI[of _ url'])
      (simp add: js_or_def)
qed

lemma generateWord_order:
  assumes "generateWord e cfg opts s = (Inr r, s')"
  shows "\<exists>p b c fl uo t uploadedFile publicUrl url.
     truthy (word_markdownTemplate opts) \<and> word_templateData opts \<noteq> JNull
     \<and> \<not> isArray (word_templateData opts)
     \<and> trace s' = trace s @ word_template_events s (word_markdownTemplate opts)
          @ [EvMustache, EvMarked, EvWriteFile p (FBuffer b), EvStat p,
             EvUpload p (word_resultFileName r)]
          @ cleanup_events cfg p
     \<and> p = path_join e (outputDir cfg) (word_resultFileName r)
     \<and> client_of (word_req opts) = Some c \<and> up_path fl = p
     \<and> storage_uploadFile c t fl uo = Inr uploadedFile
     \<and> get_prop e uploadedFile (ascii ''publicUrl'') = Inr publicUrl
     \<and> get_prop e uploadedFile (ascii ''url'') = Inr url
     \<and> wordURL r = (if truthy publicUrl then publicUrl else url)
     \<and> files s' = (files s)(p := file_after_cleanup e cfg s' p (FBuffer b))"
  using assms
proof (rule generateWord_InrE)
  fix templateContent s1 filledMarkdown s2 htmlContent s3 wordPath s4 fileSize s5 url s6 name
    templateData
  assume v: "truthy (word_markdownTemplate opts)" "word_templateData opts \<noteq> JNull"
      "\<not> isArray (word_templateData opts)"
    and auth: "client_of (word_req opts) \<noteq> None"
    and 1: "resolveTemplateSource e (word_markdownTemplate opts) s = (Inr templateContent, s1)"
    and 2: "mustache e templateContent templateData s1 = (Inr filledMarkdown, s2)"
    and 3: "word_convertMarkdownToHTML e filledMarkdown (word_cssStyles opts) s2
           = (Inr htmlContent, s3)"
    and 4: "generateWordFromHTML e cfg htmlContent name (word_wordOptions opts) s3
           = (Inr wordPath, s4)"
    and 5: "fs_statSync_size e wordPath s4 = (Inr fileSize, s5)"
    and 7: "uploadToPlatformStorage e (ascii ''word-documents/'')
           (ascii ''application/vnd.openxmlformats-officedocument.wordprocessingml.document'')
           (ascii ''.docx'') wordPath name (word_req opts) s5 = (Inr url, s6)"
    and 8: "cleanupFiles e cfg [wordPath] s6 = (Inr (), s')"
    and r: "r = \<lparr>word_success = True, wordURL = url, word_fileSize = fileSize,
               word_resultFileName = name @ ascii ''.docx'',
               word_storageProvider = ascii ''platform'',
               word_generatedAt = date_toISOString e (date_now e (now s'))\<rparr>"
  note t1 = resolveTemplateSource_trace[OF 1] and t2 = mustache_trace[OF 2]
    and t3 = word_convert_trace[OF 3] and t5 = stat_Inr[OF 5] and t7 = upload_trace[OF 7 auth]
  from generateWordFromHTML_Inr[OF 4] obtain b where t4:
    "trace s4 = trace s3 @ [EvWriteFile wordPath (FBuffer b)]"
    "files s4 = (files s3)(wordPath \<mapsto> FBuffer b)"
    "wordPath = path_join e (outputDir cfg) (name @ ascii ''.docx'')"
    by blast
  from t4 t5 t7 have ex: "files s6 wordPath \<noteq> None" by auto
  note t8 = cleanupFiles_one_trace[OF 8 ex]
  from upload_Inr[OF 7] obtain c fl uo uploadedFile publicUrl url' where u:
    "client_of (word_req opts) = Some c" "up_path fl = wordPath"
    "storage_uploadFile c (now s5) fl uo = Inr uploadedFile"
    "get_prop e uploadedFile (ascii ''publicUrl'') = Inr publicUrl"
    "get_prop e uploadedFile (ascii ''url'') = Inr url'" "url = js_or publicUrl url'"
    by blast
  have tr: "trace s' = trace s @ word_template_events s (word_markdownTemplate opts)
          @ [EvMustache, EvMarked, EvWriteFile wordPath (FBuffer b), EvStat wordPath,
             EvUpload wordPath (word_resultFileName r)]
          @ cleanup_events cfg wordPath"
    using t1 t2 t3 t4 t5 t7 t8 r by simp
  from t1 t2 t3 t4 t5 t7 have f6: "files s6 = (files s)(wordPath \<mapsto> FBuffer b)" by simp
  then have "files s6 wordPath = Some (FBuffer b)" by simp
  from cleanupFiles_one_files[OF 8 this] f6
  have fs: "files s' = (files s)(wordPath := file_after_cleanup e cfg s' wordPath (FBuffer b))"
    by simp
  show ?thesis
    using v tr u r t4 fs by (intro exI[of _ wordPath] exI[of _ b] exI[of _ c]
        exI[of _ fl] exI[of _ uo] exI[of _ "now s5"] exI[of _ uploadedFile] exI[of _ publicUrl]
        exI[of _ url'])
      (simp add: js_or_def)
qed

subsection \<open>Cleanup and extraction\<close>

lemma cleanup_loop_never_throws: "fst (cleanup_loop e inDir paths s) = Inr ()"
proof (induction paths arbitrary: s)
  case Nil
  then show ?case by (simp add: cleanup_loop.simps io_ret_def)
next
  case (Cons p ps)
  then show ?case by (simp add: cleanup_loop_Cons)
qed

lemma cleanup_loop_files:
  "files (snd (cleanup_loop e inDir paths s)) q \<noteq> files s q \<Longrightarrow>
     q \<in> set paths \<and> files s q \<noteq> None \<and> inDir q \<and> files (snd (cleanup_loop e inDir paths s)) q = None"
proof (induction paths arbitrary: s)
  case Nil
  then show ?case by (simp add: cleanup_loop.simps io_ret_def)
next
  case (Cons p ps)
  let ?s1 = "cleanup_step e inDir p s"
  have step: "files ?s1 q = files s q \<or> (q = p \<and> files s q \<noteq> None \<and> inDir q \<and> files ?s1 q = None)"
    by (auto simp: cleanup_step_def emit_def split: option.splits)
  show ?case
  proof (cases "files (snd (cleanup_loop e inDir ps ?s1)) q = files ?s1 q")
    case True
    with Cons.prems step show ?thesis by (auto simp: cleanup_loop_Cons)
  next
    case False
    from Cons.IH[OF False] step show ?thesis by (auto simp: cleanup_loop_Cons)
  qed
qed

lemma extractText_valid:
  assumes "fid \<noteq> []" "client_of req = Some c"
  shows "extractText e cfg (JStr fid) req s =
     (case fetchToTemp e cfg fid c s of
        (Inl error, s1) \<Rightarrow> (Inl (Err (msg_text_extraction_failed @ message error)), s1)
      | (Inr (tempFilePath, extension), s1) \<Rightarrow>
          (case extractTextByFormat e tempFilePath extension s1 of
             (r, s2) \<Rightarrow>
               ((case r of Inl error \<Rightarrow> Inl (Err (msg_text_extraction_failed @ message error))
                         | Inr text \<Rightarrow> Inr text),
                if tempFilePath \<noteq> []
                then cleanup_step e (\<lambda>filePath. includes_str filePath (ex_tempDir cfg))
                       tempFilePath s2
                else s2)))"
  using assms
  by (auto simp: extractText_def checkAuth_def io_then_def io_bind_def io_ret_def io_throw_def
        try_catch_def try_finally_def ex_cleanupFiles_def cleanup_one
      split: prod.splits sum.splits)

lemma fetchToTemp_unsupported:
  assumes "storage_getFile c (now s) fid = Inr fileInfoResponse"
    and "file_name_of e fileInfoResponse = Some fileName"
    and "\<not> isSupportedFormat e (getFileExtension e fileName)"
  shows "fetchToTemp e cfg fid c s =
     (Inl (Err (msg_unsupported_format @ getFileExtension e fileName @ msg_supported_formats)),
      emit (EvGetFile fid) s)"
  using assms
  by (auto simp: fetchToTemp_def file_name_of_def io_bind_def io_of_def io_throw_def Let_def
      split: sum.splits prod.splits)

lemma fetchToTemp_Inr:
  assumes "fetchToTemp e cfg fid c s = (Inr (p, ext), s1)"
  shows "\<exists>fileInfoResponse fileName.
           storage_getFile c (now s) fid = Inr fileInfoResponse
           \<and> file_name_of e fileInfoResponse = Some fileName
           \<and> ext = getFileExtension e fileName
           \<and> isSupportedFormat e ext"
proof -
  from assms obtain resp data name fileName' where
      g: "storage_getFile c (now s) fid = Inr resp"
      and d: "get_prop e resp (ascii ''data'') = Inr data"
      and n: "get_prop e (js_or data resp) (ascii ''name'') = Inr name"
      and f: "get_prop e (js_or data resp) (ascii ''fileName'') = Inr fileName'"
      and x: "ext = getFileExtension e (js_or (js_or name fileName') (JStr []))"
             "isSupportedFormat e ext"
    by (auto simp: fetchToTemp_def io_bind_def io_of_def io_throw_def io_ret_def Let_def
        split: sum.splits prod.splits if_splits)
  from d n f have "file_name_of e resp = Some (js_or (js_or name fileName') (JStr []))"
    by (simp add: file_name_of_def)
  with g x show ?thesis by blast
qed


lemma fetchToTemp_creates:
  assumes "fetchToTemp e cfg fid c s = (Inr (p, ext), s1)"
  shows "files s1 p \<noteq> None"
  using assms
  by (auto simp: fetchToTemp_def getFileFromStorage_def fs_writeFileSync_def io_bind_def
        io_then_def io_of_def io_throw_def io_ret_def io_now_def try_catch_def Let_def emit_def
      split: sum.splits prod.splits if_splits option.splits)

lemma extractText_cleans:
  assumes "fid \<noteq> []" "client_of req = Some c"
    and "fetchToTemp e cfg fid c s = (Inr (p, ext), s1)"
    and "extractTextByFormat e p ext s1 = (r, s2)" and "p \<noteq> []"
  shows "snd (extractText e cfg (JStr fid) req s)
         = cleanup_step e (\<lambda>filePath. includes_str filePath (ex_tempDir cfg)) p s2"
  using assms by (simp add: extractText_valid)

lemma cleanup_step_deletes:
  "inDir p \<Longrightarrow> fs_fault e (now s) OpUnlink p = None \<Longrightarrow> files (cleanup_step e inDir p s) p = None"
  by (simp add: cleanup_step_def emit_def)

subsection \<open>The processing of Markdown\<close>

lemma written_strings_append [simp]:
  "written_strings (xs @ ys) = written_strings xs @ written_strings ys"
  by (simp add: written_strings_def)

lemma written_strings_simps [simp]:
  "written_strings [] = []"
  "written_strings (EvWriteFile p (FString c) # evs) = c # written_strings evs"
  "written_strings (EvStat p # evs) = written_strings evs"
  "written_strings (EvUpload p n # evs) = written_strings evs"
  "written_strings (EvMustache # evs) = written_strings evs"
  "written_strings (EvUnlink p # evs) = written_strings evs"
  by (simp_all add: written_strings_def)

lemma written_strings_template_events [simp]: "written_strings (template_events v) = []"
  by (auto simp: template_events_def written_strings_def split: jsval.splits)

lemma written_strings_cleanup_events [simp]: "written_strings (cleanup_events cfg p) = []"
  by (simp add: cleanup_events_def)

lemma generateMarkdown_written:
  assumes "generateMarkdown e cfg opts s = (Inr r, s')"
  shows "\<exists>filledMarkdown.
     written_strings (drop (length (trace s)) (trace s'))
       = [processMarkdown cfg filledMarkdown
            (case md_lineEnding opts of None \<Rightarrow> [LF] | Some l \<Rightarrow> l)]"
  using assms
proof (rule generateMarkdown_InrE)
  fix req' templateContent s1 filledMarkdown s2 mdPath s3 fileSize s4 url s5 name processed
  assume auth: "md_checkAuth e (md_req opts) s = (Inr req', s)"
    and 1: "getTemplateContent e (md_markdownContent opts) s = (Inr templateContent, s1)"
    and 2: "(if truthy (md_templateData opts)
          then mustache e templateContent (md_templateData opts)
          else io_ret templateContent) s1 = (Inr filledMarkdown, s2)"
    and p: "processed = processMarkdown cfg filledMarkdown
           (case md_lineEnding opts of None \<Rightarrow> [LF] | Some l \<Rightarrow> l)"
    and 4: "generateMarkdownFile e cfg processed name s2 = (Inr mdPath, s3)"
    and 5: "fs_statSync_size e mdPath s3 = (Inr fileSize, s4)"
    and 7: "uploadToPlatformStorage e (ascii ''/tmp/operators/markdown-documents/'')
           (ascii ''text/markdown'') (ascii ''.md'') mdPath name req' s4 = (Inr url, s5)"
    and 8: "cleanupFiles e cfg [mdPath] s5 = (Inr (), s')"
  from md_checkAuth_Inr[OF auth] have a: "client_of req' \<noteq> None" by simp
  note t1 = getTemplateContent_trace[OF 1]
  have t2: "trace s2 = trace s1 @ (if truthy (md_templateData opts) then [EvMustache] else [])
            \<and> files s2 = files s1"
    using 2 by (auto simp: io_ret_def split: if_splits dest: mustache_trace)
  note t4 = generateMarkdownFile_Inr[OF 4] and t5 = stat_Inr[OF 5] and t7 = upload_trace[OF 7 a]
  from t4 t5 t7 have ex: "files s5 mdPath \<noteq> None" by auto
  note t8 = cleanupFiles_one_trace[OF 8 ex]
  have "written_strings (drop (length (trace s)) (trace s')) = [processed]"
    using t1 t2 t4 t5 t7 t8 by simp
  with p show ?thesis by blast
qed

lemma crlf_to_lf_last:
  "ys \<noteq> [] \<Longrightarrow> crlf_to_lf ys \<noteq> [] \<and> last (crlf_to_lf ys) = last ys"
  by (induction ys rule: crlf_to_lf.induct) auto

lemma cr_to_lf_no_CR: "CR \<notin> set (cr_to_lf xs)"
  by (auto simp: cr_to_lf_def CR_def LF_def)

lemma endsWith_last:
  "p \<noteq> [] \<Longrightarrow> endsWith xs p \<Longrightarrow> xs \<noteq> [] \<and> last xs = last p"
  unfolding endsWith_def
  by (metis drop_eq_Nil2 last_drop diff_less length_greater_0_conv le_antisym
      less_le_not_le diff_le_self list.size(3))

lemma endsWith_single: "xs \<noteq> [] \<Longrightarrow> last xs = c \<Longrightarrow> endsWith xs [c]"
  by (cases xs rule: rev_cases) (auto simp: endsWith_def)

lemma normalizeLineEndings_ends:
  assumes "xs \<noteq> []" "last xs = LF \<or> last xs = CR"
  shows "endsWith (normalizeLineEndings xs) [LF]"
proof -
  from crlf_to_lf_last[OF assms(1)] have c: "crlf_to_lf xs \<noteq> []" "last (crlf_to_lf xs) = last xs"
    by simp_all
  then have "cr_to_lf (crlf_to_lf xs) \<noteq> []" "last (cr_to_lf (crlf_to_lf xs)) = LF"
    using assms(2) by (auto simp: cr_to_lf_def last_map)
  then show ?thesis unfolding normalizeLineEndings_def by (rule endsWith_single)
qed

lemma processMarkdown_default:
  assumes "md_default cfg" "lineEnding \<in> {[LF], [CR, LF], [CR]}"
  shows "CR \<notin> set (processMarkdown cfg markdown lineEnding)"
    and "endsWith (processMarkdown cfg markdown lineEnding) [LF]"
proof -
  define trimmed where
    "trimmed = join_lf (map trim_end (split_lf (processLineEndings markdown lineEnding)))"
  define ended where
    "ended = (if \<not> endsWith trimmed lineEnding then trimmed @ lineEnding else trimmed)"
  have pm: "processMarkdown cfg markdown lineEnding = normalizeLineEndings ended"
    using assms(1) by (simp add: processMarkdown_def md_default_def Let_def ended_def trimmed_def)
  show "CR \<notin> set (processMarkdown cfg markdown lineEnding)"
    unfolding pm normalizeLineEndings_def by (rule cr_to_lf_no_CR)
  have le: "lineEnding \<noteq> []" "last lineEnding = LF \<or> last lineEnding = CR"
    using assms(2) by auto
  have "ended \<noteq> [] \<and> last ended = last lineEnding"
  proof (cases "endsWith trimmed lineEnding")
    case True
    with endsWith_last[OF le(1)] show ?thesis by (simp add: ended_def)
  next
    case False
    with le(1) show ?thesis by (simp add: ended_def)
  qed
  with le(2) show "endsWith (processMarkdown cfg markdown lineEnding) [LF]"
    unfolding pm by (intro normalizeLineEndings_ends) auto
qed

subsection \<open>Failures of the extraction\<close>

lemma post_extract_failure:
  assumes "body_fileId rq = JStr fid" "fid \<noteq> []" "length fid \<le> 128"
    and "client_of (rq_req rq) = Some c"
    and "extractText e cfg (JStr fid) (rq_req rq) s = (Inl err, s')"
  shows "post_extract e cfg rq s = (extraction_failed_response (message err), s')"
  using assms
  by (simp add: post_extract_def validateExtractText_def sendErrorResponse_def
      extraction_failed_response_def io_then_def io_bind_def checkAuth_def io_ret_def)

lemma post_extract_failure_msg:
  assumes "body_fileId rq = JStr fid" "fid \<noteq> []" "length fid \<le> 128"
    and "client_of (rq_req rq) = Some c"
    and "extractText e cfg (JStr fid) (rq_req rq) s = (Inl (Err m), s')"
  shows "post_extract e cfg rq s = (extraction_failed_response m, s')"
  using post_extract_failure[OF assms] by simp

lemma fetchToTemp_getFile_failure:
  assumes "storage_getFile c (now s) fid = Inl err"
  shows "fetchToTemp e cfg fid c s = (Inl err, emit (EvGetFile fid) s)"
  using assms by (simp add: fetchToTemp_def io_bind_def)

lemma fetchToTemp_download_failure:
  assumes "storage_getFile c (now s) fid = Inr fileInfoResponse"
    and "file_name_of e fileInfoResponse = Some fileName"
    and "isSupportedFormat e (getFileExtension e fileName)"
    and "storage_getFileContent c (now s + 1) fid = Inl err"
  shows "fetchToTemp e cfg fid c s =
     (Inl (Err (download_failure_message err)),
      emit (EvGetFileContent fid) (emit (EvGetFile fid) s))"
  using assms
  by (auto simp: fetchToTemp_def file_name_of_def getFileFromStorage_def io_bind_def io_of_def
        io_throw_def try_catch_def Let_def download_failure_message_def emit_def now_def
      split: sum.splits prod.splits option.splits)

lemma extractText_fetch_failure:
  assumes "fid \<noteq> []" "client_of req = Some c"
    and "fetchToTemp e cfg fid c s = (Inl err, s1)"
  shows "extractText e cfg (JStr fid) req s =
     (Inl (Err (msg_text_extraction_failed @ message err)), s1)"
  using assms by (simp add: extractText_valid)

lemma extractText_parser_failure:
  assumes "fid \<noteq> []" "client_of req = Some c"
    and "fetchToTemp e cfg fid c s = (Inr (p, ext), s1)"
    and "extractTextByFormat e p ext s1 = (Inl err, s2)"
  shows "extractText e cfg (JStr fid) req s =
     (Inl (Err (msg_text_extraction_failed @ message err)),
      if p \<noteq> [] then cleanup_step e (\<lambda>filePath. includes_str filePath (ex_tempDir cfg)) p s2
      else s2)"
  using assms by (simp add: extractText_valid)

lemma extractTextByFormat_pdf_failure:
  assumes "toLowerCase e ext = ascii ''pdf''" "fs_fault e (now s1) OpRead p = None"
    and "files s1 p = Some d" "pdf_parse e (now s1 + 1) d = Inl liberr"
  shows "extractTextByFormat e p ext s1 =
     (Inl (Err (msg_pdf_extract_failed @ message liberr)),
      emit (EvParse p) (emit (EvReadFile p) s1))"
  using assms
  by (simp add: extractTextByFormat_def extractFromPDF_def try_catch_def io_bind_def
      fs_readFileSync_def io_throw_def emit_def now_def Let_def)

lemma ext_distinct:
  "ascii ''docx'' \<noteq> ascii ''pdf''" "ascii ''doc'' \<noteq> ascii ''pdf''"
  "ascii ''doc'' \<noteq> ascii ''docx''" "ascii ''xlsx'' \<noteq> ascii ''pdf''"
  "ascii ''xlsx'' \<noteq> ascii ''docx''" "ascii ''xlsx'' \<noteq> ascii ''doc''"
  "ascii ''xls'' \<noteq> ascii ''pdf''" "ascii ''xls'' \<noteq> ascii ''docx''"
  "ascii ''xls'' \<noteq> ascii ''doc''" "ascii ''xls'' \<noteq> ascii ''xlsx''"
  by (simp_all add: ascii_def)

lemma extractTextByFormat_docx_failure:
  assumes "toLowerCase e ext = ascii ''docx''"
    and "mammoth_extractRawText e (now s1) (files s1 p) = Inl liberr"
  shows "extractTextByFormat e p ext s1 =
     (Inl (Err (msg_docx_extract_failed @ message liberr)), emit (EvParse p) s1)"
  using assms
  by (simp add: extractTextByFormat_def extractFromDOCX_def try_catch_def io_throw_def
      ext_distinct Let_def)

lemma extractTextByFormat_doc_failure:
  assumes "toLowerCase e ext = ascii ''doc''" "textract_require e = None"
    and "textract_fromFileWithPath e (now s1) (files s1 p) = Inl liberr"
  shows "extractTextByFormat e p ext s1 =
     (Inl (Err (msg_doc_extract_failed @ message liberr @ msg_doc_install_hint)),
      emit (EvParse p) s1)"
  using assms
  by (simp add: extractTextByFormat_def extractFromDOC_def try_catch_def io_throw_def
      ext_distinct Let_def)

lemma extractTextByFormat_doc_unavailable:
  assumes "toLowerCase e ext = ascii ''doc''" "textract_require e = Some liberr"
  shows "extractTextByFormat e p ext s1 =
     (Inl (Err (msg_doc_extract_failed @ msg_doc_unavailable)), s1)"
  using assms
  by (simp add: extractTextByFormat_def extractFromDOC_def io_throw_def ext_distinct Let_def)

lemma extractTextByFormat_xlsx_failure:
  assumes "toLowerCase e ext = ascii ''xlsx'' \<or> toLowerCase e ext = ascii ''xls''"
    and "xlsx_readFile e (now s1) (files s1 p) = Inl liberr"
  shows "extractTextByFormat e p ext s1 =
     (Inl (Err (msg_xlsx_extract_failed @ message liberr)), emit (EvParse p) s1)"
  using assms
  by (auto simp: extractTextByFormat_def extractFromXLSX_def extractFromXLS_def try_catch_def
      io_bind_def io_throw_def ext_distinct Let_def)

lemma response_Err [simp]: "response (Err m) = None"
  by (simp add: Err_def)

subsection \<open>The same answers at another moment\<close>

lemma env_shifted_sel [simp]:
  "toLowerCase (env_shifted k e) = toLowerCase e"
  "js_toString (env_shifted k e) = js_toString e"
  "path_extname (env_shifted k e) = path_extname e"
  "path_join (env_shifted k e) = path_join e"
  "typeErrorMessage (env_shifted k e) = typeErrorMessage e"
  "utf8_length (env_shifted k e) = utf8_length e"
  "utf8_decode (env_shifted k e) = utf8_decode e"
  "utf16le_decode (env_shifted k e) = utf16le_decode e"
  "process_env (env_shifted k e) = process_env e"
  "date_getFullYear (env_shifted k e) = date_getFullYear e"
  "date_getMonth (env_shifted k e) = date_getMonth e"
  "date_toISOString (env_shifted k e) = date_toISOString e"
  "mustache_render (env_shifted k e) = mustache_render e"
  "marked_parse (env_shifted k e) = marked_parse e"
  "date_now (env_shifted k e) t = date_now e (t + k)"
  "uuidv4 (env_shifted k e) t = uuidv4 e (t + k)"
  "axios_get (env_shifted k e) t = axios_get e (t + k)"
  "puppeteer_pdf (env_shifted k e) t = puppeteer_pdf e (t + k)"
  "docx_build (env_shifted k e) t = docx_build e (t + k)"
  "fs_fault (env_shifted k e) t = fs_fault e (t + k)"
  by (simp_all add: env_shifted_def)

lemma client_shifted_sel [simp]:
  "storage_uploadFile (client_shifted k c) t = storage_uploadFile c (t + k)"
  by (simp add: client_shifted_def)

lemma client_of_shifted [simp]:
  "client_of (request_shifted k req) = map_option (client_shifted k) (client_of req)"
  by (cases req) simp_all

lemma later_emit: "later k s1 s2 \<Longrightarrow> later k (emit ev1 s1) (emit ev2 s2)"
  by (simp add: later_def emit_def now_def)

lemma same_outcomeI:
  assumes "\<And>s1 s2. later k s1 s2 \<Longrightarrow>
     rel_sum (=) R (fst (m1 s1)) (fst (m2 s2)) \<and> later k (snd (m1 s1)) (snd (m2 s2))"
  shows "same_outcome k R m1 m2"
  using assms by (simp add: same_outcome_def)

lemma same_outcomeD:
  assumes "same_outcome k R m1 m2" "later k s1 s2"
  shows "rel_sum (=) R (fst (m1 s1)) (fst (m2 s2))" "later k (snd (m1 s1)) (snd (m2 s2))"
  using assms by (simp_all add: same_outcome_def)

lemma so_ret: "R x y \<Longrightarrow> same_outcome k R (io_ret x) (io_ret y)"
  by (simp add: same_outcome_def io_ret_def)

lemma so_ret_eq: "same_outcome k (=) (io_ret x) (io_ret x)"
  by (simp add: same_outcome_def io_ret_def)

lemma so_throw: "same_outcome k R (io_throw err) (io_throw err)"
  by (simp add: same_outcome_def io_throw_def)

lemma so_bind:
  assumes "same_outcome k R m1 m2"
    and "\<And>x y. R x y \<Longrightarrow> same_outcome k Q (f1 x) (f2 y)"
  shows "same_outcome k Q (io_bind m1 f1) (io_bind m2 f2)"
proof (rule same_outcomeI)
  fix s1 s2 assume l: "later k s1 s2"
  obtain r1 t1 where m1: "m1 s1 = (r1, t1)" by (cases "m1 s1")
  obtain r2 t2 where m2: "m2 s2 = (r2, t2)" by (cases "m2 s2")
  from same_outcomeD[OF assms(1) l] m1 m2
  have r: "rel_sum (=) R r1 r2" and l': "later k t1 t2" by simp_all
  show "rel_sum (=) Q (fst (io_bind m1 f1 s1)) (fst (io_bind m2 f2 s2))
        \<and> later k (snd (io_bind m1 f1 s1)) (snd (io_bind m2 f2 s2))"
  proof (cases r1)
    case (Inl a)
    with r have "r2 = Inl a" by (cases r2) simp_all
    with Inl m1 m2 l' show ?thesis by (simp add: io_bind_def)
  next
    case (Inr x)
    with r obtain y where y: "r2 = Inr y" "R x y" by (cases r2) simp_all
    from same_outcomeD[OF assms(2)[OF y(2)] l'] Inr y m1 m2
    show ?thesis by (simp add: io_bind_def)
  qed
qed

lemma so_bind_eq:
  assumes "same_outcome k (=) m1 m2"
    and "\<And>x. same_outcome k Q (f1 x) (f2 x)"
  shows "same_outcome k Q (io_bind m1 f1) (io_bind m2 f2)"
  using assms(1) by (rule so_bind) (simp add: assms(2))

lemma so_then:
  assumes "same_outcome k (=) m1 m2" and "same_outcome k Q n1 n2"
  shows "same_outcome k Q (io_then m1 n1) (io_then m2 n2)"
  unfolding io_then_def using assms(1) by (rule so_bind) (simp add: assms(2))

lemma so_try_catch:
  assumes "same_outcome k R m1 m2"
    and "\<And>err. same_outcome k R (h1 err) (h2 err)"
  shows "same_outcome k R (try_catch m1 h1) (try_catch m2 h2)"
proof (rule same_outcomeI)
  fix s1 s2 assume l: "later k s1 s2"
  obtain r1 t1 where m1: "m1 s1 = (r1, t1)" by (cases "m1 s1")
  obtain r2 t2 where m2: "m2 s2 = (r2, t2)" by (cases "m2 s2")
  from same_outcomeD[OF assms(1) l] m1 m2
  have r: "rel_sum (=) R r1 r2" and l': "later k t1 t2" by simp_all
  show "rel_sum (=) R (fst (try_catch m1 h1 s1)) (fst (try_catch m2 h2 s2))
        \<and> later k (snd (try_catch m1 h1 s1)) (snd (try_catch m2 h2 s2))"
  proof (cases r1)
    case (Inl a)
    with r have "r2 = Inl a" by (cases r2) simp_all
    with same_outcomeD[OF assms(2)[of a] l'] Inl m1 m2 show ?thesis by (simp add: try_catch_def)
  next
    case (Inr x)
    with r obtain y where y: "r2 = Inr y" "R x y" by (cases r2) simp_all
    with Inr m1 m2 l' show ?thesis by (simp add: try_catch_def)
  qed
qed

lemma so_now_bind:
  assumes "\<And>t. same_outcome k Q (f1 t) (f2 (t + k))"
  shows "same_outcome k Q (io_bind io_now f1) (io_bind io_now f2)"
proof (rule so_bind[where R="\<lambda>t1 t2. t2 = t1 + k"])
  show "same_outcome k (\<lambda>t1 t2. t2 = t1 + k) io_now io_now"
    by (simp add: same_outcome_def io_now_def later_def)
qed (simp add: assms)

lemma so_checkAuth: "same_outcome k (=) (checkAuth (request_shifted k req)) (checkAuth req)"
  by (cases "client_of req") (simp_all add: checkAuth_def so_throw so_ret)

lemma so_word_checkAuth:
  "same_outcome k (=) (word_checkAuth (env_shifted k e) (request_shifted k req))
     (word_checkAuth e req)"
  by (cases "client_of req") (simp_all add: word_checkAuth_def so_throw so_ret)

lemma mock_client_shifted: "mock_client (env_shifted k e) = client_shifted k (mock_client e)"
  by (simp add: mock_client_def client_shifted_def)

lemma so_md_checkAuth:
  "same_outcome k (\<lambda>r1 r2. r1 = request_shifted k r2)
     (md_checkAuth (env_shifted k e) (request_shifted k req)) (md_checkAuth e req)"
  by (cases req; cases "client_of req")
     (auto simp: md_checkAuth_def so_throw so_ret mock_client_shifted)

lemma fdata_shifted [simp]:
  "fdata_size (env_shifted k e) d = fdata_size e d"
  "fdata_text (env_shifted k e) d = fdata_text e d"
  by (cases d; simp add: fdata_size_def fdata_text_def)+

lemma so_axios:
  "same_outcome k (=) (\<lambda>s. (axios_get e (now s + k) t, emit (EvHttpGet t) s))
     (\<lambda>s. (axios_get e (now s) t, emit (EvHttpGet t) s))"
  by (simp add: same_outcome_def later_emit) (simp add: later_def sum.rel_refl)

lemma so_existsSync: "same_outcome k (=) (fs_existsSync p) (fs_existsSync p)"
  by (simp add: same_outcome_def fs_existsSync_def later_def)

lemma so_readFileSync:
  "same_outcome k (=) (fs_readFileSync (env_shifted k e) p) (fs_readFileSync e p)"
  by (auto simp: same_outcome_def fs_readFileSync_def later_def emit_def now_def Let_def
      split: option.splits)

lemma so_writeFileSync:
  "same_outcome k (=) (fs_writeFileSync (env_shifted k e) p d) (fs_writeFileSync e p d)"
  by (auto simp: same_outcome_def fs_writeFileSync_def later_def emit_def now_def Let_def
      split: option.splits)

lemma so_statSync:
  "same_outcome k (=) (fs_statSync_size (env_shifted k e) p) (fs_statSync_size e p)"
  by (auto simp: same_outcome_def fs_statSync_size_def later_def emit_def now_def Let_def
      split: option.splits)

lemma so_unlinkSync:
  "same_outcome k (=) (fs_unlinkSync (env_shifted k e) p) (fs_unlinkSync e p)"
  by (auto simp: same_outcome_def fs_unlinkSync_def later_def emit_def now_def Let_def
      split: option.splits)

lemma so_getTemplateContent:
  "same_outcome k (=) (getTemplateContent (env_shifted k e) v) (getTemplateContent e v)"
  by (cases v)
     (auto simp: getTemplateContent_def
           intro!: so_throw so_ret so_try_catch so_axios so_bind_eq so_readFileSync)

lemma so_resolveTemplateSource:
  "same_outcome k (=) (resolveTemplateSource (env_shifted k e) v) (resolveTemplateSource e v)"
  by (cases v)
     (auto simp: resolveTemplateSource_def
           intro!: so_throw so_ret so_try_catch so_axios so_bind_eq so_readFileSync
                   so_existsSync)

lemma so_mustache: "same_outcome k (=) (mustache (env_shifted k e) t d) (mustache e t d)"
  by (simp add: same_outcome_def mustache_def later_emit sum.rel_refl)

lemma so_marked: "same_outcome k (=) (marked (env_shifted k e) m) (marked e m)"
  by (simp add: same_outcome_def marked_def later_emit sum.rel_refl)

lemma to_str_shifted [simp]: "to_str (env_shifted k e) v = to_str e v"
  by (cases v) (simp_all add: to_str_def)

lemma get_prop_shifted [simp]: "get_prop (env_shifted k e) v p = get_prop e v p"
  by (cases v) simp_all

lemma finalFileName_shifted [simp]:
  "finalFileName (env_shifted k e) kind fileName t = finalFileName e kind fileName (t + k)"
  by (simp add: finalFileName_def Let_def)

lemma so_pdf_convert:
  "same_outcome k (=) (pdf_convertMarkdownToHTML (env_shifted k e) cfg m c)
     (pdf_convertMarkdownToHTML e cfg m c)"
  unfolding pdf_convertMarkdownToHTML_def Let_def
  by (intro so_bind_eq so_marked so_ret) simp

lemma so_word_convert:
  "same_outcome k (=) (word_convertMarkdownToHTML (env_shifted k e) m c)
     (word_convertMarkdownToHTML e m c)"
  unfolding word_convertMarkdownToHTML_def Let_def
  by (intro so_bind_eq so_marked so_ret) simp

lemma so_generatePDFFromHTML:
  "same_outcome k (=) (generatePDFFromHTML (env_shifted k e) cfg h f opts)
     (generatePDFFromHTML e cfg h f opts)"
  unfolding generatePDFFromHTML_def Let_def
  apply (intro so_try_catch so_throw)
  apply (auto simp: same_outcome_def later_def emit_def now_def split: sum.splits)
  done

lemma so_generateMarkdownFile:
  "same_outcome k (=) (generateMarkdownFile (env_shifted k e) cfg c f)
     (generateMarkdownFile e cfg c f)"
  unfolding generateMarkdownFile_def Let_def env_shifted_sel
  by (intro so_try_catch so_throw so_then so_writeFileSync so_ret) simp

lemma so_generateWordFromHTML:
  "same_outcome k (=) (generateWordFromHTML (env_shifted k e) cfg h f opts)
     (generateWordFromHTML e cfg h f opts)"
  unfolding generateWordFromHTML_def Let_def env_shifted_sel
  apply (intro so_try_catch so_throw so_bind_eq so_then so_writeFileSync so_ret)
   apply (auto simp: same_outcome_def later_def sum.rel_refl)
  done

lemma so_getPDFPageCount:
  "same_outcome k (=) (getPDFPageCount (env_shifted k e) p) (getPDFPageCount e p)"
  unfolding getPDFPageCount_def
  by (intro so_try_catch so_bind_eq so_statSync so_ret) simp_all

lemma so_upload:
  "same_outcome k (=) (upload (env_shifted k e) (client_shifted k c) folder mt ext p f)
     (upload e c folder mt ext p f)"
  by (auto simp: same_outcome_def upload_def Let_def later_def emit_def now_def sum.rel_refl
      split: sum.splits)

lemma so_uploadToPlatformStorage:
  "same_outcome k (=)
     (uploadToPlatformStorage (env_shifted k e) folder mt ext p f (request_shifted k req))
     (uploadToPlatformStorage e folder mt ext p f req)"
  by (cases "client_of req")
     (auto simp: uploadToPlatformStorage_def intro!: so_throw so_try_catch so_upload)

lemma later_cleanup_step:
  "later k s1 s2 \<Longrightarrow>
     later k (cleanup_step (env_shifted k e) inDir p s1) (cleanup_step e inDir p s2)"
  by (auto simp: cleanup_step_def later_def emit_def now_def split: option.splits)

lemma so_cleanup_loop:
  "same_outcome k (=) (cleanup_loop (env_shifted k e) inDir paths) (cleanup_loop e inDir paths)"
proof (induction paths)
  case Nil
  show ?case by (simp add: cleanup_loop.simps so_ret)
next
  case (Cons p ps)
  show ?case
  proof (rule same_outcomeI)
    fix s1 s2 assume "later k s1 s2"
    then have "later k (cleanup_step (env_shifted k e) inDir p s1) (cleanup_step e inDir p s2)"
      by (rule later_cleanup_step)
    from same_outcomeD(2)[OF Cons.IH this]
    show "rel_sum (=) (=) (fst (cleanup_loop (env_shifted k e) inDir (p # ps) s1))
            (fst (cleanup_loop e inDir (p # ps) s2))
          \<and> later k (snd (cleanup_loop (env_shifted k e) inDir (p # ps) s1))
              (snd (cleanup_loop e inDir (p # ps) s2))"
      by (simp add: cleanup_loop_Cons cleanup_loop_never_throws)
  qed
qed

lemma so_cleanupFiles:
  "same_outcome k (=) (cleanupFiles (env_shifted k e) cfg paths) (cleanupFiles e cfg paths)"
  unfolding cleanupFiles_def by (rule so_cleanup_loop)

lemma so_fill:
  "same_outcome k (=) (if c then mustache (env_shifted k e) t d else io_ret t)
     (if c then mustache e t d else io_ret t)"
  by (simp add: so_mustache so_ret)

lemma so_generatePDF:
  "same_outcome k (=)
     (generatePDF (env_shifted k e) cfg (opts\<lparr>pdf_req := request_shifted k (pdf_req opts)\<rparr>))
     (generatePDF e cfg opts)"
  unfolding generatePDF_def
  apply (rule so_then)
   apply (simp add: so_checkAuth)
  apply (simp add: so_throw)
  apply (intro impI conjI so_try_catch so_throw so_now_bind)
  apply (rule so_bind_eq, rule so_getTemplateContent)
  apply (rule so_bind_eq, rule so_mustache)
  apply (rule so_bind_eq, rule so_pdf_convert)
  apply (rule so_bind_eq, rule so_generatePDFFromHTML)
  apply (rule so_bind_eq, rule so_statSync)
  apply (rule so_bind_eq, rule so_getPDFPageCount)
  apply (rule so_bind_eq, rule so_uploadToPlatformStorage)
  apply (rule so_then, rule so_cleanupFiles)
  apply (rule so_now_bind, rule so_ret)
  apply simp
  done

lemma so_generateWord:
  "same_outcome k (=)
     (generateWord (env_shifted k e) cfg (opts\<lparr>word_req := request_shifted k (word_req opts)\<rparr>))
     (generateWord e cfg opts)"
  unfolding generateWord_def Let_def
  apply (rule so_then)
   apply (simp add: so_word_checkAuth)
  apply (simp add: so_throw)
  apply (intro impI conjI so_try_catch so_throw so_now_bind)
  apply (((rule so_bind_eq,
            rule so_resolveTemplateSource so_mustache so_word_convert so_generateWordFromHTML
              so_statSync so_uploadToPlatformStorage)+,
          rule so_then, rule so_cleanupFiles, rule so_now_bind, rule so_ret, simp)+)
  done

lemma so_generateMarkdown:
  "same_outcome k (=)
     (generateMarkdown (env_shifted k e) cfg (opts\<lparr>md_req := request_shifted k (md_req opts)\<rparr>))
     (generateMarkdown e cfg opts)"
  unfolding generateMarkdown_def Let_def
  apply (simp cong: if_cong)
  apply (rule so_bind[OF so_md_checkAuth])
  apply (simp add: so_throw cong: if_cong)
  apply (intro impI conjI so_try_catch so_throw so_now_bind)
  apply (((rule so_bind_eq,
            rule so_getTemplateContent so_fill so_mustache so_generateMarkdownFile so_statSync
              so_uploadToPlatformStorage so_ret_eq)+,
          rule so_then, rule so_cleanupFiles, rule so_now_bind, rule so_ret, simp)+)
  done

lemma same_outcome_fst:
  assumes "same_outcome k (=) m1 m2" "files s2 = files s1" "now s2 = now s1 + k"
  shows "fst (m2 s2) = fst (m1 s1)"
  using same_outcomeD(1)[OF assms(1), of s1 s2] assms(2,3)
  by (simp add: later_def sum.rel_eq)
subsection \<open>Evaluation on the concrete environment\<close>

lemmas gen_defs = checkAuth_def getTemplateContent_def mustache_def marked_def upload_def
  uploadToPlatformStorage_def cleanupFiles_def cleanup_loop.simps finalFileName_def
  to_str_def js_or_def startsWith_def

lemmas extractor_defs = extractText_def fetchToTemp_def getFileFromStorage_def
  getFileExtension_def isSupportedFormat_def supportedFormats_def extractTextByFormat_def
  extractFromPDF_def extractFromDOCX_def extractFromDOC_def extractFromXLSX_def
  extractFromXLS_def extractFromTXT_def ex_cleanupFiles_def cleanup_loop.simps checkAuth_def
  js_or_def startsWith_def

lemmas demo_defs = demo_sel demo_extname_def demo_toLowerCase_def lower_ascii_def ascii_def
  LF_def CR_def dec_eval Let_def

lemma demo_pdf_run:
  "fst (generatePDF demo_env demo_pdf_config demo_pdf_options demo_world) =
     Inr \<lparr>pdf_success = True,
        pdfURL = JStr (ascii ''https://storage.example/report_10000000.pdf''),
        pageCount = 3, pdf_fileSize = 128000,
        pdf_resultFileName = ascii ''report_10000000.pdf'',
        pdf_storageProvider = ascii ''platform'',
        pdf_generatedAt = ascii ''2023-11-14T22:13:20.7Z''\<rparr>"
  by (simp add: generatePDF_def demo_pdf_options_def demo_pdf_config_def gen_defs demo_defs
      io_defs fs_defs pdf_convertMarkdownToHTML_def generatePDFFromHTML_def getPDFPageCount_def
      round_def)

lemma demo_extract_run:
  "fst (io_then (checkAuth (rq_req demo_extract_request))
         (extractText demo_env demo_extractor_config (body_fileId demo_extract_request)
            (rq_req demo_extract_request)) demo_world) = Inr (replicate 150000 0x61)"
  by (simp add: demo_extract_request_def demo_extractor_config_def extractor_defs io_defs fs_defs
      demo_defs)

lemma demo_md_run:
  "fst (generateMarkdown demo_env demo_md_config demo_md_options demo_world) =
     Inr \<lparr>md_success = True,
        mdURL = JStr (ascii ''https://storage.example/notes_10000000.md''),
        lineCount = 3, md_fileSize = 14,
        md_resultFileName = ascii ''notes_10000000.md'',
        md_storageProvider = ascii ''platform'',
        md_generatedAt = ascii ''2023-11-14T22:13:20.4Z''\<rparr>"
  by (simp add: generateMarkdown_def md_checkAuth_def demo_md_options_def demo_md_config_def
      gen_defs demo_defs io_defs fs_defs generateMarkdownFile_def processMarkdown_def
      processLineEndings_def normalizeLineEndings_def cr_to_lf_def lf_to_def trim_end_def
      isWhiteSpace_def endsWith_def getLineCount_def)

lemma demo_word_run:
  "fst (generateWord demo_env demo_word_config demo_word_options demo_world) =
     Inr \<lparr>word_success = True,
        wordURL = JStr (ascii ''https://storage.example/letter_10000000.docx''),
        word_fileSize = 9000,
        word_resultFileName = ascii ''letter_10000000.docx'',
        word_storageProvider = ascii ''platform'',
        word_generatedAt = ascii ''2023-11-14T22:13:20.6Z''\<rparr>"
  by (simp add: generateWord_def word_checkAuth_def demo_word_options_def demo_word_config_def
      gen_defs demo_defs io_defs fs_defs generateWordFromHTML_def resolveTemplateSource_def
      word_convertMarkdownToHTML_def)



lemma demo_extract_direct:
  "extractText demo_env demo_extractor_config (JStr (ascii ''file-1'')) (Request (Some demo_client))
     demo_world =
   (Inr (replicate 150000 0x61),
    \<lparr>files = Map.empty,
     trace = [EvGetFile (ascii ''file-1''), EvGetFileContent (ascii ''file-1''),
              EvWriteFile demo_temp_path (FBuffer [0x25, 0x50, 0x44, 0x46]),
              EvReadFile demo_temp_path, EvParse demo_temp_path, EvUnlink demo_temp_path]\<rparr>)"
  by (simp add: demo_extractor_config_def extractor_defs io_defs fs_defs demo_defs
      demo_temp_path_def)

lemma faulty_extract:
  "extractText faulty_env demo_extractor_config (JStr (ascii ''file-1'')) (Request (Some demo_client))
     demo_world =
   (Inr (replicate 150000 0x61),
    \<lparr>files = [demo_temp_path \<mapsto> FBuffer [0x25, 0x50, 0x44, 0x46]],
     trace = [EvGetFile (ascii ''file-1''), EvGetFileContent (ascii ''file-1''),
              EvWriteFile demo_temp_path (FBuffer [0x25, 0x50, 0x44, 0x46]),
              EvReadFile demo_temp_path, EvParse demo_temp_path, EvUnlink demo_temp_path]\<rparr>)"
  by (simp add: demo_extractor_config_def extractor_defs io_defs fs_defs demo_defs
      demo_temp_path_def faulty_env_def)

lemma demo_exe_extract:
  "extractText demo_env demo_extractor_config (JStr (ascii ''file-1''))
     (Request (Some demo_exe_client)) demo_world =
   (Inl (Err (msg_text_extraction_failed @ msg_unsupported_format @ ascii ''exe''
              @ msg_supported_formats)),
    \<lparr>files = Map.empty, trace = [EvGetFile (ascii ''file-1'')]\<rparr>)"
  by (simp add: demo_extractor_config_def extractor_defs io_defs fs_defs demo_defs
      demo_exe_client_def)

lemma demo_file_names:
  "file_name_of demo_env (JObj [(ascii ''data'', JObj [(ascii ''name'', JStr (ascii ''Report.PDF''))])])
     = Some (JStr (ascii ''Report.PDF''))"
  "file_name_of demo_env (JObj [(ascii ''name'', JStr (ascii ''setup.exe''))])
     = Some (JStr (ascii ''setup.exe''))"
  "getFileExtension demo_env (JStr (ascii ''Report.PDF'')) = ascii ''pdf''"
  "getFileExtension demo_env (JStr (ascii ''setup.exe'')) = ascii ''exe''"
  by (simp_all add: file_name_of_def getFileExtension_def js_or_def demo_defs startsWith_def)


lemma demo_fetch:
  "fetchToTemp demo_env demo_extractor_config (ascii ''file-1'') demo_client demo_world
   = (Inr (demo_temp_path, ascii ''pdf''), demo_fetched_world)"
  by (simp add: demo_extractor_config_def extractor_defs io_defs fs_defs demo_defs
      demo_temp_path_def demo_fetched_world_def)

lemma demo_parse:
  "extractTextByFormat demo_env demo_temp_path (ascii ''pdf'') demo_fetched_world
   = (Inr (replicate 150000 0x61), demo_parsed_world)"
  by (simp add: demo_extractor_config_def extractor_defs io_defs fs_defs demo_defs
      demo_temp_path_def demo_fetched_world_def demo_parsed_world_def)

lemma demo_temp_path_in_tempDir:
  "includes_str demo_temp_path (ex_tempDir demo_extractor_config)"
  "demo_temp_path \<noteq> []"
  by (simp_all add: demo_extractor_config_def demo_temp_path_def startsWith_def ascii_def)

lemma demo_processMarkdown:
  "processMarkdown demo_md_config (ascii ''# Hello  '' @ [CR, LF] @ ascii ''world'') [CR, LF]
   = ascii ''# Hello'' @ [LF] @ ascii ''world'' @ [LF]"
  by (simp add: processMarkdown_def demo_md_config_def demo_defs
      processLineEndings_def normalizeLineEndings_def cr_to_lf_def lf_to_def trim_end_def
      isWhiteSpace_def endsWith_def)

lemma faulty_md_run:
  "generateMarkdown faulty_env demo_md_config demo_md_options demo_world =
     (Inr \<lparr>md_success = True,
        mdURL = JStr (ascii ''https://storage.example/notes_10000000.md''),
        lineCount = 3, md_fileSize = 14,
        md_resultFileName = ascii ''notes_10000000.md'',
        md_storageProvider = ascii ''platform'',
        md_generatedAt = ascii ''2023-11-14T22:13:20.4Z''\<rparr>,
      \<lparr>files = [ascii ''/tmp/markdown-generator/notes_10000000.md''
                  \<mapsto> FString (ascii ''# Hello'' @ [LF] @ ascii ''world'' @ [LF])],
       trace = [EvWriteFile (ascii ''/tmp/markdown-generator/notes_10000000.md'')
                  (FString (ascii ''# Hello'' @ [LF] @ ascii ''world'' @ [LF])),
                EvStat (ascii ''/tmp/markdown-generator/notes_10000000.md''),
                EvUpload (ascii ''/tmp/markdown-generator/notes_10000000.md'')
                  (ascii ''notes_10000000.md''),
                EvUnlink (ascii ''/tmp/markdown-generator/notes_10000000.md'')]\<rparr>)"
  by (simp add: generateMarkdown_def md_checkAuth_def demo_md_options_def demo_md_config_def
      gen_defs demo_defs io_defs fs_defs generateMarkdownFile_def processMarkdown_def
      processLineEndings_def normalizeLineEndings_def cr_to_lf_def lf_to_def trim_end_def
      isWhiteSpace_def endsWith_def getLineCount_def faulty_env_def)

lemma bad_pdf_env_sel:
  "toLowerCase bad_pdf_env = demo_toLowerCase"
  "fs_fault bad_pdf_env = (\<lambda>t op p. None)"
  "pdf_parse bad_pdf_env = (\<lambda>t d. Inl (Err (ascii ''Invalid PDF structure'')))"
  by (simp_all add: bad_pdf_env_def demo_env_sel)

lemma bad_pdf_fetch:
  "fetchToTemp bad_pdf_env demo_extractor_config (ascii ''file-1'') demo_client demo_world
   = (Inr (demo_temp_path, ascii ''pdf''), demo_fetched_world)"
  by (simp add: demo_extractor_config_def extractor_defs io_defs fs_defs demo_defs
      demo_temp_path_def demo_fetched_world_def bad_pdf_env_def)

lemma demo_pdf_supported:
  "isSupportedFormat demo_env (ascii ''pdf'')" "demo_toLowerCase (ascii ''pdf'') = ascii ''pdf''"
  by (simp_all add: isSupportedFormat_def supportedFormats_def demo_sel demo_toLowerCase_def
      lower_ascii_def ascii_def)

lemma demo_pdf_run_world:
  "snd (generatePDF demo_env demo_pdf_config demo_pdf_options demo_world) = demo_pdf_world_after"
  by (simp add: generatePDF_def demo_pdf_options_def demo_pdf_config_def gen_defs demo_defs
      io_defs fs_defs pdf_convertMarkdownToHTML_def generatePDFFromHTML_def getPDFPageCount_def
      round_def demo_pdf_world_after_def)

lemma demo_pdf_second_run:
  "fst (generatePDF demo_env demo_pdf_config demo_pdf_options demo_pdf_world_after) =
     Inr \<lparr>pdf_success = True,
        pdfURL = JStr (ascii ''https://storage.example/report_10000007.pdf''),
        pageCount = 3, pdf_fileSize = 128000,
        pdf_resultFileName = ascii ''report_10000007.pdf'',
        pdf_storageProvider = ascii ''platform'',
        pdf_generatedAt = ascii ''2023-11-14T22:13:20.14Z''\<rparr>"
  by (simp add: generatePDF_def demo_pdf_options_def demo_pdf_config_def gen_defs demo_defs
      io_defs fs_defs pdf_convertMarkdownToHTML_def generatePDFFromHTML_def getPDFPageCount_def
      round_def demo_pdf_world_after_def)
section \<open>The claims\<close>

text \<open>
  C9. A successful \<open>POST /extract\<close> returns at most 102400 characters: \<open>isTruncated\<close>
  holds exactly when the extracted text is longer than 102400 characters; the returned
  text is then its first 102400 characters, and the whole text otherwise;
  \<open>textLength\<close> is the length of the whole text and \<open>returnedLength\<close> the length of the
  returned text.
\<close>

theorem extract_response_truncation:
  assumes "fst (post_extract e cfg rq s) = SuccessResponse d m"
  shows "\<exists>fullText.
      fst (io_then (checkAuth (rq_req rq)) (extractText e cfg (body_fileId rq) (rq_req rq)) s)
        = Inr fullText
      \<and> textLength d = length fullText
      \<and> (isTruncated d \<longleftrightarrow> 102400 < length fullText)
      \<and> (isTruncated d \<longrightarrow> ed_text d = take 102400 fullText)
      \<and> (\<not> isTruncated d \<longrightarrow> ed_text d = fullText)
      \<and> returnedLength d = length (ed_text d)
      \<and> length (ed_text d) \<le> 102400"
proof -
  have v: "validateExtractText rq \<noteq> Some (SuccessResponse d m)"
    by (auto simp: validateExtractText_def sendErrorResponse_def split: jsval.splits)
  from assms v show ?thesis
    by (auto simp: post_extract_def sendSuccessResponse_def sendErrorResponse_def
          MAX_RESPONSE_TEXT_SIZE_def Let_def
        split: option.splits prod.splits sum.splits if_splits)
qed

theorem extract_response_truncation_witness:
  "\<exists>d m. fst (post_extract demo_env demo_extractor_config demo_extract_request demo_world)
             = SuccessResponse d m
         \<and> isTruncated d \<and> textLength d = 150000 \<and> returnedLength d = 102400
         \<and> ed_text d = replicate 102400 0x61"
proof -
  have val: "validateExtractText demo_extract_request = None"
    by (simp add: validateExtractText_def demo_extract_request_def ascii_def)
  obtain s1 where run:
    "io_then (checkAuth (rq_req demo_extract_request))
       (extractText demo_env demo_extractor_config (body_fileId demo_extract_request)
          (rq_req demo_extract_request)) demo_world = (Inr (replicate 150000 0x61), s1)"
    using demo_extract_run by (metis prod.collapse)
  obtain d m where ok:
    "fst (post_extract demo_env demo_extractor_config demo_extract_request demo_world)
       = SuccessResponse d m"
    by (simp add: post_extract_def val run Let_def sendSuccessResponse_def)
  from extract_response_truncation[OF ok] demo_extract_run
  have "textLength d = 150000" "isTruncated d" "ed_text d = take 102400 (replicate 150000 0x61)"
       "returnedLength d = length (ed_text d)"
    by auto
  with ok show ?thesis by auto
qed


text \<open>
  C10. The \<open>pageCount\<close> of a generated PDF is not read from the document. A successful
  \<open>generatePDF\<close> has had the renderer write the file at the output path, its \<open>fileSize\<close>
  is the size of that file, and its \<open>pageCount\<close> is \<open>max(1, round(size / 51200))\<close> of
  that same size, one page per 50 KB; it is 1 when the second stat of the file (the one
  that \<open>getPDFPageCount\<close> makes, at the moment \<open>t\<close>) fails. \<open>getPDFPageCount\<close> itself
  answers that estimate of the size of the file it is given, or 1 when the file cannot
  be stat'ed.
\<close>

theorem pdf_pageCount_estimate:
  "(generatePDF e cfg opts s = (Inr r, s') \<longrightarrow>
      (\<exists>p html b t.
          p = path_join e (outputDir cfg) (pdf_resultFileName r)
        \<and> t = now s + length (template_events (pdf_markdownTemplate opts)) + 4
        \<and> puppeteer_pdf e (t - 2) html (pdf_pdfOptions opts) = Inr b
        \<and> trace s' ! (t - 2) = EvRenderFile p
        \<and> trace s' ! (t - 1) = EvStat p \<and> trace s' ! t = EvStat p
        \<and> pdf_fileSize r = length b
        \<and> pageCount r = (if fs_fault e t OpStat p = None
                         then max 1 (round (real (length b) / (50 * 1024))) else 1)))
   \<and> fst (getPDFPageCount e pdfPath s) =
       Inr (case fst (fs_statSync_size e pdfPath s) of
              Inr fileSize \<Rightarrow> max 1 (int ((fileSize + 25600) div 51200))
            | Inl err \<Rightarrow> 1)"
proof (intro conjI impI)
  assume "generatePDF e cfg opts s = (Inr r, s')"
  then show "\<exists>p html b t.
          p = path_join e (outputDir cfg) (pdf_resultFileName r)
        \<and> t = now s + length (template_events (pdf_markdownTemplate opts)) + 4
        \<and> puppeteer_pdf e (t - 2) html (pdf_pdfOptions opts) = Inr b
        \<and> trace s' ! (t - 2) = EvRenderFile p
        \<and> trace s' ! (t - 1) = EvStat p \<and> trace s' ! t = EvStat p
        \<and> pdf_fileSize r = length b
        \<and> pageCount r = (if fs_fault e t OpStat p = None
                         then max 1 (round (real (length b) / (50 * 1024))) else 1)"
    by (rule generatePDF_pageCount)
next
  show "fst (getPDFPageCount e pdfPath s) =
       Inr (case fst (fs_statSync_size e pdfPath s) of
              Inr fileSize \<Rightarrow> max 1 (int ((fileSize + 25600) div 51200))
            | Inl err \<Rightarrow> 1)"
    by (simp add: getPDFPageCount_result round_page_estimate_51200 split: sum.splits)
qed

theorem pdf_pageCount_estimate_witness:
  "\<exists>r. fst (generatePDF demo_env demo_pdf_config demo_pdf_options demo_world) = Inr r
       \<and> pdf_fileSize r = 128000 \<and> pageCount r = 3"
proof -
  obtain r where r: "fst (generatePDF demo_env demo_pdf_config demo_pdf_options demo_world) = Inr r"
    and sz: "pdf_fileSize r = 128000"
    using demo_pdf_run by simp
  then have run: "generatePDF demo_env demo_pdf_config demo_pdf_options demo_world
      = (Inr r, snd (generatePDF demo_env demo_pdf_config demo_pdf_options demo_world))"
    by (metis prod.collapse)
  from pdf_pageCount_estimate[of demo_env demo_pdf_config demo_pdf_options demo_world r,
      THEN conjunct1, rule_format, OF run]
  obtain p html and b :: buffer and t where sz': "pdf_fileSize r = length b"
    and pc: "pageCount r = (if fs_fault demo_env t OpStat p = None
                         then max 1 (round (real (length b) / (50 * 1024))) else 1)"
    by blast
  from pc sz' have "pageCount r = max 1 (round (real (pdf_fileSize r) / (50 * 1024)))"
    by (simp add: demo_sel)
  with sz have "pageCount r = 3" by (simp add: round_def)
  with r sz show ?thesis by blast
qed



text \<open>
  C2. Every generation operation validates its input before it calls a rendering
  library or produces any effect: \<open>generatePDF\<close> throws when \<open>markdownTemplate\<close> is falsy
  or \<open>templateData\<close> is \<open>null\<close>, \<open>undefined\<close>, an array or not an object;
  \<open>generateMarkdown\<close> throws when \<open>markdownContent\<close> is falsy or not a string, or a
  supplied \<open>templateData\<close> is an array or not an object; \<open>generateWord\<close> throws when
  \<open>markdownTemplate\<close> is falsy or \<open>templateData\<close> is \<open>null\<close> or an array. In each case the
  world is left as it was: nothing is rendered, written or uploaded.
\<close>

theorem validation_before_effects:
  "((\<not> truthy (pdf_markdownTemplate po) \<or> pdf_templateData po = JNull
      \<or> pdf_templateData po = JUndefined \<or> isArray (pdf_templateData po)
      \<or> typeof (pdf_templateData po) \<noteq> TObject)
     \<longrightarrow> (\<exists>err. generatePDF e pcfg po s = (Inl err, s)))
   \<and> ((\<not> truthy (md_markdownContent mo) \<or> typeof (md_markdownContent mo) \<noteq> TString
        \<or> (md_templateData mo \<noteq> JUndefined \<and> md_templateData mo \<noteq> JNull
            \<and> (isArray (md_templateData mo) \<or> typeof (md_templateData mo) \<noteq> TObject)))
     \<longrightarrow> (\<exists>err. generateMarkdown e mcfg mo s = (Inl err, s)))
   \<and> ((\<not> truthy (word_markdownTemplate wo) \<or> word_templateData wo = JNull
        \<or> isArray (word_templateData wo))
     \<longrightarrow> (\<exists>err. generateWord e wcfg wo s = (Inl err, s)))"
proof (intro conjI impI)
  assume "\<not> truthy (pdf_markdownTemplate po) \<or> pdf_templateData po = JNull
      \<or> pdf_templateData po = JUndefined \<or> isArray (pdf_templateData po)
      \<or> typeof (pdf_templateData po) \<noteq> TObject"
  then show "\<exists>err. generatePDF e pcfg po s = (Inl err, s)"
    by (cases "client_of (pdf_req po)")
       (auto simp: generatePDF_def checkAuth_def io_then_def io_bind_def io_throw_def io_ret_def)
next
  assume "\<not> truthy (md_markdownContent mo) \<or> typeof (md_markdownContent mo) \<noteq> TString
        \<or> (md_templateData mo \<noteq> JUndefined \<and> md_templateData mo \<noteq> JNull
            \<and> (isArray (md_templateData mo) \<or> typeof (md_templateData mo) \<noteq> TObject))"
  moreover have "(\<exists>err. md_checkAuth e (md_req mo) s = (Inl err, s))
                 \<or> (\<exists>req'. md_checkAuth e (md_req mo) s = (Inr req', s))"
    by (auto simp: md_checkAuth_def io_throw_def io_ret_def split: option.splits request.splits)
  ultimately show "\<exists>err. generateMarkdown e mcfg mo s = (Inl err, s)"
    by (auto simp: generateMarkdown_def io_bind_def io_throw_def Let_def)
next
  assume "\<not> truthy (word_markdownTemplate wo) \<or> word_templateData wo = JNull
        \<or> isArray (word_templateData wo)"
  moreover have "(\<exists>err. word_checkAuth e (word_req wo) s = (Inl err, s))
                 \<or> word_checkAuth e (word_req wo) s = (Inr (), s)"
    by (auto simp: word_checkAuth_def io_throw_def io_ret_def Let_def split: option.splits)
  ultimately show "\<exists>err. generateWord e wcfg wo s = (Inl err, s)"
    by (auto simp: generateWord_def io_then_def io_bind_def io_throw_def Let_def)
qed

theorem validation_before_effects_witness:
  "generatePDF demo_env demo_pdf_config (demo_pdf_options\<lparr>pdf_templateData := JArr []\<rparr>)
       demo_world = (Inl (Err msg_template_data_invalid), demo_world)
   \<and> generateMarkdown demo_env demo_md_config (demo_md_options\<lparr>md_markdownContent := JNum 5\<rparr>)
       demo_world = (Inl (Err msg_markdown_required), demo_world)
   \<and> generateWord demo_env demo_word_config (demo_word_options\<lparr>word_templateData := JNull\<rparr>)
       demo_world = (Inl (Err msg_template_data_object), demo_world)"
proof -
  from validation_before_effects[where e=demo_env and s=demo_world
      and po="demo_pdf_options\<lparr>pdf_templateData := JArr []\<rparr>" and pcfg=demo_pdf_config
      and mo="demo_md_options\<lparr>md_markdownContent := JNum 5\<rparr>" and mcfg=demo_md_config
      and wo="demo_word_options\<lparr>word_templateData := JNull\<rparr>" and wcfg=demo_word_config]
  obtain e1 e2 e3 where
    "generatePDF demo_env demo_pdf_config (demo_pdf_options\<lparr>pdf_templateData := JArr []\<rparr>)
       demo_world = (Inl e1, demo_world)"
    "generateMarkdown demo_env demo_md_config (demo_md_options\<lparr>md_markdownContent := JNum 5\<rparr>)
       demo_world = (Inl e2, demo_world)"
    "generateWord demo_env demo_word_config (demo_word_options\<lparr>word_templateData := JNull\<rparr>)
       demo_world = (Inl e3, demo_world)"
    by (auto simp: demo_pdf_options_def demo_md_options_def demo_word_options_def)
  moreover have
    "fst (generatePDF demo_env demo_pdf_config (demo_pdf_options\<lparr>pdf_templateData := JArr []\<rparr>)
       demo_world) = Inl (Err msg_template_data_invalid)"
    "fst (generateMarkdown demo_env demo_md_config (demo_md_options\<lparr>md_markdownContent := JNum 5\<rparr>)
       demo_world) = Inl (Err msg_markdown_required)"
    "fst (generateWord demo_env demo_word_config (demo_word_options\<lparr>word_templateData := JNull\<rparr>)
       demo_world) = Inl (Err msg_template_data_object)"
    by (simp_all add: generatePDF_def generateMarkdown_def generateWord_def checkAuth_def
        md_checkAuth_def word_checkAuth_def demo_pdf_options_def demo_md_options_def
        demo_word_options_def demo_defs io_defs)
  ultimately show ?thesis by simp
qed

text \<open>
  C3. \<open>extractText\<close> succeeds only for a file whose name has one of the extensions
  \<open>pdf\<close>, \<open>doc\<close>, \<open>docx\<close>, \<open>xls\<close>, \<open>xlsx\<close>, \<open>txt\<close> (compared in lower case); for a file
  with any other extension, or none, it throws the error of an unsupported format, and
  the only effect it has had is the request for the file information: the content is
  never downloaded.
\<close>

theorem extractText_supported_formats_only:
  "(extractText e cfg fileId req s = (Inr content, s') \<longrightarrow>
      (\<exists>fid c fileInfoResponse fileName.
          fileId = JStr fid \<and> client_of req = Some c
          \<and> storage_getFile c (now s) fid = Inr fileInfoResponse
          \<and> file_name_of e fileInfoResponse = Some fileName
          \<and> toLowerCase e (getFileExtension e fileName)
              \<in> {ascii ''pdf'', ascii ''doc'', ascii ''docx'', ascii ''xls'', ascii ''xlsx'',
                  ascii ''txt''}))
   \<and> (fid \<noteq> [] \<and> client_of req = Some c
       \<and> storage_getFile c (now s) fid = Inr fileInfoResponse
       \<and> file_name_of e fileInfoResponse = Some fileName
       \<and> toLowerCase e (getFileExtension e fileName)
           \<notin> {ascii ''pdf'', ascii ''doc'', ascii ''docx'', ascii ''xls'', ascii ''xlsx'',
               ascii ''txt''}
      \<longrightarrow> extractText e cfg (JStr fid) req s =
            (Inl (Err (msg_text_extraction_failed @ msg_unsupported_format
                       @ getFileExtension e fileName @ msg_supported_formats)),
             emit (EvGetFile fid) s))"
proof (intro conjI impI)
  assume ok: "extractText e cfg fileId req s = (Inr content, s')"
  then obtain fid where fid: "fileId = JStr fid" "fid \<noteq> []"
    by (auto simp: extractText_def io_throw_def split: jsval.splits if_splits)
  from ok fid obtain c where c: "client_of req = Some c"
    by (cases "client_of req")
       (auto simp: extractText_def checkAuth_def io_then_def io_bind_def io_throw_def)
  from ok fid c obtain p ext s1 where "fetchToTemp e cfg fid c s = (Inr (p, ext), s1)"
    by (auto simp: extractText_valid split: prod.splits sum.splits)
  from fetchToTemp_Inr[OF this] fid c
  show "\<exists>fid c fileInfoResponse fileName.
          fileId = JStr fid \<and> client_of req = Some c
          \<and> storage_getFile c (now s) fid = Inr fileInfoResponse
          \<and> file_name_of e fileInfoResponse = Some fileName
          \<and> toLowerCase e (getFileExtension e fileName)
              \<in> {ascii ''pdf'', ascii ''doc'', ascii ''docx'', ascii ''xls'', ascii ''xlsx'',
                  ascii ''txt''}"
    by (auto simp: isSupportedFormat_def supportedFormats_def)
next
  assume a: "fid \<noteq> [] \<and> client_of req = Some c
       \<and> storage_getFile c (now s) fid = Inr fileInfoResponse
       \<and> file_name_of e fileInfoResponse = Some fileName
       \<and> toLowerCase e (getFileExtension e fileName)
           \<notin> {ascii ''pdf'', ascii ''doc'', ascii ''docx'', ascii ''xls'', ascii ''xlsx'',
               ascii ''txt''}"
  then have "\<not> isSupportedFormat e (getFileExtension e fileName)"
    by (simp add: isSupportedFormat_def supportedFormats_def)
  with a have "fetchToTemp e cfg fid c s =
     (Inl (Err (msg_unsupported_format @ getFileExtension e fileName @ msg_supported_formats)),
      emit (EvGetFile fid) s)"
    by (intro fetchToTemp_unsupported) auto
  with a show "extractText e cfg (JStr fid) req s =
            (Inl (Err (msg_text_extraction_failed @ msg_unsupported_format
                       @ getFileExtension e fileName @ msg_supported_formats)),
             emit (EvGetFile fid) s)"
    by (simp add: extractText_valid)
qed

theorem extractText_supported_formats_only_witness:
  "(\<exists>text s'. extractText demo_env demo_extractor_config (JStr (ascii ''file-1''))
                 (Request (Some demo_client)) demo_world = (Inr text, s')
       \<and> demo_toLowerCase (getFileExtension demo_env (JStr (ascii ''Report.PDF''))) = ascii ''pdf'')
   \<and> extractText demo_env demo_extractor_config (JStr (ascii ''file-1''))
        (Request (Some demo_exe_client)) demo_world =
      (Inl (Err (msg_text_extraction_failed @ msg_unsupported_format @ ascii ''exe''
                 @ msg_supported_formats)),
       \<lparr>files = Map.empty, trace = [EvGetFile (ascii ''file-1'')]\<rparr>)"
proof (intro conjI)
  obtain tx s' where run: "extractText demo_env demo_extractor_config (JStr (ascii ''file-1''))
                 (Request (Some demo_client)) demo_world = (Inr tx, s')"
    using demo_extract_direct by blast
  from extractText_supported_formats_only[where e=demo_env and cfg=demo_extractor_config
      and fileId="JStr (ascii ''file-1'')" and req="Request (Some demo_client)"
      and s=demo_world and content=tx and s'=s', THEN conjunct1] run
  obtain fileInfoResponse fileName where
    g: "storage_getFile demo_client (now demo_world) (ascii ''file-1'') = Inr fileInfoResponse"
    and n: "file_name_of demo_env fileInfoResponse = Some fileName"
    and x: "toLowerCase demo_env (getFileExtension demo_env fileName)
              \<in> {ascii ''pdf'', ascii ''doc'', ascii ''docx'', ascii ''xls'', ascii ''xlsx'',
                  ascii ''txt''}"
    by auto
  from g have "fileInfoResponse
      = JObj [(ascii ''data'', JObj [(ascii ''name'', JStr (ascii ''Report.PDF''))])]"
    by (simp add: demo_sel)
  with n have "fileName = JStr (ascii ''Report.PDF'')" by (simp add: demo_file_names)
  with x have "demo_toLowerCase (getFileExtension demo_env (JStr (ascii ''Report.PDF'')))
       \<in> {ascii ''pdf'', ascii ''doc'', ascii ''docx'', ascii ''xls'', ascii ''xlsx'',
                  ascii ''txt''}"
    by (simp add: demo_sel)
  then have "demo_toLowerCase (getFileExtension demo_env (JStr (ascii ''Report.PDF''))) = ascii ''pdf''"
    unfolding demo_file_names by (simp add: demo_toLowerCase_def lower_ascii_def ascii_def)
  with run show "\<exists>text s'. extractText demo_env demo_extractor_config (JStr (ascii ''file-1''))
                 (Request (Some demo_client)) demo_world = (Inr text, s')
       \<and> demo_toLowerCase (getFileExtension demo_env (JStr (ascii ''Report.PDF''))) = ascii ''pdf''"
    by blast
next
  have h: "ascii ''file-1'' \<noteq> [] \<and> client_of (Request (Some demo_exe_client)) = Some demo_exe_client
       \<and> storage_getFile demo_exe_client (now demo_world) (ascii ''file-1'')
           = Inr (JObj [(ascii ''name'', JStr (ascii ''setup.exe''))])
       \<and> file_name_of demo_env (JObj [(ascii ''name'', JStr (ascii ''setup.exe''))])
           = Some (JStr (ascii ''setup.exe''))
       \<and> toLowerCase demo_env (getFileExtension demo_env (JStr (ascii ''setup.exe'')))
           \<notin> {ascii ''pdf'', ascii ''doc'', ascii ''docx'', ascii ''xls'', ascii ''xlsx'',
               ascii ''txt''}"
    unfolding demo_file_names
    by (simp add: demo_exe_client_def demo_sel demo_toLowerCase_def lower_ascii_def ascii_def)
  from extractText_supported_formats_only[where e=demo_env and cfg=demo_extractor_config
      and s=demo_world, THEN conjunct2, rule_format, OF h]
  show "extractText demo_env demo_extractor_config (JStr (ascii ''file-1''))
        (Request (Some demo_exe_client)) demo_world =
      (Inl (Err (msg_text_extraction_failed @ msg_unsupported_format @ ascii ''exe''
                 @ msg_supported_formats)),
       \<lparr>files = Map.empty, trace = [EvGetFile (ascii ''file-1'')]\<rparr>)"
    unfolding demo_file_names by (simp add: emit_def demo_world_def)
qed





text \<open>
  C5 as stated fails: with a deletion that fails (the error is swallowed by
  \<open>cleanupFiles\<close>), \<open>extractText\<close> returns the text while the temp file it wrote is still
  there.
\<close>

theorem extractText_temp_file_left_behind:
  "files demo_world demo_temp_path = None
   \<and> fst (extractText faulty_env demo_extractor_config (JStr (ascii ''file-1''))
            (Request (Some demo_client)) demo_world) = Inr (replicate 150000 0x61)
   \<and> files (snd (extractText faulty_env demo_extractor_config (JStr (ascii ''file-1''))
                   (Request (Some demo_client)) demo_world)) demo_temp_path
       = Some (FBuffer [0x25, 0x50, 0x44, 0x46])
   \<and> includes_str demo_temp_path (ex_tempDir demo_extractor_config)"
  unfolding faulty_extract by (simp add: demo_world_def demo_temp_path_in_tempDir)

text \<open>
  C5, amended. \<open>cleanupFiles\<close> (of the generators and of the extractor) never throws,
  and the only change it makes to the files is to delete paths among its arguments
  that exist and contain the temp directory (or, for the generators, the output
  directory). When \<open>extractText\<close> has written its temp file at \<open>p\<close>, the file is there
  after the download, and it is gone when \<open>extractText\<close> returns or throws, provided
  that \<open>p\<close> contains the temp directory and that the deletion does not fail.
\<close>

theorem cleanup_best_effort_and_confined:
  "fst (cleanupFiles e gcfg paths s) = Inr ()
   \<and> fst (ex_cleanupFiles e cfg paths s) = Inr ()
   \<and> (files (snd (cleanupFiles e gcfg paths s)) q \<noteq> files s q \<longrightarrow>
        q \<in> set paths \<and> files s q \<noteq> None
        \<and> (includes_str q (tempDir gcfg) \<or> includes_str q (outputDir gcfg))
        \<and> files (snd (cleanupFiles e gcfg paths s)) q = None)
   \<and> (files (snd (ex_cleanupFiles e cfg paths s)) q \<noteq> files s q \<longrightarrow>
        q \<in> set paths \<and> files s q \<noteq> None \<and> includes_str q (ex_tempDir cfg)
        \<and> files (snd (ex_cleanupFiles e cfg paths s)) q = None)
   \<and> (fid \<noteq> [] \<and> client_of req = Some c
       \<and> fetchToTemp e cfg fid c s = (Inr (p, ext), s1)
       \<and> extractTextByFormat e p ext s1 = (r, s2)
       \<and> p \<noteq> [] \<and> includes_str p (ex_tempDir cfg) \<and> fs_fault e (now s2) OpUnlink p = None
      \<longrightarrow> files s1 p \<noteq> None
          \<and> files (snd (extractText e cfg (JStr fid) req s)) p = None)"
proof -
  have 1: "fst (cleanupFiles e gcfg paths s) = Inr ()"
    by (simp add: cleanupFiles_def cleanup_loop_never_throws)
  have 2: "fst (ex_cleanupFiles e cfg paths s) = Inr ()"
    by (simp add: ex_cleanupFiles_def cleanup_loop_never_throws)
  have 3: "files (snd (cleanupFiles e gcfg paths s)) q \<noteq> files s q \<longrightarrow>
        q \<in> set paths \<and> files s q \<noteq> None
        \<and> (includes_str q (tempDir gcfg) \<or> includes_str q (outputDir gcfg))
        \<and> files (snd (cleanupFiles e gcfg paths s)) q = None"
    unfolding cleanupFiles_def
    using cleanup_loop_files[of e "\<lambda>filePath. includes_str filePath (tempDir gcfg)
        \<or> includes_str filePath (outputDir gcfg)" paths s q] by blast
  have 4: "files (snd (ex_cleanupFiles e cfg paths s)) q \<noteq> files s q \<longrightarrow>
        q \<in> set paths \<and> files s q \<noteq> None \<and> includes_str q (ex_tempDir cfg)
        \<and> files (snd (ex_cleanupFiles e cfg paths s)) q = None"
    unfolding ex_cleanupFiles_def
    using cleanup_loop_files[of e "\<lambda>filePath. includes_str filePath (ex_tempDir cfg)"
        paths s q] by blast
  have 5: "fid \<noteq> [] \<and> client_of req = Some c
       \<and> fetchToTemp e cfg fid c s = (Inr (p, ext), s1)
       \<and> extractTextByFormat e p ext s1 = (r, s2)
       \<and> p \<noteq> [] \<and> includes_str p (ex_tempDir cfg) \<and> fs_fault e (now s2) OpUnlink p = None
      \<longrightarrow> files s1 p \<noteq> None
          \<and> files (snd (extractText e cfg (JStr fid) req s)) p = None"
  proof (intro impI conjI)
    assume a: "fid \<noteq> [] \<and> client_of req = Some c
       \<and> fetchToTemp e cfg fid c s = (Inr (p, ext), s1)
       \<and> extractTextByFormat e p ext s1 = (r, s2)
       \<and> p \<noteq> [] \<and> includes_str p (ex_tempDir cfg) \<and> fs_fault e (now s2) OpUnlink p = None"
    then show "files s1 p \<noteq> None"
      by (intro fetchToTemp_creates[of e cfg fid c s p ext s1]) simp
    from a have "snd (extractText e cfg (JStr fid) req s)
         = cleanup_step e (\<lambda>filePath. includes_str filePath (ex_tempDir cfg)) p s2"
      by (intro extractText_cleans) auto
    with a show "files (snd (extractText e cfg (JStr fid) req s)) p = None"
      by (simp add: cleanup_step_deletes)
  qed
  show ?thesis by (rule conjI[OF 1 conjI[OF 2 conjI[OF 3 conjI[OF 4 5]]]])
qed

theorem cleanup_best_effort_and_confined_witness:
  "fst (ex_cleanupFiles faulty_env demo_extractor_config [demo_temp_path] demo_parsed_world)
     = Inr ()
   \<and> files (snd (ex_cleanupFiles demo_env demo_extractor_config
                   [ascii ''/etc/passwd'', demo_temp_path] demo_parsed_world)) demo_temp_path
     = None
   \<and> files demo_fetched_world demo_temp_path \<noteq> None
   \<and> files (snd (extractText demo_env demo_extractor_config (JStr (ascii ''file-1''))
                   (Request (Some demo_client)) demo_world)) demo_temp_path = None"
proof (intro conjI)
  note inst = cleanup_best_effort_and_confined[where e=demo_env and cfg=demo_extractor_config
      and s=demo_world and fid="ascii ''file-1''" and req="Request (Some demo_client)"
      and c=demo_client and p=demo_temp_path and ext="ascii ''pdf''" and ?s1.0=demo_fetched_world
      and r="Inr (replicate 150000 0x61)" and ?s2.0=demo_parsed_world]
  show "fst (ex_cleanupFiles faulty_env demo_extractor_config [demo_temp_path] demo_parsed_world)
     = Inr ()"
    by (rule cleanup_best_effort_and_confined[where e=faulty_env and cfg=demo_extractor_config
        and paths="[demo_temp_path]" and s=demo_parsed_world, THEN conjunct2, THEN conjunct1])
  have ne: "ascii ''/etc/passwd'' \<noteq> demo_temp_path"
    by (simp add: demo_temp_path_def ascii_def)
  have ch: "files (snd (ex_cleanupFiles demo_env demo_extractor_config
                   [ascii ''/etc/passwd'', demo_temp_path] demo_parsed_world)) demo_temp_path
      \<noteq> files demo_parsed_world demo_temp_path"
    by (simp add: ex_cleanupFiles_def cleanup_loop_Cons cleanup_loop.simps(1) io_ret_def
        cleanup_step_def demo_temp_path_in_tempDir demo_parsed_world_def demo_sel emit_def
        now_def ne)
  from cleanup_best_effort_and_confined[where e=demo_env and cfg=demo_extractor_config
        and paths="[ascii ''/etc/passwd'', demo_temp_path]" and s=demo_parsed_world
        and q=demo_temp_path, THEN conjunct2, THEN conjunct2, THEN conjunct2, THEN conjunct1,
        rule_format, OF ch]
  show "files (snd (ex_cleanupFiles demo_env demo_extractor_config
                   [ascii ''/etc/passwd'', demo_temp_path] demo_parsed_world)) demo_temp_path
     = None" by simp
  have h: "ascii ''file-1'' \<noteq> [] \<and> client_of (Request (Some demo_client)) = Some demo_client
       \<and> fetchToTemp demo_env demo_extractor_config (ascii ''file-1'') demo_client demo_world
           = (Inr (demo_temp_path, ascii ''pdf''), demo_fetched_world)
       \<and> extractTextByFormat demo_env demo_temp_path (ascii ''pdf'') demo_fetched_world
           = (Inr (replicate 150000 0x61), demo_parsed_world)
       \<and> demo_temp_path \<noteq> [] \<and> includes_str demo_temp_path (ex_tempDir demo_extractor_config)
       \<and> fs_fault demo_env (now demo_parsed_world) OpUnlink demo_temp_path = None"
    by (intro conjI demo_fetch demo_parse demo_temp_path_in_tempDir)
       (simp_all add: demo_sel ascii_def)
  note r = inst[THEN conjunct2, THEN conjunct2, THEN conjunct2, THEN conjunct2, rule_format, OF h]
  from r show "files demo_fetched_world demo_temp_path \<noteq> None" by simp
  from r show "files (snd (extractText demo_env demo_extractor_config (JStr (ascii ''file-1''))
                   (Request (Some demo_client)) demo_world)) demo_temp_path = None" by simp
qed

text \<open>
  C8. Under the default configuration (trailing whitespace trimmed, trailing newline
  ensured, line endings normalised) and for a line ending among \<open>\n\<close>, \<open>\r\n\<close> and \<open>\r\<close>
  (or none given), the result of \<open>processMarkdown\<close> contains no carriage return and ends
  with a line feed; and a successful \<open>generateMarkdown\<close> writes exactly one string to a
  file, which is such a result: the requested \<open>\r\n\<close> or \<open>\r\<close> never reaches the file.
\<close>

theorem markdown_file_has_no_carriage_return:
  "(md_default cfg \<and> lineEnding \<in> {[LF], [CR, LF], [CR]} \<longrightarrow>
      CR \<notin> set (processMarkdown cfg markdown lineEnding)
      \<and> endsWith (processMarkdown cfg markdown lineEnding) [LF])
   \<and> (md_default cfg \<and> md_lineEnding opts \<in> {None, Some [LF], Some [CR, LF], Some [CR]}
       \<and> generateMarkdown e cfg opts s = (Inr r, s') \<longrightarrow>
       (\<exists>content. written_strings (drop (length (trace s)) (trace s')) = [content]
           \<and> CR \<notin> set content \<and> endsWith content [LF]))"
proof (intro conjI impI)
  assume a: "md_default cfg \<and> lineEnding \<in> {[LF], [CR, LF], [CR]}"
  then show "CR \<notin> set (processMarkdown cfg markdown lineEnding)"
    by (intro processMarkdown_default(1)) auto
  from a show "endsWith (processMarkdown cfg markdown lineEnding) [LF]"
    by (intro processMarkdown_default(2)) auto
next
  assume a: "md_default cfg \<and> md_lineEnding opts \<in> {None, Some [LF], Some [CR, LF], Some [CR]}
       \<and> generateMarkdown e cfg opts s = (Inr r, s')"
  then obtain filledMarkdown where w:
    "written_strings (drop (length (trace s)) (trace s'))
       = [processMarkdown cfg filledMarkdown
            (case md_lineEnding opts of None \<Rightarrow> [LF] | Some l \<Rightarrow> l)]"
    using generateMarkdown_written by blast
  from a have le: "(case md_lineEnding opts of None \<Rightarrow> [LF] | Some l \<Rightarrow> l)
                   \<in> {[LF], [CR, LF], [CR]}"
    by (auto split: option.splits)
  from a have d: "md_default cfg" by simp
  from w processMarkdown_default[OF d le]
  show "\<exists>content. written_strings (drop (length (trace s)) (trace s')) = [content]
           \<and> CR \<notin> set content \<and> endsWith content [LF]"
    by blast
qed

theorem markdown_file_has_no_carriage_return_witness:
  "processMarkdown demo_md_config (ascii ''# Hello  '' @ [CR, LF] @ ascii ''world'') [CR, LF]
     = ascii ''# Hello'' @ [LF] @ ascii ''world'' @ [LF]
   \<and> CR \<notin> set (ascii ''# Hello'' @ [LF] @ ascii ''world'' @ [LF])
   \<and> endsWith (ascii ''# Hello'' @ [LF] @ ascii ''world'' @ [LF]) [LF]
   \<and> (\<exists>content.
         written_strings (trace (snd (generateMarkdown demo_env demo_md_config demo_md_options
                                        demo_world))) = [content]
         \<and> CR \<notin> set content \<and> endsWith content [LF])"
proof -
  have d: "md_default demo_md_config" by (simp add: md_default_def demo_md_config_def)
  have h1: "md_default demo_md_config \<and> [CR, LF] \<in> {[LF], [CR, LF], [CR]}"
    using d by simp
  note p = markdown_file_has_no_carriage_return[where cfg=demo_md_config
      and lineEnding="[CR, LF]" and markdown="ascii ''# Hello  '' @ [CR, LF] @ ascii ''world''",
      THEN conjunct1, rule_format, OF h1, unfolded demo_processMarkdown]
  obtain r s' where run:
    "generateMarkdown demo_env demo_md_config demo_md_options demo_world = (Inr r, s')"
    using demo_md_run by (metis prod.collapse)
  have tr0: "trace demo_world = []" by (simp add: demo_world_def)
  have h2: "md_default demo_md_config
       \<and> md_lineEnding demo_md_options \<in> {None, Some [LF], Some [CR, LF], Some [CR]}
       \<and> generateMarkdown demo_env demo_md_config demo_md_options demo_world = (Inr r, s')"
    using d run by (simp add: demo_md_options_def)
  from markdown_file_has_no_carriage_return[where cfg=demo_md_config and opts=demo_md_options
      and e=demo_env and s=demo_world and r=r and s'=s', THEN conjunct2, rule_format, OF h2]
  have q: "\<exists>content.
         written_strings (trace (snd (generateMarkdown demo_env demo_md_config demo_md_options
                                        demo_world))) = [content]
         \<and> CR \<notin> set content \<and> endsWith content [LF]"
    using tr0 by (simp add: run)
  from p q demo_processMarkdown show ?thesis by blast
qed




end
